theory Spec2Isabelle
  imports Complex_Main "HOL-Library.Word" "HOL-Library.Monad_Syntax"
begin

section \<open>Conventions\<close>

text \<open>
  The DSP core of the crossover computes on C \<^verbatim>\<open>float\<close>. A \<^verbatim>\<open>float\<close> is modelled
  as a \<^typ>\<open>real\<close>: \<^verbatim>\<open>powf\<close>, \<^verbatim>\<open>log10f\<close>, \<^verbatim>\<open>expf\<close>, \<^verbatim>\<open>sinf\<close>, \<^verbatim>\<open>cosf\<close> and
  \<^verbatim>\<open>fabsf\<close> are the real functions, rounding, infinities and NaN are not modelled.
  The theorems below are therefore statements of exact arithmetic; a property that the
  rounding of a single operation decides, such as an exact lower bound on the smoothed gain
  of the compressor, is not stated.
  \<^verbatim>\<open>uint8_t\<close> is \<^typ>\<open>8 word\<close>, \<^verbatim>\<open>int16_t\<close> is \<^typ>\<open>16 word\<close> read with \<^const>\<open>sint\<close>,
  \<^verbatim>\<open>uint32_t\<close> is \<^typ>\<open>32 word\<close>. An access outside an array is undefined behaviour in
  C; the functions that index arrays return \<^typ>\<open>'a option\<close> and are \<^const>\<open>None\<close> there.
\<close>

subsection \<open>Macros of main.h and dynamics.c\<close>

definition MAX_macro :: "real \<Rightarrow> real \<Rightarrow> real" where
  "MAX_macro a b = (if a > b then a else b)"

definition MIN_macro :: "real \<Rightarrow> real \<Rightarrow> real" where
  "MIN_macro a b = (if a < b then a else b)"

definition CLAMP :: "real \<Rightarrow> real \<Rightarrow> real \<Rightarrow> real" where
  "CLAMP x low high = (if x > high then high else (if x < low then low else x))"

definition DB_TO_LINEAR :: "real \<Rightarrow> real" where
  "DB_TO_LINEAR x = 10 powr (x / 20)"

definition LINEAR_TO_DB :: "real \<Rightarrow> real" where
  "LINEAR_TO_DB x = 20 * log 10 (MAX_macro x 0.00001)"

text \<open>Time constant conversion (ms to coefficient of the one-pole smoother).\<close>

definition MS_TO_COEF :: "real \<Rightarrow> real \<Rightarrow> real" where
  "MS_TO_COEF time_ms sample_rate =
     (if time_ms \<le> 0 then 0 else exp (- 1 / ((time_ms * 0.001) * sample_rate)))"

text \<open>A cast from \<^verbatim>\<open>float\<close> to an integer type truncates towards zero.\<close>

definition float_to_int :: "real \<Rightarrow> int" where
  "float_to_int x = (if x \<ge> 0 then \<lfloor>x\<rfloor> else \<lceil>x\<rceil>)"

section \<open>dynamics.h, dynamics.c: compressor and limiter\<close>

record DynamicsState_t =
  env :: real
  gainReduction :: real
  prevSample :: real

record CompressorParams_t =
  threshold :: real
  ratio :: real
  attack :: real
  release :: real
  makeupGain :: real
  enabled :: "8 word"
  autoMakeup :: "8 word"
  kneeWidth :: real

record LimiterParams_t =
  l_threshold :: real
  l_release :: real
  l_enabled :: "8 word"
  lookAhead :: real

record Compressor_t =
  params :: CompressorParams_t
  state :: DynamicsState_t
  attackCoef :: real
  releaseCoef :: real
  sampleRate :: real

record Limiter_t =
  l_params :: LimiterParams_t
  l_state :: DynamicsState_t
  l_releaseCoef :: real
  l_sampleRate :: real

definition COMPRESSOR_DEFAULT_PARAMS :: CompressorParams_t where
  "COMPRESSOR_DEFAULT_PARAMS =
     \<lparr>threshold = - 20, ratio = 4, attack = 5, release = 100, makeupGain = 0,
      enabled = 1, autoMakeup = 0, kneeWidth = 3\<rparr>"

definition LIMITER_DEFAULT_PARAMS :: LimiterParams_t where
  "LIMITER_DEFAULT_PARAMS =
     \<lparr>l_threshold = - 3, l_release = 50, l_enabled = 1, lookAhead = 0\<rparr>"

definition Dynamics_CompressorSetParams ::
  "Compressor_t \<Rightarrow> CompressorParams_t \<Rightarrow> Compressor_t" where
  "Dynamics_CompressorSetParams cmp p =
     cmp\<lparr>params := p,
          attackCoef := MS_TO_COEF (attack p) (sampleRate cmp),
          releaseCoef := MS_TO_COEF (release p) (sampleRate cmp)\<rparr>"

text \<open>
  \<^verbatim>\<open>Dynamics_CompressorInit\<close> writes every field of the instance it is given: the
  state, the sample rate, then parameters and coefficients through the setter.
\<close>

definition Dynamics_CompressorInit :: "real \<Rightarrow> Compressor_t" where
  "Dynamics_CompressorInit fs =
     Dynamics_CompressorSetParams
       \<lparr>params = COMPRESSOR_DEFAULT_PARAMS,
        state = \<lparr>env = 0, gainReduction = 1, prevSample = 0\<rparr>,
        attackCoef = 0, releaseCoef = 0, sampleRate = fs\<rparr>
       COMPRESSOR_DEFAULT_PARAMS"

definition Dynamics_CompressorReset :: "Compressor_t \<Rightarrow> Compressor_t" where
  "Dynamics_CompressorReset cmp =
     cmp\<lparr>state := \<lparr>env = 0, gainReduction = 1, prevSample = 0\<rparr>\<rparr>"

definition Dynamics_DetectPeak :: "real \<Rightarrow> real \<Rightarrow> real" where
  "Dynamics_DetectPeak sample prev = MAX_macro sample prev"

definition calculateCompressorGain :: "Compressor_t \<Rightarrow> real \<Rightarrow> real" where
  "calculateCompressorGain cmp inputLevel =
     (let thr = threshold (params cmp);
          rat = ratio (params cmp);
          knee = kneeWidth (params cmp);
          halfKneeWidth = knee * 0.5;
          gain =
            (if knee > 0 \<and> inputLevel > thr - halfKneeWidth
                 \<and> inputLevel < thr + halfKneeWidth
             then
               (let kneeInput = inputLevel - thr + halfKneeWidth;
                    kneeRatio = 1 + ((rat - 1) * kneeInput * kneeInput) / (2 * knee);
                    reduction = (thr - inputLevel) / kneeRatio
                in DB_TO_LINEAR reduction)
             else if inputLevel > thr
             then
               (let reduction = thr - inputLevel + (inputLevel - thr) / rat
                in DB_TO_LINEAR reduction)
             else 1)
      in MAX_macro gain 0.001)"

text \<open>
  One sample through the compressor: the result is the output sample and the
  instance with its updated state.
\<close>

definition Dynamics_CompressorProcessSample ::
  "Compressor_t \<Rightarrow> real \<Rightarrow> real \<times> Compressor_t" where
  "Dynamics_CompressorProcessSample cmp sample =
     (if enabled (params cmp) = 0 then (sample, cmp)
      else
        (let inputAbs = \<bar>sample\<bar>;
             peakValue = Dynamics_DetectPeak inputAbs (prevSample (state cmp));
             inputLevel = LINEAR_TO_DB peakValue;
             env0 = env (state cmp);
             env1 = (if inputLevel > env0
                     then attackCoef cmp * env0 + (1 - attackCoef cmp) * inputLevel
                     else releaseCoef cmp * env0 + (1 - releaseCoef cmp) * inputLevel);
             gain = calculateCompressorGain cmp env1;
             gr0 = gainReduction (state cmp);
             gr1 = (if gain < gr0
                    then attackCoef cmp * gr0 + (1 - attackCoef cmp) * gain
                    else releaseCoef cmp * gr0 + (1 - releaseCoef cmp) * gain)
         in (sample * gr1,
             cmp\<lparr>state := \<lparr>env = env1, gainReduction = gr1, prevSample = inputAbs\<rparr>\<rparr>)))"

text \<open>
  The sample loop of \<^verbatim>\<open>Dynamics_CompressorProcess\<close> over the samples still to
  be processed; \<open>g\<close> is the linear makeup gain.
\<close>

fun compressor_loop :: "Compressor_t \<Rightarrow> real \<Rightarrow> real list \<Rightarrow> real list \<times> Compressor_t" where
  "compressor_loop cmp g [] = ([], cmp)"
| "compressor_loop cmp g (x # xs) =
     (let (y, cmp1) = Dynamics_CompressorProcessSample cmp x;
          (ys, cmp2) = compressor_loop cmp1 g xs
      in (y * g # ys, cmp2))"

text \<open>
  \<^verbatim>\<open>Dynamics_CompressorProcess\<close>: the result holds \<^verbatim>\<open>output[0 .. size-1]\<close>. Each
  \<^verbatim>\<open>output[i]\<close> is written after \<^verbatim>\<open>input[i]\<close> is read, so processing in place gives the
  same values.
\<close>

definition Dynamics_CompressorProcess ::
  "Compressor_t \<Rightarrow> real list \<Rightarrow> nat \<Rightarrow> (real list \<times> Compressor_t) option" where
  "Dynamics_CompressorProcess cmp input n =
     (if n > length input then None
      else if enabled (params cmp) = 0 then Some (take n input, cmp)
      else Some (compressor_loop cmp (DB_TO_LINEAR (makeupGain (params cmp)))
                   (take n input)))"

definition Dynamics_LimiterSetParams :: "Limiter_t \<Rightarrow> LimiterParams_t \<Rightarrow> Limiter_t" where
  "Dynamics_LimiterSetParams lmt p =
     lmt\<lparr>l_params := p, l_releaseCoef := MS_TO_COEF (l_release p) (l_sampleRate lmt)\<rparr>"

definition Dynamics_LimiterInit :: "real \<Rightarrow> Limiter_t" where
  "Dynamics_LimiterInit fs =
     Dynamics_LimiterSetParams
       \<lparr>l_params = LIMITER_DEFAULT_PARAMS,
        l_state = \<lparr>env = 0, gainReduction = 1, prevSample = 0\<rparr>,
        l_releaseCoef = 0, l_sampleRate = fs\<rparr>
       LIMITER_DEFAULT_PARAMS"

definition Dynamics_LimiterProcessSample :: "Limiter_t \<Rightarrow> real \<Rightarrow> real \<times> Limiter_t" where
  "Dynamics_LimiterProcessSample lmt sample =
     (if l_enabled (l_params lmt) = 0 then (sample, lmt)
      else
        (let inputAbs = \<bar>sample\<bar>;
             peakValue = Dynamics_DetectPeak inputAbs (prevSample (l_state lmt));
             inputLevel = LINEAR_TO_DB peakValue;
             env0 = env (l_state lmt);
             env1 = (if inputLevel > env0 then inputLevel
                     else l_releaseCoef lmt * env0 + (1 - l_releaseCoef lmt) * inputLevel);
             reduction = (if env1 > l_threshold (l_params lmt)
                          then l_threshold (l_params lmt) - env1 else 0);
             targetGain = (if reduction > 0 then 1 else DB_TO_LINEAR reduction);
             gr0 = gainReduction (l_state lmt);
             gr1 = (if targetGain < gr0 then targetGain
                    else l_releaseCoef lmt * gr0 + (1 - l_releaseCoef lmt) * targetGain)
         in (sample * gr1,
             lmt\<lparr>l_state := \<lparr>env = env1, gainReduction = gr1, prevSample = inputAbs\<rparr>\<rparr>)))"
text \<open>
  The calls an application makes on one compressor instance after \<^verbatim>\<open>Dynamics_CompressorInit\<close>,
  and the instance they leave behind.
\<close>

datatype comp_op = SetParams CompressorParams_t | Reset | Sample real

fun comp_apply :: "Compressor_t \<Rightarrow> comp_op \<Rightarrow> Compressor_t" where
  "comp_apply c (SetParams p) = Dynamics_CompressorSetParams c p"
| "comp_apply c Reset = Dynamics_CompressorReset c"
| "comp_apply c (Sample x) = snd (Dynamics_CompressorProcessSample c x)"

definition comp_run :: "Compressor_t \<Rightarrow> comp_op list \<Rightarrow> Compressor_t" where
  "comp_run c ops = foldl comp_apply c ops"

subsection \<open>The per-sample algorithms in the words of the specification\<close>

text \<open>
  The time-constant formula of the specification, the compressor step (peak hold, level in
  dB with the floor at 0.00001, asymmetric envelope follower, asymmetric gain smoothing) and
  the limiter step (instant attack, hard knee, instant gain decrease), written from the
  specification's sentences; they are compared below with the functions of dynamics.c.
\<close>

definition spec_coef :: "real \<Rightarrow> real \<Rightarrow> real" where
  "spec_coef time_ms fs = exp (- 1 / ((time_ms / 1000) * fs))"

definition spec_compressor_step ::
  "real \<Rightarrow> real \<Rightarrow> (real \<Rightarrow> real) \<Rightarrow> DynamicsState_t \<Rightarrow> real \<Rightarrow> real \<times> DynamicsState_t" where
  "spec_compressor_step ac rc target_gain st x =
     (let peak = max \<bar>x\<bar> (prevSample st);
          level = 20 * log 10 (max peak 0.00001);
          e1 = (if level > env st then ac * env st + (1 - ac) * level
                else rc * env st + (1 - rc) * level);
          target = target_gain e1;
          g1 = (if target < gainReduction st then ac * gainReduction st + (1 - ac) * target
                else rc * gainReduction st + (1 - rc) * target)
      in (x * g1, \<lparr>env = e1, gainReduction = g1, prevSample = \<bar>x\<bar>\<rparr>))"

definition spec_limiter_step ::
  "real \<Rightarrow> real \<Rightarrow> DynamicsState_t \<Rightarrow> real \<Rightarrow> real \<times> DynamicsState_t" where
  "spec_limiter_step rc thr st x =
     (let peak = max \<bar>x\<bar> (prevSample st);
          level = 20 * log 10 (max peak 0.00001);
          e1 = (if level > env st then level else rc * env st + (1 - rc) * level);
          reduction_dB = (if e1 > thr then thr - e1 else 0);
          target = 10 powr (reduction_dB / 20);
          g1 = (if target < gainReduction st then target
                else rc * gainReduction st + (1 - rc) * target)
      in (x * g1, \<lparr>env = e1, gainReduction = g1, prevSample = \<bar>x\<bar>\<rparr>))"

definition C3_cex :: Compressor_t where
  "C3_cex = Dynamics_CompressorSetParams (Dynamics_CompressorInit 48000)
              (COMPRESSOR_DEFAULT_PARAMS\<lparr>attack := - 1\<rparr>)"

definition C4_wit :: Limiter_t where
  "C4_wit = \<lparr>l_params = LIMITER_DEFAULT_PARAMS,
             l_state = \<lparr>env = - 10, gainReduction = 1, prevSample = 0\<rparr>,
             l_releaseCoef = 1 / 2, l_sampleRate = 48000\<rparr>"


section \<open>delay.h, delay.c: delay lines and phase inversion\<close>

definition MAX_DELAY_MS :: real where
  "MAX_DELAY_MS = 100"

definition DELAY_BUFFER_SIZE :: nat where
  "DELAY_BUFFER_SIZE = 4800"

definition DELAY_NUM_CHANNELS :: nat where
  "DELAY_NUM_CHANNELS = 4"

definition SAMPLE_RATE :: real where
  "SAMPLE_RATE = 48000"

definition MS_TO_SAMPLES :: "real \<Rightarrow> real" where
  "MS_TO_SAMPLES ms = ms * (SAMPLE_RATE / 1000)"

text \<open>
  The one delay instance of delay.c. The indices are \<^verbatim>\<open>uint16_t\<close>; every value the
  code stores in them is a remainder modulo \<^const>\<open>DELAY_BUFFER_SIZE\<close>, computed in
  \<^verbatim>\<open>int\<close>, so they are naturals here.
\<close>

record Delay_t =
  buffer :: "16 word list list"
  writeIndex :: nat
  readIndex :: "nat list"
  phaseInvert :: "8 word list"
  delaySamples :: "real list"
  needsUpdate :: "8 word"

text \<open>The array bounds of \<^verbatim>\<open>Delay_t\<close> and indices inside the buffers.\<close>

definition delay_wf :: "Delay_t \<Rightarrow> bool" where
  "delay_wf d =
     (length (buffer d) = DELAY_NUM_CHANNELS
      \<and> list_all (\<lambda>b. length b = DELAY_BUFFER_SIZE) (buffer d)
      \<and> length (readIndex d) = DELAY_NUM_CHANNELS
      \<and> length (phaseInvert d) = DELAY_NUM_CHANNELS
      \<and> length (delaySamples d) = DELAY_NUM_CHANNELS
      \<and> writeIndex d < DELAY_BUFFER_SIZE
      \<and> list_all (\<lambda>r. r < DELAY_BUFFER_SIZE) (readIndex d))"

definition Delay_Reset :: "Delay_t \<Rightarrow> Delay_t" where
  "Delay_Reset d =
     d\<lparr>buffer := replicate DELAY_NUM_CHANNELS (replicate DELAY_BUFFER_SIZE 0),
       writeIndex := 0,
       readIndex := replicate DELAY_NUM_CHANNELS 0\<rparr>"

definition Delay_Init :: Delay_t where
  "Delay_Init =
     Delay_Reset
       \<lparr>buffer = replicate DELAY_NUM_CHANNELS (replicate DELAY_BUFFER_SIZE 0),
        writeIndex = 0,
        readIndex = replicate DELAY_NUM_CHANNELS 0,
        phaseInvert = replicate DELAY_NUM_CHANNELS 0,
        delaySamples = replicate DELAY_NUM_CHANNELS 0,
        needsUpdate = 0\<rparr>"

definition Delay_SetDelayTime :: "nat \<Rightarrow> real \<Rightarrow> Delay_t \<Rightarrow> Delay_t" where
  "Delay_SetDelayTime channel delayMs d =
     (if channel \<ge> DELAY_NUM_CHANNELS then d
      else
        (let clamped = CLAMP delayMs 0 MAX_DELAY_MS;
             samples = MS_TO_SAMPLES clamped
         in d\<lparr>delaySamples := (delaySamples d)[channel := samples], needsUpdate := 1\<rparr>))"

definition Delay_SetPhaseInvert :: "nat \<Rightarrow> 8 word \<Rightarrow> Delay_t \<Rightarrow> Delay_t" where
  "Delay_SetPhaseInvert channel invert d =
     (if channel \<ge> DELAY_NUM_CHANNELS then d
      else d\<lparr>phaseInvert := (phaseInvert d)[channel := (if invert \<noteq> 0 then 1 else 0)]\<rparr>)"

text \<open>The loop \<^verbatim>\<open>while (readPos < 0) readPos += DELAY_BUFFER_SIZE\<close>.\<close>

function wrap_readPos :: "int \<Rightarrow> int" where
  "wrap_readPos readPos =
     (if readPos < 0 then wrap_readPos (readPos + int DELAY_BUFFER_SIZE) else readPos)"
  by pat_completeness auto
termination
  by (relation "measure (\<lambda>p. nat (- p))") (auto simp: DELAY_BUFFER_SIZE_def)

declare wrap_readPos.simps [simp del]

definition update_channel :: "Delay_t \<Rightarrow> nat \<Rightarrow> Delay_t" where
  "update_channel d ch =
     (let offset = float_to_int (delaySamples d ! ch);
          readPos = wrap_readPos (int (writeIndex d) - offset)
      in d\<lparr>readIndex := (readIndex d)[ch := nat (readPos mod int DELAY_BUFFER_SIZE)]\<rparr>)"

definition Delay_UpdateParameters :: "Delay_t \<Rightarrow> Delay_t" where
  "Delay_UpdateParameters d = foldl update_channel d [0..<DELAY_NUM_CHANNELS]"

text \<open>
  \<^verbatim>\<open>Delay_GetSample\<close>: the sample at \<open>index\<close>, or the linear interpolation with its
  successor when the delay has a fractional part of at least 0.001 samples.
\<close>

definition Delay_GetSample :: "Delay_t \<Rightarrow> nat \<Rightarrow> nat \<Rightarrow> 16 word option" where
  "Delay_GetSample d channel index =
     (if channel < length (buffer d) \<and> channel < length (delaySamples d)
         \<and> index < length (buffer d ! channel)
      then
        (let samples = delaySamples d ! channel;
             intDelay = float_to_int samples;
             fraction = samples - real_of_int intDelay
         in if fraction < 0.001 then Some (buffer d ! channel ! index)
            else if (index + 1) mod DELAY_BUFFER_SIZE < length (buffer d ! channel)
            then
              (let sample1 = buffer d ! channel ! index;
                   sample2 = buffer d ! channel ! ((index + 1) mod DELAY_BUFFER_SIZE)
               in Some (word_of_int (float_to_int
                    (real_of_int (sint sample1) * (1 - fraction)
                     + real_of_int (sint sample2) * fraction))))
            else None)
      else None)"

text \<open>
  The body of the channel loop of \<^verbatim>\<open>Delay_Process\<close> for one channel: store the
  input sample at the write index, read the delayed sample, negate it when the channel's
  phase is inverted. The negation is computed in \<^verbatim>\<open>int\<close> and stored in an \<^verbatim>\<open>int16_t\<close>,
  which keeps the low 16 bits.
\<close>

definition delay_channel :: "Delay_t \<Rightarrow> 16 word \<Rightarrow> nat \<Rightarrow> (16 word \<times> Delay_t) option" where
  "delay_channel d inputSample ch =
     (if ch < length (buffer d) \<and> writeIndex d < length (buffer d ! ch)
         \<and> ch < length (readIndex d) \<and> ch < length (phaseInvert d)
      then
        (let d1 = d\<lparr>buffer := (buffer d)[ch := (buffer d ! ch)[writeIndex d := inputSample]]\<rparr>
         in case Delay_GetSample d1 ch (readIndex d1 ! ch) of
              None \<Rightarrow> None
            | Some outputSample \<Rightarrow>
                Some (if phaseInvert d1 ! ch \<noteq> 0 then - outputSample else outputSample, d1))
      else None)"

text \<open>The channel loop for frame \<open>i\<close> over the channels still to be processed.\<close>

fun delay_channels ::
  "Delay_t \<Rightarrow> 16 word list \<Rightarrow> nat \<Rightarrow> nat list \<Rightarrow> (16 word list \<times> Delay_t) option" where
  "delay_channels d input i [] = Some ([], d)"
| "delay_channels d input i (ch # chs) =
     (if i * DELAY_NUM_CHANNELS + ch < length input
      then
        (case delay_channel d (input ! (i * DELAY_NUM_CHANNELS + ch)) ch of
           None \<Rightarrow> None
         | Some (y, d1) \<Rightarrow>
             (case delay_channels d1 input i chs of
                None \<Rightarrow> None
              | Some (ys, d2) \<Rightarrow> Some (y # ys, d2)))
      else None)"

definition advance_indices :: "Delay_t \<Rightarrow> Delay_t" where
  "advance_indices d =
     d\<lparr>writeIndex := (writeIndex d + 1) mod DELAY_BUFFER_SIZE,
       readIndex := map (\<lambda>r. (r + 1) mod DELAY_BUFFER_SIZE) (readIndex d)\<rparr>"

text \<open>
  The sample loop over the frames still to be processed; the result holds the output
  frames in order, each with one sample per channel.
\<close>

fun delay_frames ::
  "Delay_t \<Rightarrow> 16 word list \<Rightarrow> nat list \<Rightarrow> (16 word list list \<times> Delay_t) option" where
  "delay_frames d input [] = Some ([], d)"
| "delay_frames d input (i # is) =
     (case delay_channels d input i [0..<DELAY_NUM_CHANNELS] of
        None \<Rightarrow> None
      | Some (ys, d1) \<Rightarrow>
          (case delay_frames (advance_indices d1) input is of
             None \<Rightarrow> None
           | Some (yss, d2) \<Rightarrow> Some (ys # yss, d2)))"

text \<open>
  \<^verbatim>\<open>Delay_Process\<close> on an interleaved block of \<open>n\<close> frames: the result holds the
  interleaved output \<^verbatim>\<open>output[0 .. 4 * n - 1]\<close> and the instance afterwards.
\<close>

definition Delay_Process ::
  "Delay_t \<Rightarrow> 16 word list \<Rightarrow> nat \<Rightarrow> (16 word list \<times> Delay_t) option" where
  "Delay_Process d input n =
     (let d0 = (if needsUpdate d \<noteq> 0 then (Delay_UpdateParameters d)\<lparr>needsUpdate := 0\<rparr>
                else d)
      in case delay_frames d0 input [0..<n] of
           None \<Rightarrow> None
         | Some (yss, d1) \<Rightarrow> Some (concat yss, d1))"

text \<open>The read index that \<^verbatim>\<open>Delay_UpdateParameters\<close> computes for a channel.\<close>

definition new_readIndex :: "Delay_t \<Rightarrow> nat \<Rightarrow> nat" where
  "new_readIndex d ch =
     nat ((int (writeIndex d) - float_to_int (delaySamples d ! ch)) mod int DELAY_BUFFER_SIZE)"


text \<open>
  How an output sample of channel \<open>c\<close> under the phase flags \<open>q\<close> changes when the flags
  are \<open>p\<close> instead.
\<close>

definition flip_sample :: "8 word list \<Rightarrow> 8 word list \<Rightarrow> nat \<Rightarrow> 16 word \<Rightarrow> 16 word" where
  "flip_sample p q c y = (if (p ! c \<noteq> 0) = (q ! c \<noteq> 0) then y else - y)"

text \<open>
  Two instances agree on everything the processing of channel \<open>c\<close> reads: the delay line of
  the channel, the indices, the delay times, the phase flags and the update flag.
\<close>

definition same_line :: "Delay_t \<Rightarrow> Delay_t \<Rightarrow> nat \<Rightarrow> bool" where
  "same_line e d c =
     (buffer e ! c = buffer d ! c \<and> length (buffer e) = length (buffer d)
      \<and> writeIndex e = writeIndex d \<and> readIndex e = readIndex d
      \<and> delaySamples e = delaySamples d \<and> phaseInvert e = phaseInvert d
      \<and> needsUpdate e = needsUpdate d)"

section \<open>main.h, audio_processing.h, audio_processing.c: the block pipeline\<close>

definition AUDIO_BUFFER_SIZE :: nat where
  "AUDIO_BUFFER_SIZE = 256"

definition MAX_SAMPLE_VALUE :: real where
  "MAX_SAMPLE_VALUE = 32767"

definition MIN_SAMPLE_VALUE :: real where
  "MIN_SAMPLE_VALUE = - 32768"

text \<open>
  The band indices \<^verbatim>\<open>BAND_SUB\<close> .. \<^verbatim>\<open>BAND_HIGH\<close> (0 .. 3, \<^verbatim>\<open>NUM_BANDS\<close> = 4) and the
  channel indices \<^verbatim>\<open>CHANNEL_LEFT\<close>, \<^verbatim>\<open>CHANNEL_RIGHT\<close>. The arrays of the pipeline that
  are indexed by them are functions on these types.
\<close>

datatype band = BAND_SUB | BAND_LOW | BAND_MID | BAND_HIGH

datatype channel = CHANNEL_LEFT | CHANNEL_RIGHT

definition all_bands :: "band list" where
  "all_bands = [BAND_SUB, BAND_LOW, BAND_MID, BAND_HIGH]"

record AudioBuffer_t =
  data :: "16 word list"

record CrossoverSettings_t =
  s_lowCutoff :: real
  s_midCutoff :: real
  s_highCutoff :: real
  s_subGain :: real
  s_lowGain :: real
  s_midGain :: real
  s_highGain :: real
  s_filterType :: "8 word"
  s_filterOrder :: "8 word"
  s_subMute :: "8 word"
  s_lowMute :: "8 word"
  s_midMute :: "8 word"
  s_highMute :: "8 word"

record BandCompressorSettings =
  bc_threshold :: real
  bc_ratio :: real
  bc_attack :: real
  bc_release :: real
  bc_makeupGain :: real
  bc_enabled :: "8 word"

record CompressorSettings_t =
  comp_sub :: BandCompressorSettings
  comp_low :: BandCompressorSettings
  comp_mid :: BandCompressorSettings
  comp_high :: BandCompressorSettings

record BandLimiterSettings =
  bl_threshold :: real
  bl_release :: real
  bl_enabled :: "8 word"

record LimiterSettings_t =
  lim_sub :: BandLimiterSettings
  lim_low :: BandLimiterSettings
  lim_mid :: BandLimiterSettings
  lim_high :: BandLimiterSettings

record DelaySettings_t =
  subDelay :: real
  lowDelay :: real
  midDelay :: real
  highDelay :: real
  subPhaseInvert :: "8 word"
  lowPhaseInvert :: "8 word"
  midPhaseInvert :: "8 word"
  highPhaseInvert :: "8 word"

record SystemSettings_t =
  crossover :: CrossoverSettings_t
  compressor :: CompressorSettings_t
  limiter :: LimiterSettings_t
  delay :: DelaySettings_t

record AudioProcessingStats_t =
  inputPeakLevel :: "channel \<Rightarrow> real"
  outputPeakLevel :: "channel \<Rightarrow> real"
  bandPeakLevel :: "band \<Rightarrow> channel \<Rightarrow> real"
  compressionAmount :: "band \<Rightarrow> real"
  limiterActivity :: "band \<Rightarrow> real"
  clippingCount :: "32 word"
  processingTime :: "32 word"

text \<open>The static variables of audio_processing.c.\<close>

record AudioProcessing_t =
  audioStats :: AudioProcessingStats_t
  tempBufferL :: "real list"
  tempBufferR :: "real list"
  bandBufferL :: "band \<Rightarrow> real list"
  bandBufferR :: "band \<Rightarrow> real list"
  processingStartTime :: "32 word"
  processingEndTime :: "32 word"
  bypassEnabled :: "8 word"

definition AudioProcessing_SetBypass :: "8 word \<Rightarrow> AudioProcessing_t \<Rightarrow> AudioProcessing_t" where
  "AudioProcessing_SetBypass enable st = st\<lparr>bypassEnabled := (if enable \<noteq> 0 then 1 else 0)\<rparr>"

text \<open>
  The buffer functions below run a loop over \<^verbatim>\<open>i < length\<close> that reads and writes index
  \<open>i\<close> (or \<open>2 * i\<close> and \<open>2 * i + 1\<close>) of its arrays; some access is outside an array exactly
  when \<open>length\<close> exceeds what the array holds, which is checked once, before the loop. The
  result holds the whole output array: the elements written, then the rest unchanged.
\<close>

definition ConvertToFloat ::
  "16 word list \<Rightarrow> real list \<Rightarrow> real list \<Rightarrow> nat \<Rightarrow> (real list \<times> real list) option" where
  "ConvertToFloat input outputL outputR len =
     (let scale = 1 / MAX_SAMPLE_VALUE
      in if 2 * len \<le> length input \<and> len \<le> length outputL \<and> len \<le> length outputR
         then Some (map (\<lambda>i. real_of_int (sint (input ! (2 * i))) * scale) [0..<len]
                      @ drop len outputL,
                    map (\<lambda>i. real_of_int (sint (input ! (2 * i + 1))) * scale) [0..<len]
                      @ drop len outputR)
         else None)"

text \<open>
  One channel of one frame of \<^verbatim>\<open>ConvertToInt16\<close>: the scaled sample, the clipping check
  with its count, the clamp.
\<close>

definition clip_sample :: "real \<Rightarrow> 32 word \<Rightarrow> real \<times> 32 word" where
  "clip_sample x clippingCount0 =
     (let sample = x * MAX_SAMPLE_VALUE
      in if sample > MAX_SAMPLE_VALUE \<or> sample < MIN_SAMPLE_VALUE
         then (CLAMP sample MIN_SAMPLE_VALUE MAX_SAMPLE_VALUE, clippingCount0 + 1)
         else (sample, clippingCount0))"

text \<open>The frame loop of \<^verbatim>\<open>ConvertToInt16\<close> over the frames still to be converted.\<close>

fun convert_loop :: "(real \<times> real) list \<Rightarrow> 32 word \<Rightarrow> 16 word list \<times> 32 word" where
  "convert_loop [] clippingCount0 = ([], clippingCount0)"
| "convert_loop ((l, r) # frames) clippingCount0 =
     (let (leftSample, c1) = clip_sample l clippingCount0;
          (rightSample, c2) = clip_sample r c1;
          (out, c3) = convert_loop frames c2
      in (word_of_int (float_to_int leftSample) # word_of_int (float_to_int rightSample) # out,
          c3))"

definition ConvertToInt16 ::
  "AudioProcessingStats_t \<Rightarrow> real list \<Rightarrow> real list \<Rightarrow> 16 word list \<Rightarrow> nat
     \<Rightarrow> (16 word list \<times> AudioProcessingStats_t) option" where
  "ConvertToInt16 stats inputL inputR output len =
     (if len \<le> length inputL \<and> len \<le> length inputR \<and> 2 * len \<le> length output
      then
        (let (out, cnt) = convert_loop (zip (take len inputL) (take len inputR)) 0
         in Some (out @ drop (2 * len) output,
                  stats\<lparr>clippingCount := clippingCount stats + cnt\<rparr>))
      else None)"

text \<open>The peak search of \<^verbatim>\<open>UpdatePeakLevels\<close> over the samples still to be read.\<close>

fun peak_loop :: "real list \<Rightarrow> real \<Rightarrow> real" where
  "peak_loop [] m = m"
| "peak_loop (x # xs) m = peak_loop xs (if \<bar>x\<bar> > m then \<bar>x\<bar> else m)"

definition decay_peak :: "real \<Rightarrow> real \<Rightarrow> real" where
  "decay_peak m peak = (if m > peak then m else peak * 0.8)"

definition UpdatePeakLevels ::
  "real list \<Rightarrow> real list \<Rightarrow> nat \<Rightarrow> real \<Rightarrow> real \<Rightarrow> (real \<times> real) option" where
  "UpdatePeakLevels bufferL bufferR len peakL peakR =
     (if len \<le> length bufferL \<and> len \<le> length bufferR
      then Some (decay_peak (peak_loop (take len bufferL) 0) peakL,
                 decay_peak (peak_loop (take len bufferR) 0) peakR)
      else None)"

definition MixBands ::
  "real list \<Rightarrow> real list \<Rightarrow> real list \<Rightarrow> real list \<Rightarrow> real list \<Rightarrow> nat \<Rightarrow> real list option" where
  "MixBands sub low mid high output len =
     (if len \<le> length sub \<and> len \<le> length low \<and> len \<le> length mid \<and> len \<le> length high
         \<and> len \<le> length output
      then Some (map (\<lambda>i. sub ! i + low ! i + mid ! i + high ! i) [0..<len] @ drop len output)
      else None)"

definition ApplyGain :: "real list \<Rightarrow> nat \<Rightarrow> real \<Rightarrow> real list option" where
  "ApplyGain buf len gainDB =
     (let gain = DB_TO_LINEAR gainDB
      in if len \<le> length buf then Some (map (\<lambda>x. x * gain) (take len buf) @ drop len buf)
         else None)"

text \<open>\<^verbatim>\<open>memset (buffer, 0, len * sizeof (float))\<close> and \<^verbatim>\<open>memcpy\<close> of \<open>len\<close> elements.\<close>

definition memset_zero :: "real list \<Rightarrow> nat \<Rightarrow> real list option" where
  "memset_zero buf len =
     (if len \<le> length buf then Some (replicate len 0 @ drop len buf) else None)"

definition memcpy :: "'a list \<Rightarrow> 'a list \<Rightarrow> nat \<Rightarrow> 'a list option" where
  "memcpy dst src len =
     (if len \<le> length dst \<and> len \<le> length src then Some (take len src @ drop len dst)
      else None)"

text \<open>
  audio_processing.c calls \<^verbatim>\<open>Crossover_Process\<close> (with the two channel buffers and
  the eight band buffers), \<^verbatim>\<open>Compressor_Process\<close>, \<^verbatim>\<open>Limiter_Process\<close> and a per-band
  \<^verbatim>\<open>Delay_Process\<close> on float buffers. The repository holds no function of these
  signatures, so the four stages are parameters of the pipeline: each is a function of its
  arguments and of the state \<open>'x\<close> those modules keep, returning the buffers it was given
  a pointer to (and the value it stores through its result pointer, which the caller has
  set to 0 before the call).
\<close>

record 'x stages =
  ext_Crossover_Process ::
    "'x \<Rightarrow> real list \<Rightarrow> real list \<Rightarrow> nat \<Rightarrow> (band \<Rightarrow> real list) \<Rightarrow> (band \<Rightarrow> real list)
       \<Rightarrow> CrossoverSettings_t \<Rightarrow> (band \<Rightarrow> real list) \<times> (band \<Rightarrow> real list) \<times> 'x"
  ext_Compressor_Process ::
    "'x \<Rightarrow> real list \<Rightarrow> real list \<Rightarrow> nat \<Rightarrow> real \<Rightarrow> real \<Rightarrow> real \<Rightarrow> real \<Rightarrow> real \<Rightarrow> band
       \<Rightarrow> real list \<times> real list \<times> real \<times> 'x"
  ext_Limiter_Process ::
    "'x \<Rightarrow> real list \<Rightarrow> real list \<Rightarrow> nat \<Rightarrow> real \<Rightarrow> real \<Rightarrow> band
       \<Rightarrow> real list \<times> real list \<times> real \<times> 'x"
  ext_Delay_Process ::
    "'x \<Rightarrow> real list \<Rightarrow> real list \<Rightarrow> nat \<Rightarrow> real \<Rightarrow> 8 word \<Rightarrow> band
       \<Rightarrow> real list \<times> real list \<times> 'x"

text \<open>The \<^verbatim>\<open>switch (band)\<close> selections of the band loop.\<close>

fun band_gain :: "CrossoverSettings_t \<Rightarrow> band \<Rightarrow> real" where
  "band_gain cs BAND_SUB = s_subGain cs"
| "band_gain cs BAND_LOW = s_lowGain cs"
| "band_gain cs BAND_MID = s_midGain cs"
| "band_gain cs BAND_HIGH = s_highGain cs"

fun band_mute :: "CrossoverSettings_t \<Rightarrow> band \<Rightarrow> 8 word" where
  "band_mute cs BAND_SUB = s_subMute cs"
| "band_mute cs BAND_LOW = s_lowMute cs"
| "band_mute cs BAND_MID = s_midMute cs"
| "band_mute cs BAND_HIGH = s_highMute cs"

fun band_comp :: "CompressorSettings_t \<Rightarrow> band \<Rightarrow> BandCompressorSettings" where
  "band_comp s BAND_SUB = comp_sub s"
| "band_comp s BAND_LOW = comp_low s"
| "band_comp s BAND_MID = comp_mid s"
| "band_comp s BAND_HIGH = comp_high s"

fun band_lim :: "LimiterSettings_t \<Rightarrow> band \<Rightarrow> BandLimiterSettings" where
  "band_lim s BAND_SUB = lim_sub s"
| "band_lim s BAND_LOW = lim_low s"
| "band_lim s BAND_MID = lim_mid s"
| "band_lim s BAND_HIGH = lim_high s"

fun band_delay :: "DelaySettings_t \<Rightarrow> band \<Rightarrow> real" where
  "band_delay s BAND_SUB = subDelay s"
| "band_delay s BAND_LOW = lowDelay s"
| "band_delay s BAND_MID = midDelay s"
| "band_delay s BAND_HIGH = highDelay s"

fun band_phase :: "DelaySettings_t \<Rightarrow> band \<Rightarrow> 8 word" where
  "band_phase s BAND_SUB = subPhaseInvert s"
| "band_phase s BAND_LOW = lowPhaseInvert s"
| "band_phase s BAND_MID = midPhaseInvert s"
| "band_phase s BAND_HIGH = highPhaseInvert s"

text \<open>
  The body of the band loop of \<^verbatim>\<open>AudioProcessing_Process\<close> for one band. A muted
  band has its two buffers zeroed and the rest of the body skipped.
\<close>

definition process_band ::
  "'x stages \<Rightarrow> SystemSettings_t \<Rightarrow> nat \<Rightarrow> band \<Rightarrow> AudioProcessing_t \<times> 'x
     \<Rightarrow> (AudioProcessing_t \<times> 'x) option" where
  "process_band ext pSettings monoFrames b sx =
     (let st = fst sx; x = snd sx;
          leftBuffer = bandBufferL st b;
          rightBuffer = bandBufferR st b;
          bandGain = band_gain (crossover pSettings) b;
          bandMute = band_mute (crossover pSettings) b
      in if bandMute \<noteq> 0
         then do {
           zl \<leftarrow> memset_zero leftBuffer monoFrames;
           zr \<leftarrow> memset_zero rightBuffer monoFrames;
           Some (st\<lparr>bandBufferL := (bandBufferL st)(b := zl),
                     bandBufferR := (bandBufferR st)(b := zr)\<rparr>, x)
         }
         else do {
           gl \<leftarrow> ApplyGain leftBuffer monoFrames bandGain;
           gr \<leftarrow> ApplyGain rightBuffer monoFrames bandGain;
           (pl, pr) \<leftarrow> UpdatePeakLevels gl gr monoFrames
                         (bandPeakLevel (audioStats st) b CHANNEL_LEFT)
                         (bandPeakLevel (audioStats st) b CHANNEL_RIGHT);
           let stats1 = (audioStats st)
                 \<lparr>bandPeakLevel := (bandPeakLevel (audioStats st))
                    (b := (bandPeakLevel (audioStats st) b)
                       (CHANNEL_LEFT := pl, CHANNEL_RIGHT := pr))\<rparr>;
               bandComp = band_comp (compressor pSettings) b;
               (cl, cr, compressionAmount1, x1) =
                 (if bc_enabled bandComp \<noteq> 0
                  then ext_Compressor_Process ext x gl gr monoFrames
                         (bc_threshold bandComp) (bc_ratio bandComp) (bc_attack bandComp)
                         (bc_release bandComp) (bc_makeupGain bandComp) b
                  else (gl, gr, 0, x));
               stats2 = stats1\<lparr>compressionAmount :=
                                  (compressionAmount stats1)(b := compressionAmount1)\<rparr>;
               bandLim = band_lim (limiter pSettings) b;
               (ll, lr, limiterGainReduction, x2) =
                 (if bl_enabled bandLim \<noteq> 0
                  then ext_Limiter_Process ext x1 cl cr monoFrames
                         (bl_threshold bandLim) (bl_release bandLim) b
                  else (cl, cr, 0, x1));
               stats3 = stats2\<lparr>limiterActivity :=
                                  (limiterActivity stats2)(b := limiterGainReduction)\<rparr>;
               (dl, dr, x3) =
                 ext_Delay_Process ext x2 ll lr monoFrames
                   (band_delay (delay pSettings) b) (band_phase (delay pSettings) b) b
           in Some (st\<lparr>audioStats := stats3,
                        bandBufferL := (bandBufferL st)(b := dl),
                        bandBufferR := (bandBufferR st)(b := dr)\<rparr>, x3)
         })"

text \<open>The band loop over the bands still to be processed.\<close>

fun band_loop ::
  "'x stages \<Rightarrow> SystemSettings_t \<Rightarrow> nat \<Rightarrow> band list \<Rightarrow> AudioProcessing_t \<times> 'x
     \<Rightarrow> (AudioProcessing_t \<times> 'x) option" where
  "band_loop ext pSettings monoFrames [] sx = Some sx"
| "band_loop ext pSettings monoFrames (b # bs) sx =
     (case process_band ext pSettings monoFrames b sx of
        None \<Rightarrow> None
      | Some sx1 \<Rightarrow> band_loop ext pSettings monoFrames bs sx1)"

text \<open>
  \<^verbatim>\<open>AudioProcessing_Process\<close>. \<open>tickStart\<close> and \<open>tickEnd\<close> are the values
  \<^verbatim>\<open>HAL_GetTick\<close> returns at the start and at the end of the call. The result is the
  output buffer, the static variables and the state of the four stages.
\<close>

definition AudioProcessing_Process ::
  "'x stages \<Rightarrow> AudioProcessing_t \<times> 'x \<Rightarrow> AudioBuffer_t \<Rightarrow> AudioBuffer_t \<Rightarrow> SystemSettings_t
     \<Rightarrow> 32 word \<Rightarrow> 32 word \<Rightarrow> (AudioBuffer_t \<times> AudioProcessing_t \<times> 'x) option" where
  "AudioProcessing_Process ext sx pInputBuffer pOutputBuffer pSettings tickStart tickEnd =
     (let monoFrames = AUDIO_BUFFER_SIZE div 2;
          st = (fst sx)\<lparr>processingStartTime := tickStart\<rparr>;
          x = snd sx;
          stats = audioStats st
      in if bypassEnabled st \<noteq> 0
         then do {
           outData \<leftarrow> memcpy (data pOutputBuffer) (data pInputBuffer) AUDIO_BUFFER_SIZE;
           (tl, tr) \<leftarrow> ConvertToFloat (data pInputBuffer) (tempBufferL st) (tempBufferR st)
                         monoFrames;
           (pl, pr) \<leftarrow> UpdatePeakLevels tl tr monoFrames
                         (inputPeakLevel stats CHANNEL_LEFT) (inputPeakLevel stats CHANNEL_RIGHT);
           let stats1 = stats\<lparr>inputPeakLevel :=
                                 (inputPeakLevel stats)(CHANNEL_LEFT := pl, CHANNEL_RIGHT := pr)\<rparr>;
               stats2 = stats1\<lparr>outputPeakLevel :=
                                  (outputPeakLevel stats1)
                                    (CHANNEL_LEFT := inputPeakLevel stats1 CHANNEL_LEFT,
                                     CHANNEL_RIGHT := inputPeakLevel stats1 CHANNEL_RIGHT)\<rparr>;
               stats3 = stats2\<lparr>processingTime := tickEnd - tickStart\<rparr>
           in Some (pOutputBuffer\<lparr>data := outData\<rparr>,
                    st\<lparr>audioStats := stats3, tempBufferL := tl, tempBufferR := tr,
                       processingEndTime := tickEnd\<rparr>,
                    x)
         }
         else do {
           (tl, tr) \<leftarrow> ConvertToFloat (data pInputBuffer) (tempBufferL st) (tempBufferR st)
                         monoFrames;
           (pl, pr) \<leftarrow> UpdatePeakLevels tl tr monoFrames
                         (inputPeakLevel stats CHANNEL_LEFT) (inputPeakLevel stats CHANNEL_RIGHT);
           let stats1 = stats\<lparr>inputPeakLevel :=
                                 (inputPeakLevel stats)(CHANNEL_LEFT := pl, CHANNEL_RIGHT := pr)\<rparr>;
           let (bl, br, x1) = ext_Crossover_Process ext x tl tr monoFrames
                                (bandBufferL st) (bandBufferR st) (crossover pSettings);
           let st1 = st\<lparr>audioStats := stats1, tempBufferL := tl, tempBufferR := tr,
                        bandBufferL := bl, bandBufferR := br\<rparr>;
           (st2, x2) \<leftarrow> band_loop ext pSettings monoFrames all_bands (st1, x1);
           mixL \<leftarrow> MixBands (bandBufferL st2 BAND_SUB) (bandBufferL st2 BAND_LOW)
                     (bandBufferL st2 BAND_MID) (bandBufferL st2 BAND_HIGH)
                     (tempBufferL st2) monoFrames;
           mixR \<leftarrow> MixBands (bandBufferR st2 BAND_SUB) (bandBufferR st2 BAND_LOW)
                     (bandBufferR st2 BAND_MID) (bandBufferR st2 BAND_HIGH)
                     (tempBufferR st2) monoFrames;
           (ol, or) \<leftarrow> UpdatePeakLevels mixL mixR monoFrames
                         (outputPeakLevel (audioStats st2) CHANNEL_LEFT)
                         (outputPeakLevel (audioStats st2) CHANNEL_RIGHT);
           let stats4 = (audioStats st2)
                 \<lparr>outputPeakLevel := (outputPeakLevel (audioStats st2))
                                        (CHANNEL_LEFT := ol, CHANNEL_RIGHT := or)\<rparr>;
           (outData, stats5) \<leftarrow> ConvertToInt16 stats4 mixL mixR (data pOutputBuffer) monoFrames;
           let stats6 = stats5\<lparr>processingTime := (tickEnd - tickStart) * 1000\<rparr>
           in Some (pOutputBuffer\<lparr>data := outData\<rparr>,
                    st2\<lparr>audioStats := stats6, tempBufferL := mixL, tempBufferR := mixR,
                        processingEndTime := tickEnd\<rparr>,
                    x2)
         })"

definition AUDIO_TEMP_BUFFER_SIZE :: nat where
  "AUDIO_TEMP_BUFFER_SIZE = AUDIO_BUFFER_SIZE * 4"

text \<open>The static variables after \<^verbatim>\<open>AudioProcessing_Init\<close>.\<close>

definition AudioProcessing_Init :: AudioProcessing_t where
  "AudioProcessing_Init =
     \<lparr>audioStats =
        \<lparr>inputPeakLevel = (\<lambda>c. 0), outputPeakLevel = (\<lambda>c. 0), bandPeakLevel = (\<lambda>b c. 0),
         compressionAmount = (\<lambda>b. 0), limiterActivity = (\<lambda>b. 0),
         clippingCount = 0, processingTime = 0\<rparr>,
      tempBufferL = replicate AUDIO_TEMP_BUFFER_SIZE 0,
      tempBufferR = replicate AUDIO_TEMP_BUFFER_SIZE 0,
      bandBufferL = (\<lambda>b. replicate (AUDIO_BUFFER_SIZE div 2) 0),
      bandBufferR = (\<lambda>b. replicate (AUDIO_BUFFER_SIZE div 2) 0),
      processingStartTime = 0, processingEndTime = 0, bypassEnabled = 0\<rparr>"

subsection \<open>The fixed-point conversion in the words of the specification\<close>

text \<open>
  A float sample is out of range when its value scaled by 32767 lies outside the int16
  range; the int16 sample it is converted to is the nearest bound then, and the scaled
  value truncated towards zero otherwise.
\<close>

definition spec_out_of_range :: "real \<Rightarrow> bool" where
  "spec_out_of_range x = (x * 32767 > 32767 \<or> x * 32767 < - 32768)"

definition spec_int16 :: "real \<Rightarrow> int" where
  "spec_int16 x =
     (if x * 32767 > 32767 then 32767
      else if x * 32767 < - 32768 then - 32768
      else float_to_int (x * 32767))"

subsection \<open>The peak meters in the words of the specification\<close>

text \<open>
  The peak of a block is the largest absolute value of its samples (0 for an empty block).
  A meter holds its peak: a block peak above the held value replaces it, otherwise the held
  value decays by the factor \<open>decay\<close>.
\<close>

definition spec_block_peak :: "real list \<Rightarrow> real" where
  "spec_block_peak xs = Max (insert 0 (abs ` set xs))"

definition spec_peak_hold :: "real \<Rightarrow> real \<Rightarrow> real \<Rightarrow> real" where
  "spec_peak_hold decay held pk = (if held < pk then pk else decay * held)"

text \<open>
  Stages for concrete runs of the pipeline: the crossover copies each channel into its four
  band buffers, compressor, limiter and delay leave their buffers as they are; they keep
  no state.
\<close>

definition copy_stages :: "unit stages" where
  "copy_stages =
     \<lparr>ext_Crossover_Process =
        (\<lambda>x tl tr n bl br cs.
           ((\<lambda>b. take n tl @ drop n (bl b)), (\<lambda>b. take n tr @ drop n (br b)), x)),
      ext_Compressor_Process = (\<lambda>x l r n thr rat att rel mk b. (l, r, 0, x)),
      ext_Limiter_Process = (\<lambda>x l r n thr rel b. (l, r, 0, x)),
      ext_Delay_Process = (\<lambda>x l r n ms inv b. (l, r, x))\<rparr>"

text \<open>A full-scale input block, an empty output block and settings with the low band muted.\<close>

definition full_scale_block :: AudioBuffer_t where
  "full_scale_block = \<lparr>data = replicate 128 32767 @ replicate 128 (- 32767)\<rparr>"

definition empty_block :: AudioBuffer_t where
  "empty_block = \<lparr>data = replicate 256 0\<rparr>"

definition low_muted_settings :: SystemSettings_t where
  "low_muted_settings =
     \<lparr>crossover =
        \<lparr>s_lowCutoff = 100, s_midCutoff = 1000, s_highCutoff = 5000,
         s_subGain = 0, s_lowGain = 6, s_midGain = 0, s_highGain = 0,
         s_filterType = 0, s_filterOrder = 4,
         s_subMute = 0, s_lowMute = 1, s_midMute = 0, s_highMute = 0\<rparr>,
      compressor =
        \<lparr>comp_sub = \<lparr>bc_threshold = - 20, bc_ratio = 4, bc_attack = 5, bc_release = 100,
                      bc_makeupGain = 0, bc_enabled = 1\<rparr>,
         comp_low = \<lparr>bc_threshold = - 20, bc_ratio = 4, bc_attack = 5, bc_release = 100,
                      bc_makeupGain = 0, bc_enabled = 1\<rparr>,
         comp_mid = \<lparr>bc_threshold = - 20, bc_ratio = 4, bc_attack = 5, bc_release = 100,
                      bc_makeupGain = 0, bc_enabled = 0\<rparr>,
         comp_high = \<lparr>bc_threshold = - 20, bc_ratio = 4, bc_attack = 5, bc_release = 100,
                       bc_makeupGain = 0, bc_enabled = 0\<rparr>\<rparr>,
      limiter =
        \<lparr>lim_sub = \<lparr>bl_threshold = - 3, bl_release = 50, bl_enabled = 1\<rparr>,
         lim_low = \<lparr>bl_threshold = - 3, bl_release = 50, bl_enabled = 1\<rparr>,
         lim_mid = \<lparr>bl_threshold = - 3, bl_release = 50, bl_enabled = 0\<rparr>,
         lim_high = \<lparr>bl_threshold = - 3, bl_release = 50, bl_enabled = 0\<rparr>\<rparr>,
      delay =
        \<lparr>subDelay = 0, lowDelay = 5, midDelay = 0, highDelay = 0,
         subPhaseInvert = 0, lowPhaseInvert = 1, midPhaseInvert = 0, highPhaseInvert = 0\<rparr>\<rparr>"

subsection \<open>Array bounds of the pipeline\<close>

text \<open>
  The four stages write into the buffers they are given: when these hold at least the \<open>n\<close>
  samples of the call, the buffers they return have the lengths of the buffers they were
  given. The second definition says that all band buffers hold at least \<open>n\<close> samples, the
  third that both buffers of band \<open>b\<close> are 0 in their first \<open>n\<close> samples.
\<close>

definition stages_keep_lengths :: "'x stages \<Rightarrow> bool" where
  "stages_keep_lengths ext =
     ((\<forall>x inL inR n bl br cs b.
         n \<le> length inL \<and> n \<le> length inR \<and> n \<le> length (bl b) \<and> n \<le> length (br b) \<longrightarrow>
         length (fst (ext_Crossover_Process ext x inL inR n bl br cs) b) = length (bl b)
         \<and> length (fst (snd (ext_Crossover_Process ext x inL inR n bl br cs)) b) = length (br b))
      \<and> (\<forall>x l r n thr rat att rel mk b.
         n \<le> length l \<and> n \<le> length r \<longrightarrow>
         length (fst (ext_Compressor_Process ext x l r n thr rat att rel mk b)) = length l
         \<and> length (fst (snd (ext_Compressor_Process ext x l r n thr rat att rel mk b))) = length r)
      \<and> (\<forall>x l r n thr rel b.
         n \<le> length l \<and> n \<le> length r \<longrightarrow>
         length (fst (ext_Limiter_Process ext x l r n thr rel b)) = length l
         \<and> length (fst (snd (ext_Limiter_Process ext x l r n thr rel b))) = length r)
      \<and> (\<forall>x l r n ms ph b.
         n \<le> length l \<and> n \<le> length r \<longrightarrow>
         length (fst (ext_Delay_Process ext x l r n ms ph b)) = length l
         \<and> length (fst (snd (ext_Delay_Process ext x l r n ms ph b))) = length r))"

definition band_sized :: "nat \<Rightarrow> AudioProcessing_t \<Rightarrow> bool" where
  "band_sized n st =
     list_all (\<lambda>b. n \<le> length (bandBufferL st b) \<and> n \<le> length (bandBufferR st b)) all_bands"

definition band_zero :: "nat \<Rightarrow> band \<Rightarrow> AudioProcessing_t \<Rightarrow> bool" where
  "band_zero n b st =
     list_all (\<lambda>i. bandBufferL st b ! i = 0 \<and> bandBufferR st b ! i = 0) [0..<n]"

section \<open>crossover.c: the four-band crossover\<close>

definition PI :: real where
  "PI = 3.14159265358979323846"

definition MAX_FILTER_ORDER :: nat where
  "MAX_FILTER_ORDER = 8"

text \<open>The biquad of crossover.c (its own \<^verbatim>\<open>BiquadFilter_t\<close>, with a field \<open>a0\<close>).\<close>

record BiquadFilter_t =
  a0 :: real
  a1 :: real
  a2 :: real
  b0 :: real
  b1 :: real
  b2 :: real
  x1 :: real
  x2 :: real
  y1 :: real
  y2 :: real

text \<open>
  A filter chain points to one of the six static arrays of \<^verbatim>\<open>MAX_FILTER_ORDER / 2\<close>
  biquads (after \<^verbatim>\<open>Crossover_Init\<close>); the array is kept in the chain.
\<close>

record FilterChain_t =
  filters :: "BiquadFilter_t list"
  filterCount :: "8 word"

record CrossoverFilters_t =
  subLowPass :: FilterChain_t
  lowLowPass :: FilterChain_t
  lowHighPass :: FilterChain_t
  midLowPass :: FilterChain_t
  midHighPass :: FilterChain_t
  highHighPass :: FilterChain_t
  lowCutoff :: real
  midCutoff :: real
  highCutoff :: real
  subGain :: real
  lowGain :: real
  midGain :: real
  highGain :: real
  filterType :: "8 word"
  filterOrder :: "8 word"
  subMute :: "8 word"
  lowMute :: "8 word"
  midMute :: "8 word"
  highMute :: "8 word"
  filterSampleRate :: real

text \<open>The static variables of crossover.c.\<close>

record Crossover_t =
  crossoverFilters :: CrossoverFilters_t
  currentSettings :: CrossoverSettings_t
  subBuffer :: "real list"
  lowBuffer :: "real list"
  midBuffer :: "real list"
  highBuffer :: "real list"

definition ResetFilter :: "BiquadFilter_t \<Rightarrow> BiquadFilter_t" where
  "ResetFilter f = f\<lparr>x1 := 0, x2 := 0, y1 := 0, y2 := 0\<rparr>"

text \<open>
  \<^verbatim>\<open>ResetAllFilters\<close> resets the elements 0 .. \<^verbatim>\<open>MAX_FILTER_ORDER / 2 - 1\<close> of each
  static array, which are all its elements, and zeroes the four band buffers.
\<close>

definition reset_chain :: "FilterChain_t \<Rightarrow> FilterChain_t" where
  "reset_chain ch = ch\<lparr>filters := map ResetFilter (filters ch)\<rparr>"

definition ResetAllFilters :: "Crossover_t \<Rightarrow> Crossover_t" where
  "ResetAllFilters st =
     (let cf = crossoverFilters st
      in st\<lparr>crossoverFilters :=
               cf\<lparr>subLowPass := reset_chain (subLowPass cf),
                  lowLowPass := reset_chain (lowLowPass cf),
                  lowHighPass := reset_chain (lowHighPass cf),
                  midLowPass := reset_chain (midLowPass cf),
                  midHighPass := reset_chain (midHighPass cf),
                  highHighPass := reset_chain (highHighPass cf)\<rparr>,
             subBuffer := replicate (length (subBuffer st)) 0,
             lowBuffer := replicate (length (lowBuffer st)) 0,
             midBuffer := replicate (length (midBuffer st)) 0,
             highBuffer := replicate (length (highBuffer st)) 0\<rparr>)"

text \<open>
  \<^verbatim>\<open>CalculateButterworthCoefficients\<close>; \<open>fs\<close> is \<^verbatim>\<open>crossoverFilters.sampleRate\<close> and
  \<open>type\<close> is 0 for a low-pass and anything else for a high-pass.
\<close>

definition CalculateButterworthCoefficients ::
  "BiquadFilter_t \<Rightarrow> real \<Rightarrow> real \<Rightarrow> 8 word \<Rightarrow> real \<Rightarrow> BiquadFilter_t" where
  "CalculateButterworthCoefficients f frequency q type fs =
     (let omega = 2 * PI * frequency / fs;
          alpha = sin omega / (2 * q);
          cosw = cos omega;
          (c0, c1, c2, d0, d1, d2) =
            (if type = 0
             then (1 + alpha, - 2 * cosw, 1 - alpha,
                   (1 - cosw) / 2, 1 - cosw, (1 - cosw) / 2)
             else (1 + alpha, - 2 * cosw, 1 - alpha,
                   (1 + cosw) / 2, - (1 + cosw), (1 + cosw) / 2))
      in f\<lparr>b0 := d0 / c0, b1 := d1 / c0, b2 := d2 / c0, a1 := c1 / c0, a2 := c2 / c0\<rparr>)"

definition CalculateLinkwitzRileyCoefficients ::
  "BiquadFilter_t \<Rightarrow> real \<Rightarrow> 8 word \<Rightarrow> real \<Rightarrow> BiquadFilter_t" where
  "CalculateLinkwitzRileyCoefficients f frequency type fs =
     CalculateButterworthCoefficients f frequency 0.7071 type fs"

text \<open>Writing stage \<open>i\<close> of a chain through \<^verbatim>\<open>&chain.filters[i]\<close>.\<close>

definition set_stage ::
  "nat \<Rightarrow> (BiquadFilter_t \<Rightarrow> BiquadFilter_t) \<Rightarrow> FilterChain_t \<Rightarrow> FilterChain_t option" where
  "set_stage i calc ch =
     (if i < length (filters ch)
      then Some (ch\<lparr>filters := (filters ch)[i := calc (filters ch ! i)]\<rparr>)
      else None)"

text \<open>
  The body of both stage loops of \<^verbatim>\<open>CalculateFilterCoefficients\<close>: stage \<open>i\<close> of the six
  chains, with \<open>calc frequency type\<close> the coefficient function of the branch.
\<close>

definition calc_stage ::
  "(real \<Rightarrow> 8 word \<Rightarrow> BiquadFilter_t \<Rightarrow> BiquadFilter_t) \<Rightarrow> nat \<Rightarrow> CrossoverFilters_t
     \<Rightarrow> CrossoverFilters_t option" where
  "calc_stage calc i cf = do {
     c1 \<leftarrow> set_stage i (calc (lowCutoff cf) 0) (subLowPass cf);
     c2 \<leftarrow> set_stage i (calc (lowCutoff cf) 1) (lowHighPass cf);
     c3 \<leftarrow> set_stage i (calc (midCutoff cf) 0) (lowLowPass cf);
     c4 \<leftarrow> set_stage i (calc (midCutoff cf) 1) (midHighPass cf);
     c5 \<leftarrow> set_stage i (calc (highCutoff cf) 0) (midLowPass cf);
     c6 \<leftarrow> set_stage i (calc (highCutoff cf) 1) (highHighPass cf);
     Some (cf\<lparr>subLowPass := c1, lowHighPass := c2, lowLowPass := c3,
               midHighPass := c4, midLowPass := c5, highHighPass := c6\<rparr>)
   }"

text \<open>The Butterworth stage loop over the stages still to be computed.\<close>

fun butterworth_loop :: "real list \<Rightarrow> nat list \<Rightarrow> CrossoverFilters_t \<Rightarrow> CrossoverFilters_t option" where
  "butterworth_loop qValues [] cf = Some cf"
| "butterworth_loop qValues (i # is) cf =
     (if i < length qValues
      then
        (case calc_stage
                (\<lambda>frequency type f.
                   CalculateButterworthCoefficients f frequency (qValues ! i) type
                     (filterSampleRate cf))
                i cf of
           None \<Rightarrow> None
         | Some cf1 \<Rightarrow> butterworth_loop qValues is cf1)
      else None)"

text \<open>The Linkwitz-Riley stage loop over the stages still to be computed.\<close>

fun linkwitz_riley_loop :: "nat list \<Rightarrow> CrossoverFilters_t \<Rightarrow> CrossoverFilters_t option" where
  "linkwitz_riley_loop [] cf = Some cf"
| "linkwitz_riley_loop (i # is) cf =
     (case calc_stage
             (\<lambda>frequency type f.
                CalculateLinkwitzRileyCoefficients f frequency type (filterSampleRate cf))
             i cf of
        None \<Rightarrow> None
      | Some cf1 \<Rightarrow> linkwitz_riley_loop is cf1)"

definition CalculateFilterCoefficients :: "Crossover_t \<Rightarrow> Crossover_t option" where
  "CalculateFilterCoefficients st0 =
     (let st = ResetAllFilters st0;
          cf = crossoverFilters st
      in if filterType cf = 0
         then
           (let qValues2 = [0.7071];
                qValues4 = [0.5412, 1.3066];
                qValues8 = [0.5098, 0.6013, 0.9000, 1.7412];
                numFilters = unat (filterOrder cf div 2);
                qValues = (if filterOrder cf = 2 then qValues2
                           else if filterOrder cf = 4 then qValues4
                           else if filterOrder cf = 8 then qValues8
                           else qValues4)
            in map_option (\<lambda>cf1. st\<lparr>crossoverFilters := cf1\<rparr>)
                 (butterworth_loop qValues [0..<numFilters] cf))
         else
           (let numFilters = unat (filterOrder cf div 4)
            in map_option (\<lambda>cf1. st\<lparr>crossoverFilters := cf1\<rparr>)
                 (linkwitz_riley_loop [0..<numFilters] cf)))"

definition set_filterCount :: "8 word \<Rightarrow> FilterChain_t \<Rightarrow> FilterChain_t" where
  "set_filterCount n ch = ch\<lparr>filterCount := n\<rparr>"

definition Crossover_SetSettings :: "CrossoverSettings_t \<Rightarrow> Crossover_t \<Rightarrow> Crossover_t option" where
  "Crossover_SetSettings settings st =
     (let cf = crossoverFilters st;
          n = s_filterOrder settings div 2;
          cf1 = cf\<lparr>lowCutoff := s_lowCutoff settings,
                   midCutoff := s_midCutoff settings,
                   highCutoff := s_highCutoff settings,
                   subGain := DB_TO_LINEAR (s_subGain settings),
                   lowGain := DB_TO_LINEAR (s_lowGain settings),
                   midGain := DB_TO_LINEAR (s_midGain settings),
                   highGain := DB_TO_LINEAR (s_highGain settings),
                   filterType := s_filterType settings,
                   filterOrder := s_filterOrder settings,
                   subMute := s_subMute settings,
                   lowMute := s_lowMute settings,
                   midMute := s_midMute settings,
                   highMute := s_highMute settings,
                   subLowPass := set_filterCount n (subLowPass cf),
                   lowLowPass := set_filterCount n (lowLowPass cf),
                   lowHighPass := set_filterCount n (lowHighPass cf),
                   midLowPass := set_filterCount n (midLowPass cf),
                   midHighPass := set_filterCount n (midHighPass cf),
                   highHighPass := set_filterCount n (highHighPass cf)\<rparr>
      in CalculateFilterCoefficients (st\<lparr>currentSettings := settings, crossoverFilters := cf1\<rparr>))"

definition Crossover_SetSampleRate :: "real \<Rightarrow> Crossover_t \<Rightarrow> Crossover_t option" where
  "Crossover_SetSampleRate fs st =
     CalculateFilterCoefficients
       (st\<lparr>crossoverFilters := (crossoverFilters st)\<lparr>filterSampleRate := fs\<rparr>\<rparr>)"

text \<open>The static variables before \<^verbatim>\<open>Crossover_Init\<close>: all zero.\<close>

definition zero_filter :: BiquadFilter_t where
  "zero_filter = \<lparr>a0 = 0, a1 = 0, a2 = 0, b0 = 0, b1 = 0, b2 = 0, x1 = 0, x2 = 0, y1 = 0, y2 = 0\<rparr>"

definition zero_chain :: FilterChain_t where
  "zero_chain = \<lparr>filters = replicate (MAX_FILTER_ORDER div 2) zero_filter, filterCount = 0\<rparr>"

definition Crossover_Init :: "Crossover_t option" where
  "Crossover_Init =
     (let filterCount0 = (4 :: 8 word) div 2;
          ch = zero_chain\<lparr>filterCount := filterCount0\<rparr>;
          cf = \<lparr>subLowPass = ch, lowLowPass = ch, lowHighPass = ch,
                midLowPass = ch, midHighPass = ch, highHighPass = ch,
                lowCutoff = 100, midCutoff = 1000, highCutoff = 5000,
                subGain = 1, lowGain = 1, midGain = 1, highGain = 1,
                filterType = 1, filterOrder = 4,
                subMute = 0, lowMute = 0, midMute = 0, highMute = 0,
                filterSampleRate = 48000\<rparr>;
          st = \<lparr>crossoverFilters = cf,
                currentSettings =
                  \<lparr>s_lowCutoff = 0, s_midCutoff = 0, s_highCutoff = 0,
                   s_subGain = 0, s_lowGain = 0, s_midGain = 0, s_highGain = 0,
                   s_filterType = 0, s_filterOrder = 0,
                   s_subMute = 0, s_lowMute = 0, s_midMute = 0, s_highMute = 0\<rparr>,
                subBuffer = replicate AUDIO_BUFFER_SIZE 0,
                lowBuffer = replicate AUDIO_BUFFER_SIZE 0,
                midBuffer = replicate AUDIO_BUFFER_SIZE 0,
                highBuffer = replicate AUDIO_BUFFER_SIZE 0\<rparr>
      in map_option
           (\<lambda>st1. st1\<lparr>currentSettings :=
                         \<lparr>s_lowCutoff = lowCutoff (crossoverFilters st1),
                          s_midCutoff = midCutoff (crossoverFilters st1),
                          s_highCutoff = highCutoff (crossoverFilters st1),
                          s_subGain = LINEAR_TO_DB (subGain (crossoverFilters st1)),
                          s_lowGain = LINEAR_TO_DB (lowGain (crossoverFilters st1)),
                          s_midGain = LINEAR_TO_DB (midGain (crossoverFilters st1)),
                          s_highGain = LINEAR_TO_DB (highGain (crossoverFilters st1)),
                          s_filterType = filterType (crossoverFilters st1),
                          s_filterOrder = filterOrder (crossoverFilters st1),
                          s_subMute = subMute (crossoverFilters st1),
                          s_lowMute = lowMute (crossoverFilters st1),
                          s_midMute = midMute (crossoverFilters st1),
                          s_highMute = highMute (crossoverFilters st1)\<rparr>\<rparr>)
           (CalculateFilterCoefficients (ResetAllFilters st)))"

definition ProcessBiquad :: "BiquadFilter_t \<Rightarrow> real \<Rightarrow> real \<times> BiquadFilter_t" where
  "ProcessBiquad f input =
     (let output = input - a1 f * x1 f - a2 f * x2 f;
          result = b0 f * output + b1 f * x1 f + b2 f * x2 f
      in (result, f\<lparr>x2 := x1 f, x1 := output\<rparr>))"

text \<open>The stage loop of \<^verbatim>\<open>ProcessFilterChain\<close> over the stages still to be run.\<close>

fun chain_loop :: "BiquadFilter_t list \<Rightarrow> nat list \<Rightarrow> real \<Rightarrow> (real \<times> BiquadFilter_t list) option" where
  "chain_loop fs [] output = Some (output, fs)"
| "chain_loop fs (i # is) output =
     (if i < length fs
      then (let (result, f) = ProcessBiquad (fs ! i) output
            in chain_loop (fs[i := f]) is result)
      else None)"

definition ProcessFilterChain :: "FilterChain_t \<Rightarrow> real \<Rightarrow> (real \<times> FilterChain_t) option" where
  "ProcessFilterChain chain input =
     map_option (\<lambda>(output, fs). (output, chain\<lparr>filters := fs\<rparr>))
       (chain_loop (filters chain) [0..<unat (filterCount chain)] input)"

text \<open>
  One sample through the six chains, then gain and mute: the four band samples and the
  filters afterwards.
\<close>

definition crossover_sample ::
  "CrossoverFilters_t \<Rightarrow> real \<Rightarrow> ((real \<times> real \<times> real \<times> real) \<times> CrossoverFilters_t) option" where
  "crossover_sample cf inputSample = do {
     (subSample, c1) \<leftarrow> ProcessFilterChain (subLowPass cf) inputSample;
     (lowHigh, c2) \<leftarrow> ProcessFilterChain (lowHighPass cf) inputSample;
     (lowSample, c3) \<leftarrow> ProcessFilterChain (lowLowPass cf) lowHigh;
     (midHigh, c4) \<leftarrow> ProcessFilterChain (midHighPass cf) inputSample;
     (midSample, c5) \<leftarrow> ProcessFilterChain (midLowPass cf) midHigh;
     (highSample, c6) \<leftarrow> ProcessFilterChain (highHighPass cf) inputSample;
     Some ((if subMute cf \<noteq> 0 then 0 else subSample * subGain cf,
            if lowMute cf \<noteq> 0 then 0 else lowSample * lowGain cf,
            if midMute cf \<noteq> 0 then 0 else midSample * midGain cf,
            if highMute cf \<noteq> 0 then 0 else highSample * highGain cf),
           cf\<lparr>subLowPass := c1, lowHighPass := c2, lowLowPass := c3,
              midHighPass := c4, midLowPass := c5, highHighPass := c6\<rparr>)
   }"

text \<open>
  A buffer argument of \<^verbatim>\<open>Crossover_Process\<close> that may be \<^verbatim>\<open>NULL\<close>, and the store
  \<^verbatim>\<open>if (p != NULL) p[i] = v\<close>.
\<close>

definition store_opt :: "real list option \<Rightarrow> nat \<Rightarrow> real \<Rightarrow> real list option option" where
  "store_opt p i v =
     (case p of
        None \<Rightarrow> Some None
      | Some buf \<Rightarrow> (if i < length buf then Some (Some (buf[i := v])) else None))"

definition store_buf :: "real list \<Rightarrow> nat \<Rightarrow> real \<Rightarrow> real list option" where
  "store_buf buf i v = (if i < length buf then Some (buf[i := v]) else None)"

record CrossoverOutputs =
  subOut :: "real list option"
  lowOut :: "real list option"
  midOut :: "real list option"
  highOut :: "real list option"
  mixOut :: "real list option"

text \<open>The body of the sample loop of \<^verbatim>\<open>Crossover_Process\<close> for sample \<open>i\<close>.\<close>

definition crossover_step ::
  "real list \<Rightarrow> nat \<Rightarrow> Crossover_t \<times> CrossoverOutputs \<Rightarrow> (Crossover_t \<times> CrossoverOutputs) option" where
  "crossover_step input i so =
     (let st = fst so; outs = snd so
      in if i < length input
         then do {
           ((subSample, lowSample, midSample, highSample), cf) \<leftarrow>
             crossover_sample (crossoverFilters st) (input ! i);
           o1 \<leftarrow> store_opt (subOut outs) i subSample;
           o2 \<leftarrow> store_opt (lowOut outs) i lowSample;
           o3 \<leftarrow> store_opt (midOut outs) i midSample;
           o4 \<leftarrow> store_opt (highOut outs) i highSample;
           o5 \<leftarrow> store_opt (mixOut outs) i (subSample + lowSample + midSample + highSample);
           s1 \<leftarrow> store_buf (subBuffer st) i subSample;
           s2 \<leftarrow> store_buf (lowBuffer st) i lowSample;
           s3 \<leftarrow> store_buf (midBuffer st) i midSample;
           s4 \<leftarrow> store_buf (highBuffer st) i highSample;
           Some (st\<lparr>crossoverFilters := cf, subBuffer := s1, lowBuffer := s2,
                     midBuffer := s3, highBuffer := s4\<rparr>,
                 \<lparr>subOut = o1, lowOut = o2, midOut = o3, highOut = o4, mixOut = o5\<rparr>)
         }
         else None)"

fun crossover_loop ::
  "real list \<Rightarrow> nat list \<Rightarrow> Crossover_t \<times> CrossoverOutputs \<Rightarrow> (Crossover_t \<times> CrossoverOutputs) option" where
  "crossover_loop input [] so = Some so"
| "crossover_loop input (i # is) so =
     (case crossover_step input i so of
        None \<Rightarrow> None
      | Some so1 \<Rightarrow> crossover_loop input is so1)"

text \<open>
  \<^verbatim>\<open>Crossover_Process\<close> of crossover.c on \<open>n\<close> samples; \<open>outs\<close> holds the five output
  arguments, \<open>mixOut\<close> being the argument \<^verbatim>\<open>output\<close>.
\<close>

definition Crossover_Process ::
  "Crossover_t \<Rightarrow> real list \<Rightarrow> CrossoverOutputs \<Rightarrow> nat \<Rightarrow> (Crossover_t \<times> CrossoverOutputs) option" where
  "Crossover_Process st input outs n = crossover_loop input [0..<n] (st, outs)"

text \<open>The mute flag, the internal buffer and the output argument of a band.\<close>

fun xo_mute :: "CrossoverFilters_t \<Rightarrow> band \<Rightarrow> 8 word" where
  "xo_mute cf BAND_SUB = subMute cf"
| "xo_mute cf BAND_LOW = lowMute cf"
| "xo_mute cf BAND_MID = midMute cf"
| "xo_mute cf BAND_HIGH = highMute cf"

fun xo_buffer :: "Crossover_t \<Rightarrow> band \<Rightarrow> real list" where
  "xo_buffer st BAND_SUB = subBuffer st"
| "xo_buffer st BAND_LOW = lowBuffer st"
| "xo_buffer st BAND_MID = midBuffer st"
| "xo_buffer st BAND_HIGH = highBuffer st"

fun xo_out :: "CrossoverOutputs \<Rightarrow> band \<Rightarrow> real list option" where
  "xo_out outs BAND_SUB = subOut outs"
| "xo_out outs BAND_LOW = lowOut outs"
| "xo_out outs BAND_MID = midOut outs"
| "xo_out outs BAND_HIGH = highOut outs"

subsection \<open>The six chains and what a recomputation must give\<close>

text \<open>
  The six filter chains with the cutoff each is designed for and its type (0 low-pass,
  1 high-pass), the sizes of their arrays, the settings a recomputation reads, the update of
  one stage, and the coefficients the specification asks of stage \<open>j\<close>: Butterworth
  coefficients for the chain's cutoff and type, with the Q of the order's table for a
  Butterworth crossover and Q = 0.7071 for a Linkwitz-Riley one, on a reset stage.
\<close>

definition chain_specs ::
  "((CrossoverFilters_t \<Rightarrow> FilterChain_t) \<times> (CrossoverFilters_t \<Rightarrow> real) \<times> 8 word) list" where
  "chain_specs =
     [(subLowPass, lowCutoff, 0), (lowHighPass, lowCutoff, 1),
      (lowLowPass, midCutoff, 0), (midHighPass, midCutoff, 1),
      (midLowPass, highCutoff, 0), (highHighPass, highCutoff, 1)]"

definition xo_wf :: "CrossoverFilters_t \<Rightarrow> bool" where
  "xo_wf cf =
     list_all (\<lambda>(chain, cutoff, type). length (filters (chain cf)) = MAX_FILTER_ORDER div 2)
       chain_specs"

definition xo_scalars :: "CrossoverFilters_t \<Rightarrow> (real \<times> real \<times> real) \<times> (real \<times> real \<times> real \<times> real)
     \<times> (8 word \<times> 8 word) \<times> (8 word \<times> 8 word \<times> 8 word \<times> 8 word) \<times> real" where
  "xo_scalars cf =
     ((lowCutoff cf, midCutoff cf, highCutoff cf),
      (subGain cf, lowGain cf, midGain cf, highGain cf),
      (filterType cf, filterOrder cf),
      (subMute cf, lowMute cf, midMute cf, highMute cf),
      filterSampleRate cf)"

definition upd_stage :: "nat \<Rightarrow> (BiquadFilter_t \<Rightarrow> BiquadFilter_t) \<Rightarrow> FilterChain_t \<Rightarrow> FilterChain_t" where
  "upd_stage i calc ch = ch\<lparr>filters := (filters ch)[i := calc (filters ch ! i)]\<rparr>"


definition butterworth_q :: "8 word \<Rightarrow> real list" where
  "butterworth_q order =
     (if order = 2 then [0.7071]
      else if order = 4 then [0.5412, 1.3066]
      else if order = 8 then [0.5098, 0.6013, 0.9000, 1.7412]
      else [0.5412, 1.3066])"

definition computed_stages :: "8 word \<Rightarrow> 8 word \<Rightarrow> nat" where
  "computed_stages type order = (if type = 0 then unat (order div 2) else unat (order div 4))"

definition stage_q :: "8 word \<Rightarrow> 8 word \<Rightarrow> nat \<Rightarrow> real" where
  "stage_q type order i = (if type = 0 then butterworth_q order ! i else 0.7071)"

definition fresh_stage ::
  "CrossoverFilters_t \<Rightarrow> (CrossoverFilters_t \<Rightarrow> real) \<Rightarrow> 8 word \<Rightarrow> nat \<Rightarrow> BiquadFilter_t
     \<Rightarrow> BiquadFilter_t" where
  "fresh_stage cf cutoff type j f =
     CalculateButterworthCoefficients (ResetFilter f) (cutoff cf)
       (stage_q (filterType cf) (filterOrder cf) j) type (filterSampleRate cf)"

text \<open>
  The clamp the specification describes for a requested cutoff: to the nearest value in
  [20 Hz, Nyquist]. It follows the specification's words, not the code.
\<close>

definition spec_clamp_cutoff :: "real \<Rightarrow> real \<Rightarrow> real" where
  "spec_clamp_cutoff fs f = CLAMP f 20 (fs / 2)"

text \<open>
  Settings for concrete runs: a fourth-order Linkwitz-Riley crossover at 80, 1000 and
  8000 Hz, and a Butterworth one with cutoffs of 5 Hz and 30000 Hz, below 20 Hz and above
  the Nyquist frequency of the 48 kHz sample rate.
\<close>

definition lr4_settings :: CrossoverSettings_t where
  "lr4_settings =
     \<lparr>s_lowCutoff = 80, s_midCutoff = 1000, s_highCutoff = 8000,
      s_subGain = 0, s_lowGain = 0, s_midGain = 0, s_highGain = 0,
      s_filterType = 1, s_filterOrder = 4,
      s_subMute = 0, s_lowMute = 0, s_midMute = 0, s_highMute = 0\<rparr>"

definition out_of_range_settings :: CrossoverSettings_t where
  "out_of_range_settings =
     \<lparr>s_lowCutoff = 5, s_midCutoff = 1000, s_highCutoff = 30000,
      s_subGain = 0, s_lowGain = 0, s_midGain = 0, s_highGain = 0,
      s_filterType = 0, s_filterOrder = 4,
      s_subMute = 0, s_lowMute = 0, s_midMute = 0, s_highMute = 0\<rparr>"
subsection \<open>Array bounds and muted samples of the crossover\<close>

text \<open>
  The sample of a band among the four band samples of one step; the bound on the stage
  counts of the six chains (their arrays have \<^const>\<open>MAX_FILTER_ORDER\<close> \<open>div 2\<close> stages);
  an output argument that is \<^verbatim>\<open>NULL\<close> or holds at least \<open>n\<close> samples; the four internal
  band buffers and the five output arguments holding at least \<open>n\<close> samples; and what a muted
  band \<open>b\<close> gives at sample \<open>i\<close>: 0 in its internal buffer and in its output argument, and
  a mix that is the sum of the four band samples, added in the order of the code.
\<close>

fun xo_sample :: "real \<times> real \<times> real \<times> real \<Rightarrow> band \<Rightarrow> real" where
  "xo_sample (s, l, m, h) BAND_SUB = s"
| "xo_sample (s, l, m, h) BAND_LOW = l"
| "xo_sample (s, l, m, h) BAND_MID = m"
| "xo_sample (s, l, m, h) BAND_HIGH = h"

definition xo_counts :: "CrossoverFilters_t \<Rightarrow> bool" where
  "xo_counts cf =
     list_all (\<lambda>(chain, cutoff, type). unat (filterCount (chain cf)) \<le> MAX_FILTER_ORDER div 2)
       chain_specs"

definition opt_sized :: "nat \<Rightarrow> real list option \<Rightarrow> bool" where
  "opt_sized n p = (case p of None \<Rightarrow> True | Some buf \<Rightarrow> n \<le> length buf)"

definition xo_sized :: "nat \<Rightarrow> Crossover_t \<Rightarrow> CrossoverOutputs \<Rightarrow> bool" where
  "xo_sized n st outs =
     (n \<le> length (subBuffer st) \<and> n \<le> length (lowBuffer st)
      \<and> n \<le> length (midBuffer st) \<and> n \<le> length (highBuffer st)
      \<and> opt_sized n (subOut outs) \<and> opt_sized n (lowOut outs)
      \<and> opt_sized n (midOut outs) \<and> opt_sized n (highOut outs)
      \<and> opt_sized n (mixOut outs))"

definition xo_muted_at :: "band \<Rightarrow> nat \<Rightarrow> Crossover_t \<Rightarrow> CrossoverOutputs \<Rightarrow> bool" where
  "xo_muted_at b i st outs =
     (xo_buffer st b ! i = 0
      \<and> (case xo_out outs b of None \<Rightarrow> True | Some buf \<Rightarrow> buf ! i = 0)
      \<and> (case mixOut outs of
            None \<Rightarrow> True
          | Some buf \<Rightarrow>
              buf ! i = xo_buffer st BAND_SUB ! i + xo_buffer st BAND_LOW ! i + xo_buffer st BAND_MID ! i + xo_buffer st BAND_HIGH ! i))"

text \<open>
  Output arguments for a concrete run: only the low band and the mix are asked for, in
  buffers of two samples.
\<close>

definition low_monitor :: CrossoverOutputs where
  "low_monitor = \<lparr>subOut = None, lowOut = Some [7, 7], midOut = None, highOut = None,
                  mixOut = Some [9, 9]\<rparr>"
section \<open>Properties of the compressor and the limiter\<close>

lemma MAX_macro_max: "MAX_macro a b = max a b"
  by (simp add: MAX_macro_def max_def)

lemma sampleRate_step: "sampleRate (snd (Dynamics_CompressorProcessSample c x)) = sampleRate c"
  "attackCoef (snd (Dynamics_CompressorProcessSample c x)) = attackCoef c"
  "releaseCoef (snd (Dynamics_CompressorProcessSample c x)) = releaseCoef c"
  by (simp_all add: Dynamics_CompressorProcessSample_def Let_def)
lemma sample_step_spec:
  "enabled (params c) \<noteq> 0 \<Longrightarrow>
   Dynamics_CompressorProcessSample c x =
     (fst (spec_compressor_step (attackCoef c) (releaseCoef c) (calculateCompressorGain c) (state c) x),
      c\<lparr>state := snd (spec_compressor_step (attackCoef c) (releaseCoef c) (calculateCompressorGain c) (state c) x)\<rparr>)"
  by (simp add: Dynamics_CompressorProcessSample_def spec_compressor_step_def Let_def
      Dynamics_DetectPeak_def LINEAR_TO_DB_def MAX_macro_max)

lemma calculateCompressorGain_params:
  "params c = params c' \<Longrightarrow> calculateCompressorGain c = calculateCompressorGain c'"
  by (rule ext) (simp add: calculateCompressorGain_def)

lemma sample_keeps:
  "params (snd (Dynamics_CompressorProcessSample c x)) = params c"
  by (simp add: Dynamics_CompressorProcessSample_def Let_def)

lemma samples_keep:
  "params (comp_run c (map Sample xs)) = params c \<and>
   attackCoef (comp_run c (map Sample xs)) = attackCoef c \<and>
   releaseCoef (comp_run c (map Sample xs)) = releaseCoef c"
  unfolding comp_run_def
  by (induction xs arbitrary: c) (simp_all add: sample_keeps sampleRate_step)

lemma compressor_loop_length: "length (fst (compressor_loop c g xs)) = length xs"
  by (induction xs arbitrary: c) (simp_all add: split_beta Let_def)

lemma compressor_loop_final:
  "snd (compressor_loop c g xs) = comp_run c (map Sample xs)"
  unfolding comp_run_def
  by (induction xs arbitrary: c) (simp_all add: split_beta Let_def)

lemma compressor_loop_nth:
  "i < length xs \<Longrightarrow>
   fst (compressor_loop c g xs) ! i =
     fst (Dynamics_CompressorProcessSample (comp_run c (map Sample (take i xs))) (xs ! i)) * g"
proof (induction xs arbitrary: c i)
  case Nil
  then show ?case by simp
next
  case (Cons x xs)
  show ?case
  proof (cases i)
    case 0
    then show ?thesis by (simp add: split_beta Let_def comp_run_def)
  next
    case (Suc j)
    then have "j < length xs" using Cons.prems by simp
    from Cons.IH [OF this, of "snd (Dynamics_CompressorProcessSample c x)"] Suc
    show ?thesis by (simp add: split_beta Let_def comp_run_def)
  qed
qed

text \<open>
  Claim C3, as amended. An enabled compressor whose coefficients come from
  \<^verbatim>\<open>Dynamics_CompressorSetParams\<close> processes sample \<open>i\<close> of a block as the
  specification's step: peak hold against the previous absolute value, level in dB,
  envelope follower with the attack coefficient when the level rises above the envelope
  and the release coefficient otherwise, gain smoothing with the attack coefficient when
  the target gain is below the applied gain and the release coefficient otherwise, output
  = sample times smoothed gain. Each coefficient is \<open>exp (- 1 / ((time_ms / 1000) * fs))\<close>
  when its time is positive and 0 when the time is zero or negative. The block function
  returns every sample's result multiplied by the linear makeup gain.
\<close>

theorem C3_compressor_step:
  assumes en: "enabled p \<noteq> 0" and n: "n \<le> length input" and i: "i < n"
  shows
   "(let c = Dynamics_CompressorSetParams c0 p;
         ci = comp_run c (map Sample (take i input));
         x = input ! i;
         ac = (if attack p \<le> 0 then 0 else spec_coef (attack p) (sampleRate c0));
         rc = (if release p \<le> 0 then 0 else spec_coef (release p) (sampleRate c0));
         step = spec_compressor_step ac rc (calculateCompressorGain c) (state ci) x
     in Dynamics_CompressorProcessSample ci x = (fst step, ci\<lparr>state := snd step\<rparr>)
        \<and> (\<exists>ys. Dynamics_CompressorProcess c input n
                   = Some (ys, comp_run c (map Sample (take n input)))
                 \<and> length ys = n
                 \<and> ys ! i = fst step * 10 powr (makeupGain p / 20)))"
proof -
  define c where "c = Dynamics_CompressorSetParams c0 p"
  define ci where "ci = comp_run c (map Sample (take i input))"
  define ac where "ac = (if attack p \<le> 0 then 0 else spec_coef (attack p) (sampleRate c0))"
  define rc where "rc = (if release p \<le> 0 then 0 else spec_coef (release p) (sampleRate c0))"
  define step where "step = spec_compressor_step ac rc (calculateCompressorGain c) (state ci) (input ! i)"
  have pc: "params c = p" "attackCoef c = ac" "releaseCoef c = rc"
    by (simp_all add: c_def ac_def rc_def Dynamics_CompressorSetParams_def MS_TO_COEF_def
        spec_coef_def)
  have pci: "params ci = p" "attackCoef ci = ac" "releaseCoef ci = rc"
    using samples_keep [of c "take i input"] pc by (simp_all add: ci_def)
  have g: "calculateCompressorGain ci = calculateCompressorGain c"
    by (rule calculateCompressorGain_params) (simp add: pc pci)
  have s: "Dynamics_CompressorProcessSample ci (input ! i) = (fst step, ci\<lparr>state := snd step\<rparr>)"
    using sample_step_spec [of ci "input ! i"] en by (simp add: pci g step_def)
  have i': "i < length (take n input)" using n i by simp
  have t: "take i (take n input) = take i input" "take n input ! i = input ! i"
    using i by (simp_all add: min_def)
  have nth: "fst (compressor_loop c (DB_TO_LINEAR (makeupGain p)) (take n input)) ! i
      = fst step * 10 powr (makeupGain p / 20)"
    using compressor_loop_nth [OF i', of c "DB_TO_LINEAR (makeupGain p)"] s i
    by (simp add: t ci_def DB_TO_LINEAR_def min_def)
  have len: "length (fst (compressor_loop c (DB_TO_LINEAR (makeupGain p)) (take n input))) = n"
    using n by (simp add: compressor_loop_length)
  have P: "Dynamics_CompressorProcess c input n
      = Some (fst (compressor_loop c (DB_TO_LINEAR (makeupGain p)) (take n input)),
              comp_run c (map Sample (take n input)))"
    using en n compressor_loop_final [of c "DB_TO_LINEAR (makeupGain p)" "take n input"]
    by (simp add: Dynamics_CompressorProcess_def pc prod_eq_iff)
  show ?thesis
    unfolding Let_def c_def [symmetric] ci_def [symmetric] ac_def [symmetric] rc_def [symmetric]
      step_def [symmetric]
    using s P nth len by blast
qed


text \<open>The default parameters on a block of two samples satisfy the hypotheses of C3.\<close>

theorem C3_compressor_step_witness:
  "enabled COMPRESSOR_DEFAULT_PARAMS \<noteq> 0 \<and> (2::nat) \<le> length [1, - 1 :: real] \<and> (1::nat) < 2
   \<and> (\<exists>ys. Dynamics_CompressorProcess
               (Dynamics_CompressorSetParams (Dynamics_CompressorInit 48000) COMPRESSOR_DEFAULT_PARAMS)
               [1, - 1] 2
             = Some (ys, comp_run (Dynamics_CompressorSetParams (Dynamics_CompressorInit 48000)
                                     COMPRESSOR_DEFAULT_PARAMS) [Sample 1, Sample (- 1)])
           \<and> length ys = 2)"
proof -
  have h: "enabled COMPRESSOR_DEFAULT_PARAMS \<noteq> 0" "(2::nat) \<le> length [1, - 1 :: real]" "(1::nat) < 2"
    by (simp_all add: COMPRESSOR_DEFAULT_PARAMS_def)
  have t: "take 2 [1, - 1 :: real] = [1, - 1]" by simp
  from C3_compressor_step [OF h, of "Dynamics_CompressorInit 48000"]
  have "\<exists>ys. Dynamics_CompressorProcess
               (Dynamics_CompressorSetParams (Dynamics_CompressorInit 48000) COMPRESSOR_DEFAULT_PARAMS)
               [1, - 1] 2
             = Some (ys, comp_run (Dynamics_CompressorSetParams (Dynamics_CompressorInit 48000)
                                     COMPRESSOR_DEFAULT_PARAMS) (map Sample (take 2 [1, - 1])))
           \<and> length ys = 2"
    unfolding Let_def by blast
  then show ?thesis using h unfolding t by simp
qed



text \<open>
  Claim C3 as stated fails for a non-positive attack time: with an attack of -1 ms at
  48 kHz the setter stores the coefficient 0, not \<open>exp (- 1 / ((- 1 / 1000) * 48000))\<close>,
  and on a rising level the envelope is not the one the formula of the claim gives.
\<close>

theorem C3_attack_coef_counterexample:
  "enabled (params C3_cex) \<noteq> 0
   \<and> attack (params C3_cex) = - 1 \<and> sampleRate C3_cex = 48000
   \<and> LINEAR_TO_DB (Dynamics_DetectPeak \<bar>2\<bar> (prevSample (state C3_cex))) > env (state C3_cex)
   \<and> env (state (snd (Dynamics_CompressorProcessSample C3_cex 2)))
       \<noteq> spec_coef (- 1) 48000 * env (state C3_cex)
          + (1 - spec_coef (- 1) 48000)
            * LINEAR_TO_DB (Dynamics_DetectPeak \<bar>2\<bar> (prevSample (state C3_cex)))"
proof -
  have "0 < log 10 (2::real)" by simp
  then have L: "log 10 (2::real) \<noteq> 0" by linarith
  show ?thesis using L
  by (simp add: C3_cex_def Dynamics_CompressorSetParams_def Dynamics_CompressorInit_def
      COMPRESSOR_DEFAULT_PARAMS_def Dynamics_CompressorProcessSample_def Let_def
      MS_TO_COEF_def LINEAR_TO_DB_def Dynamics_DetectPeak_def MAX_macro_def spec_coef_def)
qed

lemma target_gain_hard_knee:
  "(if (if e > thr then thr - e else 0) > (0::real) then 1
    else DB_TO_LINEAR (if e > thr then thr - e else 0))
   = 10 powr ((if e > thr then thr - e else 0) / 20)"
  by (simp add: DB_TO_LINEAR_def)

lemma limiter_step_spec:
  assumes "l_enabled (l_params lmt) \<noteq> 0"
  shows "Dynamics_LimiterProcessSample lmt x =
     (fst (spec_limiter_step (l_releaseCoef lmt) (l_threshold (l_params lmt)) (l_state lmt) x),
      lmt\<lparr>l_state := snd (spec_limiter_step (l_releaseCoef lmt) (l_threshold (l_params lmt)) (l_state lmt) x)\<rparr>)"
  unfolding Dynamics_LimiterProcessSample_def spec_limiter_step_def Let_def
      Dynamics_DetectPeak_def LINEAR_TO_DB_def MAX_macro_max target_gain_hard_knee
  using assms by (simp only: fst_conv snd_conv if_False)

text \<open>
  Claim C4. One sample through an enabled limiter is the specification's limiter step:
  the envelope jumps to the detected level when that level exceeds the envelope (and is
  released with the release coefficient otherwise), the target reduction in dB is
  threshold - envelope when the envelope exceeds the threshold and 0 otherwise, a target
  gain below the applied gain is applied at once and any other is approached with the
  release coefficient, which the setter computes from the configured release time.
\<close>

theorem C4_limiter_step:
  "l_enabled (l_params lmt) \<noteq> 0 \<Longrightarrow>
   (let rc = l_releaseCoef lmt;
        step = spec_limiter_step rc (l_threshold (l_params lmt)) (l_state lmt) x
    in Dynamics_LimiterProcessSample lmt x = (fst step, lmt\<lparr>l_state := snd step\<rparr>))
   \<and> l_releaseCoef (Dynamics_LimiterSetParams lmt p) = MS_TO_COEF (l_release p) (l_sampleRate lmt)"
  by (simp add: limiter_step_spec Let_def Dynamics_LimiterSetParams_def)


text \<open>
  A limiter at threshold -3 dB with envelope -10 dB and a unit sample: the envelope jumps
  to 0 dB and the gain drops at once to -3 dB.
\<close>

theorem C4_limiter_step_witness:
  "l_enabled (l_params C4_wit) \<noteq> 0
   \<and> env (l_state (snd (Dynamics_LimiterProcessSample C4_wit 1))) = 0
   \<and> gainReduction (l_state (snd (Dynamics_LimiterProcessSample C4_wit 1))) = 10 powr (- 3 / 20)
   \<and> fst (Dynamics_LimiterProcessSample C4_wit 1) = 10 powr (- 3 / 20)"
proof -
  have h: "l_enabled (l_params C4_wit) \<noteq> 0"
    by (simp add: C4_wit_def LIMITER_DEFAULT_PARAMS_def)
  have lt: "(10::real) powr (- 3 / 20) < 1"
    by (simp add: powr_less_one)
  have v: "spec_limiter_step (1 / 2) (- 3) \<lparr>env = - 10, gainReduction = 1, prevSample = 0\<rparr> 1
      = (10 powr (- 3 / 20), \<lparr>env = 0, gainReduction = 10 powr (- 3 / 20), prevSample = 1\<rparr>)"
    using lt by (simp add: spec_limiter_step_def Let_def)
  have f: "l_releaseCoef C4_wit = 1 / 2" "l_threshold (l_params C4_wit) = - 3"
    "l_state C4_wit = \<lparr>env = - 10, gainReduction = 1, prevSample = 0\<rparr>"
    by (simp_all add: C4_wit_def LIMITER_DEFAULT_PARAMS_def)
  from C4_limiter_step [OF h, of 1]
  have "Dynamics_LimiterProcessSample C4_wit 1
      = (10 powr (- 3 / 20),
         C4_wit\<lparr>l_state := \<lparr>env = 0, gainReduction = 10 powr (- 3 / 20), prevSample = 1\<rparr>\<rparr>)"
    unfolding Let_def f v by simp
  then show ?thesis using h by simp
qed


section \<open>Properties of the delay lines\<close>

lemma upt4: "[0..<DELAY_NUM_CHANNELS] = [0, 1, 2, 3]"
  by (simp add: DELAY_NUM_CHANNELS_def upt_rec)

lemma wrap_readPos_nonneg: "0 \<le> wrap_readPos p"
  by (induction p rule: wrap_readPos.induct) (subst wrap_readPos.simps, simp)

lemma wrap_readPos_mod:
  "wrap_readPos p mod int DELAY_BUFFER_SIZE = p mod int DELAY_BUFFER_SIZE"
proof (induction p rule: wrap_readPos.induct)
  case (1 p)
  show ?case
  proof (cases "p < 0")
    case True
    then have "wrap_readPos p = wrap_readPos (p + int DELAY_BUFFER_SIZE)"
      by (subst wrap_readPos.simps) simp
    with 1 True show ?thesis by simp
  next
    case False
    then show ?thesis by (subst wrap_readPos.simps) simp
  qed
qed

lemma update_channel_fields:
  "buffer (update_channel d ch) = buffer d"
  "writeIndex (update_channel d ch) = writeIndex d"
  "delaySamples (update_channel d ch) = delaySamples d"
  "phaseInvert (update_channel d ch) = phaseInvert d"
  "needsUpdate (update_channel d ch) = needsUpdate d"
  "length (readIndex (update_channel d ch)) = length (readIndex d)"
  by (simp_all add: update_channel_def Let_def)

lemma update_fields:
  "buffer (Delay_UpdateParameters d) = buffer d"
  "writeIndex (Delay_UpdateParameters d) = writeIndex d"
  "delaySamples (Delay_UpdateParameters d) = delaySamples d"
  "phaseInvert (Delay_UpdateParameters d) = phaseInvert d"
  "needsUpdate (Delay_UpdateParameters d) = needsUpdate d"
  "length (readIndex (Delay_UpdateParameters d)) = length (readIndex d)"
  by (simp_all add: Delay_UpdateParameters_def upt4 update_channel_fields)

lemma update_channel_readIndex:
  "readIndex (update_channel d ch) = (readIndex d)[ch := new_readIndex d ch]"
  by (simp add: update_channel_def Let_def new_readIndex_def wrap_readPos_mod)

lemma new_readIndex_update_channel:
  "new_readIndex (update_channel d c) ch = new_readIndex d ch"
  by (simp add: new_readIndex_def update_channel_fields)

lemma update_readIndex:
  "readIndex (Delay_UpdateParameters d) =
     (readIndex d)[0 := new_readIndex d 0, 1 := new_readIndex d 1,
                   2 := new_readIndex d 2, 3 := new_readIndex d 3]"
  by (simp add: Delay_UpdateParameters_def upt4 update_channel_readIndex
      new_readIndex_update_channel)

lemma update_readIndex_nth:
  assumes "ch < DELAY_NUM_CHANNELS" "length (readIndex d) = DELAY_NUM_CHANNELS"
  shows "readIndex (Delay_UpdateParameters d) ! ch = new_readIndex d ch"
proof -
  from assms(1) have "ch = 0 \<or> ch = 1 \<or> ch = 2 \<or> ch = 3"
    by (auto simp: DELAY_NUM_CHANNELS_def)
  then show ?thesis using assms(2)
    by (auto simp: update_readIndex DELAY_NUM_CHANNELS_def)
qed

lemma float_to_int_nonneg: "0 \<le> x \<Longrightarrow> float_to_int x = \<lfloor>x\<rfloor>"
  by (simp add: float_to_int_def)

lemma CLAMP_range: "low \<le> high \<Longrightarrow> low \<le> CLAMP x low high \<and> CLAMP x low high \<le> high"
  by (simp add: CLAMP_def)


lemma GetSample_fields:
  "buffer d = buffer d' \<Longrightarrow> delaySamples d = delaySamples d' \<Longrightarrow>
   Delay_GetSample d c i = Delay_GetSample d' c i"
  by (simp add: Delay_GetSample_def Let_def)

lemma delay_channel_phase_kept:
  "delay_channel d x c = Some (y, e) \<Longrightarrow> phaseInvert e = phaseInvert d"
  by (auto simp: delay_channel_def Let_def split: if_splits option.splits)

lemma delay_channel_flip:
  assumes "length p = length (phaseInvert d)"
  shows "delay_channel (d\<lparr>phaseInvert := p\<rparr>) x c =
     map_option (\<lambda>(y, e). (flip_sample p (phaseInvert d) c y, e\<lparr>phaseInvert := p\<rparr>))
       (delay_channel d x c)"
proof -
  define d1 where "d1 = d\<lparr>buffer := (buffer d)[c := (buffer d ! c)[writeIndex d := x]]\<rparr>"
  have g: "Delay_GetSample (d1\<lparr>phaseInvert := p\<rparr>) c i = Delay_GetSample d1 c i" for i
    by (rule GetSample_fields) simp_all
  have e: "d\<lparr>phaseInvert := p, buffer := (buffer d)[c := (buffer d ! c)[writeIndex d := x]]\<rparr>
      = d1\<lparr>phaseInvert := p\<rparr>"
    by (simp add: d1_def)
  have f: "readIndex d1 = readIndex d" "phaseInvert d1 = phaseInvert d"
    by (simp_all add: d1_def)
  show ?thesis
    using assms
    by (cases "Delay_GetSample d1 c (readIndex d ! c)")
      (simp_all add: delay_channel_def Let_def flip_sample_def e g f d1_def [symmetric])
qed

lemma delay_channels_phase_kept:
  "delay_channels d input i chs = Some (ys, e) \<Longrightarrow> phaseInvert e = phaseInvert d"
proof (induction chs arbitrary: d ys)
  case Nil
  then show ?case by simp
next
  case (Cons c chs)
  from Cons.prems obtain y d1 ys' where
    a: "delay_channel d (input ! (i * DELAY_NUM_CHANNELS + c)) c = Some (y, d1)"
    and b: "delay_channels d1 input i chs = Some (ys', e)"
    by (auto split: if_splits option.splits)
  from Cons.IH [OF b] delay_channel_phase_kept [OF a] show ?case by simp
qed

lemma delay_channels_length:
  "delay_channels d input i chs = Some (ys, e) \<Longrightarrow> length ys = length chs"
  by (induction chs arbitrary: d ys) (auto split: if_splits option.splits)

lemma delay_channels_flip:
  assumes "length p = length (phaseInvert d)"
  shows "delay_channels (d\<lparr>phaseInvert := p\<rparr>) input i chs =
     map_option (\<lambda>(ys, e). (map2 (flip_sample p (phaseInvert d)) chs ys, e\<lparr>phaseInvert := p\<rparr>))
       (delay_channels d input i chs)"
  using assms
proof (induction chs arbitrary: d)
  case Nil
  then show ?case by simp
next
  case (Cons c chs)
  show ?case
  proof (cases "delay_channel d (input ! (i * DELAY_NUM_CHANNELS + c)) c")
    case None
    then show ?thesis using Cons.prems by (simp add: delay_channel_flip)
  next
    case (Some r)
    obtain y d1 where r: "r = (y, d1)" by (cases r)
    have k: "phaseInvert d1 = phaseInvert d"
      using Some r by (auto dest: delay_channel_phase_kept)
    then have "length p = length (phaseInvert d1)" using Cons.prems by simp
    from Cons.IH [OF this] Some r k Cons.prems show ?thesis
      by (auto simp: delay_channel_flip split: option.splits)
  qed
qed

lemma advance_phase:
  "advance_indices (e\<lparr>phaseInvert := p\<rparr>) = (advance_indices e)\<lparr>phaseInvert := p\<rparr>"
  "phaseInvert (advance_indices e) = phaseInvert e"
  by (simp_all add: advance_indices_def)

lemma delay_frames_phase_kept:
  "delay_frames d input is = Some (yss, e) \<Longrightarrow> phaseInvert e = phaseInvert d"
proof (induction "is" arbitrary: d yss)
  case Nil
  then show ?case by simp
next
  case (Cons i "is")
  from Cons.prems obtain ys d1 yss' where
    a: "delay_channels d input i [0..<DELAY_NUM_CHANNELS] = Some (ys, d1)"
    and b: "delay_frames (advance_indices d1) input is = Some (yss', e)"
    by (auto split: option.splits)
  from Cons.IH [OF b] delay_channels_phase_kept [OF a] show ?case
    by (simp add: advance_phase)
qed

lemma delay_frames_flip:
  assumes "length p = length (phaseInvert d)"
  shows "delay_frames (d\<lparr>phaseInvert := p\<rparr>) input is =
     map_option (\<lambda>(yss, e).
         (map (map2 (flip_sample p (phaseInvert d)) [0..<DELAY_NUM_CHANNELS]) yss,
          e\<lparr>phaseInvert := p\<rparr>))
       (delay_frames d input is)"
  using assms
proof (induction "is" arbitrary: d)
  case Nil
  then show ?case by simp
next
  case (Cons i "is")
  show ?case
  proof (cases "delay_channels d input i [0..<DELAY_NUM_CHANNELS]")
    case None
    then show ?thesis using Cons.prems by (simp add: delay_channels_flip)
  next
    case (Some r)
    obtain ys d1 where r: "r = (ys, d1)" by (cases r)
    have k: "phaseInvert (advance_indices d1) = phaseInvert d"
      using Some r by (auto simp: advance_phase dest: delay_channels_phase_kept)
    then have "length p = length (phaseInvert (advance_indices d1))" using Cons.prems by simp
    from Cons.IH [OF this] Some r k Cons.prems show ?thesis
      by (auto simp: delay_channels_flip advance_phase split: option.splits)
  qed
qed

lemma list_all_update: "list_all P xs \<Longrightarrow> P x \<Longrightarrow> list_all P (xs[i := x])"
  by (induction xs arbitrary: i) (auto split: nat.splits)

lemma list_all_nthD: "list_all P xs \<Longrightarrow> i < length xs \<Longrightarrow> P (xs ! i)"
  by (simp add: list_all_length)

lemma GetSample_Some:
  assumes "delay_wf d" "c < DELAY_NUM_CHANNELS" "i < DELAY_BUFFER_SIZE"
  shows "\<exists>s. Delay_GetSample d c i = Some s"
proof -
  have l: "length (buffer d ! c) = DELAY_BUFFER_SIZE"
    using assms list_all_nthD [of "\<lambda>b. length b = DELAY_BUFFER_SIZE" "buffer d" c]
    by (simp add: delay_wf_def)
  have m: "(i + 1) mod DELAY_BUFFER_SIZE < DELAY_BUFFER_SIZE"
    by (simp add: DELAY_BUFFER_SIZE_def)
  show ?thesis using assms l m
    by (simp add: Delay_GetSample_def Let_def delay_wf_def)
qed

lemma delay_channel_Some:
  assumes wf: "delay_wf d" and c: "c < DELAY_NUM_CHANNELS"
  shows "\<exists>y e. delay_channel d x c = Some (y, e) \<and> delay_wf e"
proof -
  define d1 where "d1 = d\<lparr>buffer := (buffer d)[c := (buffer d ! c)[writeIndex d := x]]\<rparr>"
  have l: "length (buffer d ! c) = DELAY_BUFFER_SIZE"
    using wf c list_all_nthD [of "\<lambda>b. length b = DELAY_BUFFER_SIZE" "buffer d" c]
    by (simp add: delay_wf_def)
  have wf1: "delay_wf d1"
    using wf l by (simp add: delay_wf_def d1_def list_all_update)
  have r: "readIndex d1 ! c < DELAY_BUFFER_SIZE"
    using wf c list_all_nthD [of "\<lambda>r. r < DELAY_BUFFER_SIZE" "readIndex d" c]
    by (simp add: delay_wf_def d1_def)
  from GetSample_Some [OF wf1 c r] obtain s where
    s: "Delay_GetSample d1 c (readIndex d1 ! c) = Some s" by blast
  have "delay_channel d x c = Some (if phaseInvert d1 ! c \<noteq> 0 then - s else s, d1)"
    using wf c l s by (simp add: delay_channel_def Let_def delay_wf_def d1_def [symmetric])
  with wf1 show ?thesis by blast
qed

lemma delay_channels_Some:
  assumes "delay_wf d" "list_all (\<lambda>c. c < DELAY_NUM_CHANNELS) chs"
    "i * DELAY_NUM_CHANNELS + DELAY_NUM_CHANNELS \<le> length input"
  shows "\<exists>ys e. delay_channels d input i chs = Some (ys, e) \<and> delay_wf e"
  using assms
proof (induction chs arbitrary: d)
  case Nil
  then show ?case by simp
next
  case (Cons c chs)
  then have c: "c < DELAY_NUM_CHANNELS" and cs: "list_all (\<lambda>c. c < DELAY_NUM_CHANNELS) chs"
    by simp_all
  from delay_channel_Some [OF Cons.prems(1) c] obtain y d1 where
    a: "delay_channel d (input ! (i * DELAY_NUM_CHANNELS + c)) c = Some (y, d1)"
    and w: "delay_wf d1" by blast
  from Cons.IH [OF w cs Cons.prems(3)] obtain ys e where
    b: "delay_channels d1 input i chs = Some (ys, e)" and we: "delay_wf e" by blast
  have "i * DELAY_NUM_CHANNELS + c < length input" using c Cons.prems(3) by simp
  then have "delay_channels d input i (c # chs) = Some (y # ys, e)"
    using a b by simp
  with we show ?case by blast
qed

lemma all_channels: "list_all (\<lambda>c. c < DELAY_NUM_CHANNELS) [0..<DELAY_NUM_CHANNELS]"
  by (simp add: list_all_iff)

lemma advance_wf: "delay_wf d \<Longrightarrow> delay_wf (advance_indices d)"
  by (simp add: delay_wf_def advance_indices_def list_all_iff DELAY_BUFFER_SIZE_def)

lemma delay_frames_Some:
  assumes "delay_wf d"
    "list_all (\<lambda>i. i * DELAY_NUM_CHANNELS + DELAY_NUM_CHANNELS \<le> length input) is"
  shows "\<exists>yss e. delay_frames d input is = Some (yss, e) \<and> delay_wf e
     \<and> length yss = length is \<and> list_all (\<lambda>ys. length ys = DELAY_NUM_CHANNELS) yss"
  using assms
proof (induction "is" arbitrary: d)
  case Nil
  then show ?case by simp
next
  case (Cons i "is")
  then have i: "i * DELAY_NUM_CHANNELS + DELAY_NUM_CHANNELS \<le> length input"
    and r: "list_all (\<lambda>i. i * DELAY_NUM_CHANNELS + DELAY_NUM_CHANNELS \<le> length input) is"
    by simp_all
  from delay_channels_Some [OF Cons.prems(1) all_channels i] obtain ys d1 where
    a: "delay_channels d input i [0..<DELAY_NUM_CHANNELS] = Some (ys, d1)"
    and w: "delay_wf d1" by blast
  have ly: "length ys = DELAY_NUM_CHANNELS"
    using delay_channels_length [OF a] by simp
  from Cons.IH [OF advance_wf [OF w] r] obtain yss e where
    b: "delay_frames (advance_indices d1) input is = Some (yss, e)" and we: "delay_wf e"
    and l: "length yss = length is" "list_all (\<lambda>ys. length ys = DELAY_NUM_CHANNELS) yss"
    by blast
  have "delay_frames d input (i # is) = Some (ys # yss, e)" using a b by simp
  with we l ly show ?case by simp
qed

lemma frames_in_block:
  "n * DELAY_NUM_CHANNELS \<le> length input \<Longrightarrow>
   list_all (\<lambda>i. i * DELAY_NUM_CHANNELS + DELAY_NUM_CHANNELS \<le> length input) [0..<n]"
proof -
  assume a: "n * DELAY_NUM_CHANNELS \<le> length input"
  have "i * DELAY_NUM_CHANNELS + DELAY_NUM_CHANNELS \<le> n * DELAY_NUM_CHANNELS" if "i < n" for i
  proof -
    from that have "Suc i \<le> n" by simp
    then have "Suc i * DELAY_NUM_CHANNELS \<le> n * DELAY_NUM_CHANNELS" by (rule mult_le_mono1)
    then show ?thesis by simp
  qed
  with a show ?thesis by (fastforce simp: list_all_iff)
qed

lemma update_wf: "delay_wf d \<Longrightarrow> delay_wf (Delay_UpdateParameters d)"
proof -
  assume wf: "delay_wf d"
  have b: "new_readIndex d c < DELAY_BUFFER_SIZE" for c
    by (simp add: new_readIndex_def DELAY_BUFFER_SIZE_def nat_less_iff)
  show ?thesis using wf b
    by (simp add: delay_wf_def update_fields update_readIndex list_all_update)
qed

lemma concat_frames_nth:
  "list_all (\<lambda>ys. length ys = k) yss \<Longrightarrow> i < length yss \<Longrightarrow> c < k \<Longrightarrow>
   concat yss ! (i * k + c) = yss ! i ! c"
proof (induction yss arbitrary: i)
  case Nil
  then show ?case by simp
next
  case (Cons ys yss)
  show ?case
  proof (cases i)
    case 0
    then show ?thesis using Cons.prems by (simp add: nth_append)
  next
    case (Suc j)
    then have "concat yss ! (j * k + c) = yss ! j ! c"
      using Cons.IH [of j] Cons.prems by simp
    then show ?thesis using Suc Cons.prems by (simp add: nth_append)
  qed
qed

lemma concat_frames_length:
  "list_all (\<lambda>ys. length ys = k) yss \<Longrightarrow> length (concat yss) = length yss * k"
  by (induction yss) simp_all

lemma update_channel_phase:
  "update_channel (d\<lparr>phaseInvert := p\<rparr>) c = (update_channel d c)\<lparr>phaseInvert := p\<rparr>"
  by (simp add: update_channel_def Let_def)

lemma update_phase:
  "Delay_UpdateParameters (d\<lparr>phaseInvert := p\<rparr>) = (Delay_UpdateParameters d)\<lparr>phaseInvert := p\<rparr>"
  by (simp add: Delay_UpdateParameters_def upt4 update_channel_phase)

lemma sint_neg16:
  fixes w :: "16 word"
  assumes "w \<noteq> - 32768"
  shows "sint (- w) = - sint w"
proof -
  have "sint w \<noteq> sint (- 32768 :: 16 word)"
    using assms signed_word_eqI [of w "- 32768"] by blast
  then have n: "sint w \<noteq> - 32768" by simp
  have "- (2 ^ 15) \<le> sint w" "sint w < 2 ^ 15"
    using sint_ge [of w] sint_lt [of w] by simp_all
  with n have "- (2 ^ 15) \<le> - sint w" "- sint w < 2 ^ 15" by simp_all
  then have "signed_take_bit 15 (- sint w) = - sint w"
    by (rule signed_take_bit_int_eq_self)
  then show ?thesis by (simp add: sint_word_ariths)
qed

lemma start_phase:
  "(if needsUpdate (d\<lparr>phaseInvert := p\<rparr>) \<noteq> 0
    then (Delay_UpdateParameters (d\<lparr>phaseInvert := p\<rparr>))\<lparr>needsUpdate := 0\<rparr>
    else d\<lparr>phaseInvert := p\<rparr>)
   = (if needsUpdate d \<noteq> 0 then (Delay_UpdateParameters d)\<lparr>needsUpdate := 0\<rparr> else d)
       \<lparr>phaseInvert := p\<rparr>"
  by (simp add: update_phase)


lemma upt1: "[0..<1] = [0]" by simp

lemma upt4n: "[0..<(4::nat)] = [0, 1, 2, 3]"
  by (simp add: upt_rec)

lemma init_fields:
  "buffer Delay_Init = replicate 4 (replicate 4800 0)"
  "writeIndex Delay_Init = 0" "readIndex Delay_Init = replicate 4 0"
  "phaseInvert Delay_Init = replicate 4 0" "delaySamples Delay_Init = replicate 4 0"
  "needsUpdate Delay_Init = 0"
  by (simp_all add: Delay_Init_def Delay_Reset_def DELAY_NUM_CHANNELS_def DELAY_BUFFER_SIZE_def)

lemma init_wf: "delay_wf Delay_Init"
  by (simp add: delay_wf_def init_fields DELAY_NUM_CHANNELS_def DELAY_BUFFER_SIZE_def list_all_iff)

lemma same_line_refl: "same_line d d c"
  by (simp add: same_line_def)

lemma same_line_trans: "same_line e d' c \<Longrightarrow> same_line d' d c \<Longrightarrow> same_line e d c"
  by (simp add: same_line_def)

lemma delay_channel_other:
  "delay_channel d x c' = Some (y, e) \<Longrightarrow> c \<noteq> c' \<Longrightarrow> same_line e d c"
  by (auto simp: delay_channel_def Let_def same_line_def split: if_splits option.splits)

lemma delay_channels_other:
  "delay_channels d input i chs = Some (ys, e) \<Longrightarrow> c \<notin> set chs \<Longrightarrow> same_line e d c"
proof (induction chs arbitrary: d ys)
  case Nil
  then show ?case by (simp add: same_line_refl)
next
  case (Cons c' chs)
  from Cons.prems(1) obtain y d1 ys' where
    a: "delay_channel d (input ! (i * DELAY_NUM_CHANNELS + c')) c' = Some (y, d1)"
    and b: "delay_channels d1 input i chs = Some (ys', e)"
    by (auto split: if_splits option.splits)
  from Cons.prems(2) have n: "c \<noteq> c'" "c \<notin> set chs" by simp_all
  from same_line_trans [OF Cons.IH [OF b n(2)] delay_channel_other [OF a n(1)]]
  show ?case .
qed

lemma delay_channels_nth:
  assumes "delay_channels d input i chs = Some (ys, e)" "distinct chs" "k < length chs"
  shows "\<exists>d' e'. delay_channel d' (input ! (i * DELAY_NUM_CHANNELS + chs ! k)) (chs ! k)
                    = Some (ys ! k, e')
     \<and> same_line d' d (chs ! k)"
  using assms
proof (induction chs arbitrary: d ys k)
  case Nil
  then show ?case by simp
next
  case (Cons c chs)
  from Cons.prems(1) obtain y d1 ys' where
    a: "delay_channel d (input ! (i * DELAY_NUM_CHANNELS + c)) c = Some (y, d1)"
    and b: "delay_channels d1 input i chs = Some (ys', e)" and ys: "ys = y # ys'"
    by (auto split: if_splits option.splits)
  show ?case
  proof (cases k)
    case 0
    then show ?thesis using a ys same_line_refl by auto
  next
    case (Suc j)
    then have j: "j < length chs" using Cons.prems(3) by simp
    from Cons.prems(2) have dc: "distinct chs" and cn: "chs ! j \<noteq> c" using j by auto
    from Cons.IH [OF b dc j] obtain d' e' where
      p: "delay_channel d' (input ! (i * DELAY_NUM_CHANNELS + chs ! j)) (chs ! j) = Some (ys' ! j, e')"
      and s: "same_line d' d1 (chs ! j)" by blast
    from same_line_trans [OF s delay_channel_other [OF a cn]]
    have "same_line d' d (chs ! j)" .
    with p show ?thesis using Suc ys by auto
  qed
qed

lemma delay_channel_out:
  assumes "delay_channel d' x c = Some (y, e')" "same_line d' d c"
  shows "\<exists>s. Delay_GetSample (d\<lparr>buffer := (buffer d)[c := (buffer d ! c)[writeIndex d := x]]\<rparr>) c
                (readIndex d ! c) = Some s
     \<and> y = (if phaseInvert d ! c \<noteq> 0 then - s else s)"
  using assms
  by (auto simp: delay_channel_def Let_def same_line_def Delay_GetSample_def
      split: if_splits option.splits)


lemma delay_channel_idx:
  "delay_channel d x c = Some (y, e) \<Longrightarrow>
   readIndex e = readIndex d \<and> needsUpdate e = needsUpdate d"
  by (auto simp: delay_channel_def Let_def split: if_splits option.splits)

lemma delay_channels_idx:
  "delay_channels d input i chs = Some (ys, e) \<Longrightarrow>
   readIndex e = readIndex d \<and> needsUpdate e = needsUpdate d"
proof (induction chs arbitrary: d ys)
  case Nil
  then show ?case by simp
next
  case (Cons c chs)
  from Cons.prems obtain y d1 ys' where
    a: "delay_channel d (input ! (i * DELAY_NUM_CHANNELS + c)) c = Some (y, d1)"
    and b: "delay_channels d1 input i chs = Some (ys', e)"
    by (auto split: if_splits option.splits)
  from Cons.IH [OF b] delay_channel_idx [OF a] show ?case by simp
qed

lemma delay_frames_idx:
  assumes "delay_frames d input is = Some (yss, e)"
    "list_all (\<lambda>r. r < DELAY_BUFFER_SIZE) (readIndex d)"
  shows "readIndex e = map (\<lambda>r. (r + length is) mod DELAY_BUFFER_SIZE) (readIndex d)
     \<and> needsUpdate e = needsUpdate d"
  using assms
proof (induction "is" arbitrary: d yss)
  case Nil
  then show ?case by (simp add: list_all_iff map_idI)
next
  case (Cons i "is")
  from Cons.prems(1) obtain ys d1 yss' where
    a: "delay_channels d input i [0..<DELAY_NUM_CHANNELS] = Some (ys, d1)"
    and b: "delay_frames (advance_indices d1) input is = Some (yss', e)"
    by (auto split: option.splits)
  from delay_channels_idx [OF a] have k: "readIndex d1 = readIndex d" "needsUpdate d1 = needsUpdate d"
    by simp_all
  have r: "readIndex (advance_indices d1) = map (\<lambda>r. (r + 1) mod DELAY_BUFFER_SIZE) (readIndex d)"
    "needsUpdate (advance_indices d1) = needsUpdate d"
    by (simp_all add: advance_indices_def k)
  have l: "list_all (\<lambda>r. r < DELAY_BUFFER_SIZE) (readIndex (advance_indices d1))"
    by (simp add: r list_all_iff DELAY_BUFFER_SIZE_def)
  from Cons.IH [OF b l] show ?case
    by (simp add: r mod_add_left_eq)
qed

lemma GetSample_whole:
  assumes "Delay_GetSample d c i = Some s"
    "delaySamples d ! c - real_of_int (float_to_int (delaySamples d ! c)) < 0.001"
  shows "s = buffer d ! c ! i"
  using assms by (auto simp: Delay_GetSample_def Let_def split: if_splits)

lemma first_frame:
  assumes "0 < n"
  shows "delay_frames d input [0..<n] =
     (case delay_channels d input 0 [0..<DELAY_NUM_CHANNELS] of
        None \<Rightarrow> None
      | Some (ys, d1) \<Rightarrow>
          (case delay_frames (advance_indices d1) input [Suc 0..<n] of
             None \<Rightarrow> None
           | Some (yss, d2) \<Rightarrow> Some (ys # yss, d2)))"
proof -
  from assms have "[0..<n] = 0 # [Suc 0..<n]" by (simp add: upt_rec)
  then show ?thesis by simp
qed

lemma process_first_sample:
  assumes wf: "delay_wf d0" and c: "c < DELAY_NUM_CHANNELS"
    and n: "0 < n" "n * DELAY_NUM_CHANNELS \<le> length input"
  shows "\<exists>yss e s. delay_frames d0 input [0..<n] = Some (yss, e)
     \<and> length (concat yss) = n * DELAY_NUM_CHANNELS
     \<and> Delay_GetSample (d0\<lparr>buffer := (buffer d0)[c := (buffer d0 ! c)[writeIndex d0 := input ! c]]\<rparr>)
           c (readIndex d0 ! c) = Some s
     \<and> concat yss ! c = (if phaseInvert d0 ! c \<noteq> 0 then - s else s)
     \<and> readIndex e ! c = (readIndex d0 ! c + n) mod DELAY_BUFFER_SIZE
     \<and> needsUpdate e = needsUpdate d0"
proof -
  from delay_frames_Some [OF wf frames_in_block [OF n(2)]] obtain yss e where
    f: "delay_frames d0 input [0..<n] = Some (yss, e)"
    and l: "length yss = length [0..<n]" "list_all (\<lambda>ys. length ys = DELAY_NUM_CHANNELS) yss"
    by blast
  from f obtain ys d1 yss' where
    a: "delay_channels d0 input 0 [0..<DELAY_NUM_CHANNELS] = Some (ys, d1)"
    and y: "yss = ys # yss'"
    unfolding first_frame [OF n(1)] by (auto split: option.splits)
  have ck: "[0..<DELAY_NUM_CHANNELS] ! c = c" "c < length [0..<DELAY_NUM_CHANNELS]"
    using c by simp_all
  from delay_channels_nth [OF a distinct_upt ck(2)] obtain d' e' where
    p: "delay_channel d' (input ! (0 * DELAY_NUM_CHANNELS + c)) c = Some (ys ! c, e')"
    and s: "same_line d' d0 c"
    unfolding ck(1) by blast
  from delay_channel_out [OF p s] obtain s where
    g: "Delay_GetSample (d0\<lparr>buffer := (buffer d0)[c := (buffer d0 ! c)[writeIndex d0 := input ! c]]\<rparr>)
           c (readIndex d0 ! c) = Some s"
    and v: "ys ! c = (if phaseInvert d0 ! c \<noteq> 0 then - s else s)"
    by auto
  have ly: "length ys = DELAY_NUM_CHANNELS" using l(2) y by simp
  have o: "concat yss ! c = ys ! c" using c ly by (simp add: y nth_append)
  have len: "length (concat yss) = n * DELAY_NUM_CHANNELS"
    using concat_frames_length [OF l(2)] l(1) by simp
  have rl: "list_all (\<lambda>r. r < DELAY_BUFFER_SIZE) (readIndex d0)" "c < length (readIndex d0)"
    using wf c by (simp_all add: delay_wf_def)
  from delay_frames_idx [OF f rl(1)] rl(2)
  have i: "readIndex e ! c = (readIndex d0 ! c + n) mod DELAY_BUFFER_SIZE"
    "needsUpdate e = needsUpdate d0" by simp_all
  from f len g o v i show ?thesis by auto
qed
text \<open>
  Claim C5. For a channel below \<^const>\<open>DELAY_NUM_CHANNELS\<close> of a delay instance within its
  array bounds, \<^verbatim>\<open>Delay_SetDelayTime\<close> clamps the requested time to \<open>[0, 100]\<close> ms,
  stores it in samples (between 0 and 4800), marks the instance for update and leaves buffers
  and write index alone. The update run by the next \<^verbatim>\<open>Delay_Process\<close> sets the channel's
  read index to \<open>r = (writeIndex - \<lfloor>delaySamples\<rfloor> + 4800) mod 4800\<close> and leaves the buffers
  unchanged. That call, on a block of at least one frame, returns; its first output sample
  of the channel is the sample \<^verbatim>\<open>Delay_GetSample\<close> reads at index \<open>r\<close> of the channel's
  delay line with the first input sample stored at the write index (the element at \<open>r\<close>
  itself when the delay is a whole number of samples), negated when the phase flag is set;
  after \<open>n\<close> frames the read index is \<open>(r + n) mod 4800\<close> and the update flag is clear.
\<close>

theorem C5_delay_time:
  assumes ch: "channel < DELAY_NUM_CHANNELS" and wf: "delay_wf d"
    and n: "0 < n" "n * DELAY_NUM_CHANNELS \<le> length input"
  shows
   "(let d1 = Delay_SetDelayTime channel delayMs d;
         ms = CLAMP delayMs 0 MAX_DELAY_MS;
         ds = delaySamples d1 ! channel;
         d2 = Delay_UpdateParameters d1;
         r = nat ((int (writeIndex d) - \<lfloor>ds\<rfloor> + int DELAY_BUFFER_SIZE) mod int DELAY_BUFFER_SIZE);
         line = (buffer d ! channel)[writeIndex d := input ! channel]
     in 0 \<le> ms \<and> ms \<le> 100 \<and> ds = MS_TO_SAMPLES ms
        \<and> 0 \<le> ds \<and> ds \<le> real DELAY_BUFFER_SIZE
        \<and> needsUpdate d1 \<noteq> 0 \<and> buffer d1 = buffer d \<and> writeIndex d1 = writeIndex d
        \<and> readIndex d2 ! channel = r
        \<and> buffer d2 = buffer d \<and> writeIndex d2 = writeIndex d
        \<and> delaySamples d2 = delaySamples d1
        \<and> (\<exists>out d' s.
              Delay_Process d1 input n = Some (out, d')
              \<and> length out = n * DELAY_NUM_CHANNELS
              \<and> Delay_GetSample (d1\<lparr>buffer := (buffer d)[channel := line]\<rparr>) channel r = Some s
              \<and> (ds - real_of_int \<lfloor>ds\<rfloor> < 0.001 \<longrightarrow> s = line ! r)
              \<and> out ! channel = (if phaseInvert d ! channel \<noteq> 0 then - s else s)
              \<and> readIndex d' ! channel = (r + n) mod DELAY_BUFFER_SIZE
              \<and> needsUpdate d' = 0))"
proof -
  define d1 where "d1 = Delay_SetDelayTime channel delayMs d"
  define ms where "ms = CLAMP delayMs 0 MAX_DELAY_MS"
  define ds where "ds = delaySamples d1 ! channel"
  define d2 where "d2 = Delay_UpdateParameters d1"
  define r where "r = nat ((int (writeIndex d) - \<lfloor>ds\<rfloor> + int DELAY_BUFFER_SIZE)
      mod int DELAY_BUFFER_SIZE)"
  define line where "line = (buffer d ! channel)[writeIndex d := input ! channel]"
  have len: "length (delaySamples d) = DELAY_NUM_CHANNELS"
    "length (readIndex d) = DELAY_NUM_CHANNELS" "length (buffer d) = DELAY_NUM_CHANNELS"
    using wf by (simp_all add: delay_wf_def)
  have d1: "d1 = d\<lparr>delaySamples := (delaySamples d)[channel := MS_TO_SAMPLES ms], needsUpdate := 1\<rparr>"
    using ch by (simp add: d1_def Delay_SetDelayTime_def Let_def ms_def)
  have ms: "0 \<le> ms" "ms \<le> 100"
    using CLAMP_range [of 0 MAX_DELAY_MS delayMs] by (simp_all add: ms_def MAX_DELAY_MS_def)
  have ds: "ds = MS_TO_SAMPLES ms"
    using ch len by (simp add: ds_def d1)
  have ds48: "ds = ms * 48" by (simp add: ds MS_TO_SAMPLES_def SAMPLE_RATE_def)
  have dsr: "0 \<le> ds" "ds \<le> real DELAY_BUFFER_SIZE"
    using ms by (simp_all add: ds48 DELAY_BUFFER_SIZE_def)
  have f1: "needsUpdate d1 \<noteq> 0" "buffer d1 = buffer d" "writeIndex d1 = writeIndex d"
    "length (readIndex d1) = DELAY_NUM_CHANNELS" "phaseInvert d1 = phaseInvert d"
    using len by (simp_all add: d1)
  have wf1: "delay_wf d1" using wf by (simp add: d1 delay_wf_def)
  have r0: "readIndex d2 ! channel = new_readIndex d1 channel"
    unfolding d2_def using ch f1(4) by (rule update_readIndex_nth)
  have "new_readIndex d1 channel = r"
    using dsr(1) by (simp add: r_def new_readIndex_def f1 ds_def [symmetric] float_to_int_nonneg)
  with r0 have r': "readIndex d2 ! channel = r" by simp
  have f2: "buffer d2 = buffer d" "writeIndex d2 = writeIndex d" "delaySamples d2 = delaySamples d1"
    "phaseInvert d2 = phaseInvert d"
    by (simp_all add: d2_def update_fields f1)
  define d0 where "d0 = d2\<lparr>needsUpdate := 0\<rparr>"
  have wf0: "delay_wf d0"
    using update_wf [OF wf1] by (simp add: d0_def d2_def delay_wf_def)
  have f0: "buffer d0 = buffer d" "writeIndex d0 = writeIndex d" "delaySamples d0 = delaySamples d1"
    "phaseInvert d0 = phaseInvert d" "readIndex d0 ! channel = r" "needsUpdate d0 = 0"
    by (simp_all add: d0_def f2 r')
  from process_first_sample [OF wf0 ch n] obtain yss e s where
    f: "delay_frames d0 input [0..<n] = Some (yss, e)"
    and lo: "length (concat yss) = n * DELAY_NUM_CHANNELS"
    and g: "Delay_GetSample (d0\<lparr>buffer := (buffer d0)[channel := (buffer d0 ! channel)[writeIndex d0 := input ! channel]]\<rparr>)
           channel (readIndex d0 ! channel) = Some s"
    and o: "concat yss ! channel = (if phaseInvert d0 ! channel \<noteq> 0 then - s else s)"
    and i: "readIndex e ! channel = (readIndex d0 ! channel + n) mod DELAY_BUFFER_SIZE"
      "needsUpdate e = needsUpdate d0"
    by blast
  have p: "Delay_Process d1 input n = Some (concat yss, e)"
    using f1(1) f by (simp add: Delay_Process_def d2_def [symmetric] d0_def [symmetric])
  have g': "Delay_GetSample (d1\<lparr>buffer := (buffer d)[channel := line]\<rparr>) channel r = Some s"
  proof -
    have "Delay_GetSample (d1\<lparr>buffer := (buffer d)[channel := line]\<rparr>) channel r
        = Delay_GetSample (d0\<lparr>buffer := (buffer d0)[channel := (buffer d0 ! channel)[writeIndex d0 := input ! channel]]\<rparr>)
           channel r"
      by (rule GetSample_fields) (simp_all add: f0 line_def)
    with g show ?thesis by (simp add: f0)
  qed
  have w: "s = line ! r" if "ds - real_of_int \<lfloor>ds\<rfloor> < 0.001"
  proof -
    have "s = buffer (d1\<lparr>buffer := (buffer d)[channel := line]\<rparr>) ! channel ! r"
      using g' that dsr(1) by (intro GetSample_whole) (simp_all add: ds_def float_to_int_nonneg)
    then show ?thesis using ch len by simp
  qed
  have q: "\<exists>out d' s.
              Delay_Process d1 input n = Some (out, d')
              \<and> length out = n * DELAY_NUM_CHANNELS
              \<and> Delay_GetSample (d1\<lparr>buffer := (buffer d)[channel := line]\<rparr>) channel r = Some s
              \<and> (ds - real_of_int \<lfloor>ds\<rfloor> < 0.001 \<longrightarrow> s = line ! r)
              \<and> out ! channel = (if phaseInvert d ! channel \<noteq> 0 then - s else s)
              \<and> readIndex d' ! channel = (r + n) mod DELAY_BUFFER_SIZE
              \<and> needsUpdate d' = 0"
    using p lo g' w o i by (auto simp: f0)
  show ?thesis
    unfolding Let_def d1_def [symmetric] ms_def [symmetric] ds_def [symmetric] d2_def [symmetric]
      r_def [symmetric] line_def [symmetric]
    using ms ds dsr f1(1-3) r' f2(1-3) q by blast
qed

text \<open>
  On the initial instance a request of 250 ms is stored as 4800 samples. A request of 2.5 ms
  (120 samples) moves the read index of channel 1 to 4680, where the first output sample
  reads the 0 stored there; a request of -5 ms is stored as 0 samples and the first output
  sample is the input sample 200 itself.
\<close>

theorem C5_delay_time_witness:
  "(1::nat) < DELAY_NUM_CHANNELS \<and> delay_wf Delay_Init
   \<and> 1 * DELAY_NUM_CHANNELS \<le> length [100, 200, 300, 400 :: 16 word]
   \<and> delaySamples (Delay_SetDelayTime 1 250 Delay_Init) ! 1 = 4800
   \<and> readIndex (Delay_UpdateParameters (Delay_SetDelayTime 1 (5 / 2) Delay_Init)) ! 1 = 4680
   \<and> (\<exists>out d'. Delay_Process (Delay_SetDelayTime 1 (5 / 2) Delay_Init) [100, 200, 300, 400] 1
                    = Some (out, d')
         \<and> length out = 4 \<and> out ! 1 = 0 \<and> readIndex d' ! 1 = 4681 \<and> needsUpdate d' = 0)
   \<and> (\<exists>out d'. Delay_Process (Delay_SetDelayTime 1 (- 5) Delay_Init) [100, 200, 300, 400] 1
                    = Some (out, d')
         \<and> length out = 4 \<and> out ! 1 = 200 \<and> readIndex d' ! 1 = 1 \<and> needsUpdate d' = 0)"
proof -
  let ?in = "[100, 200, 300, 400 :: 16 word]"
  have h: "(1::nat) < DELAY_NUM_CHANNELS" "delay_wf Delay_Init" "(0::nat) < 1"
    "1 * DELAY_NUM_CHANNELS \<le> length ?in"
    by (simp_all add: DELAY_NUM_CHANNELS_def init_wf)
  have c: "CLAMP 250 0 MAX_DELAY_MS = 100" "CLAMP (5 / 2) 0 MAX_DELAY_MS = 5 / 2"
    "CLAMP (- 5) 0 MAX_DELAY_MS = 0"
    by (simp_all add: CLAMP_def MAX_DELAY_MS_def)
  have m: "MS_TO_SAMPLES 100 = 4800" "MS_TO_SAMPLES (5 / 2) = 120" "MS_TO_SAMPLES 0 = 0"
    by (simp_all add: MS_TO_SAMPLES_def SAMPLE_RATE_def)
  let ?a = "Delay_SetDelayTime 1 250 Delay_Init"
  let ?b = "Delay_SetDelayTime 1 (5 / 2) Delay_Init"
  let ?c = "Delay_SetDelayTime 1 (- 5) Delay_Init"
  note A = C5_delay_time [OF h, of 250, unfolded Let_def c m]
  note B = C5_delay_time [OF h, of "5 / 2", unfolded Let_def c m]
  note C = C5_delay_time [OF h, of "- 5", unfolded Let_def c m]
  from A have a: "delaySamples ?a ! 1 = 4800" by blast
  from B have b: "delaySamples ?b ! 1 = 120" by blast
  from C have c0: "delaySamples ?c ! 1 = 0" by blast
  have i: "writeIndex Delay_Init = 0" "phaseInvert Delay_Init ! 1 = 0"
    "buffer Delay_Init ! 1 = replicate 4800 0"
    by (simp_all add: init_fields)
  have rb: "readIndex (Delay_UpdateParameters ?b) ! 1 = 4680"
    using B unfolding b i by (simp add: DELAY_BUFFER_SIZE_def)
  have pb: "\<exists>out d'. Delay_Process ?b ?in 1 = Some (out, d')
         \<and> length out = 4 \<and> out ! 1 = 0 \<and> readIndex d' ! 1 = 4681 \<and> needsUpdate d' = 0"
    using B unfolding b i by (auto simp: DELAY_BUFFER_SIZE_def DELAY_NUM_CHANNELS_def)
  have pc: "\<exists>out d'. Delay_Process ?c ?in 1 = Some (out, d')
         \<and> length out = 4 \<and> out ! 1 = 200 \<and> readIndex d' ! 1 = 1 \<and> needsUpdate d' = 0"
    using C unfolding c0 i by (auto simp: DELAY_BUFFER_SIZE_def DELAY_NUM_CHANNELS_def)
  from h a rb pb pc show ?thesis by blast
qed

text \<open>
  Claim C9, as amended. On a well-formed delay instance and a block of \<open>n\<close> frames,
  processing with the phase flag of channel \<open>ch\<close> set and with it clear both succeed; the
  outputs of channel \<open>ch\<close> are the 16-bit negations of each other, so the exact negation
  for every sample whose non-inverted value is not -32768; the outputs of the other channels
  are equal; and the instances afterwards differ in nothing but that flag.
\<close>

theorem C9_phase_invert:
  assumes ch: "ch < DELAY_NUM_CHANNELS" and wf: "delay_wf d"
    and len: "n * DELAY_NUM_CHANNELS \<le> length input" and inv: "invert \<noteq> 0"
  shows
   "\<exists>out0 out1 e.
      Delay_Process (Delay_SetPhaseInvert ch 0 d) input n = Some (out0, e)
      \<and> Delay_Process (Delay_SetPhaseInvert ch invert d) input n
          = Some (out1, e\<lparr>phaseInvert := (phaseInvert e)[ch := 1]\<rparr>)
      \<and> length out0 = n * DELAY_NUM_CHANNELS \<and> length out1 = n * DELAY_NUM_CHANNELS
      \<and> (\<forall>i<n. \<forall>c<DELAY_NUM_CHANNELS.
            out1 ! (i * DELAY_NUM_CHANNELS + c)
              = (if c = ch then - (out0 ! (i * DELAY_NUM_CHANNELS + c))
                 else out0 ! (i * DELAY_NUM_CHANNELS + c)))
      \<and> (\<forall>i<n. out0 ! (i * DELAY_NUM_CHANNELS + ch) \<noteq> - 32768 \<longrightarrow>
            sint (out1 ! (i * DELAY_NUM_CHANNELS + ch))
              = - sint (out0 ! (i * DELAY_NUM_CHANNELS + ch)))"
proof -
  define q where "q = (phaseInvert d)[ch := 0]"
  define p where "p = (phaseInvert d)[ch := 1]"
  define d0 where "d0 = d\<lparr>phaseInvert := q\<rparr>"
  define s0 where "s0 = (if needsUpdate d0 \<noteq> 0
      then (Delay_UpdateParameters d0)\<lparr>needsUpdate := 0\<rparr> else d0)"
  have lp: "length (phaseInvert d) = DELAY_NUM_CHANNELS"
    using wf by (simp add: delay_wf_def)
  have set0: "Delay_SetPhaseInvert ch 0 d = d0"
    using ch by (simp add: Delay_SetPhaseInvert_def d0_def q_def)
  have set1: "Delay_SetPhaseInvert ch invert d = d0\<lparr>phaseInvert := p\<rparr>"
    using ch inv by (simp add: Delay_SetPhaseInvert_def d0_def p_def)
  have wf0: "delay_wf d0" using wf by (simp add: delay_wf_def d0_def q_def)
  have wfs: "delay_wf s0"
    using wf0 update_wf [OF wf0] by (simp add: s0_def delay_wf_def)
  have qs: "phaseInvert s0 = q" by (simp add: s0_def update_fields d0_def)
  from delay_frames_Some [OF wfs frames_in_block [OF len]] obtain yss e where
    fr: "delay_frames s0 input [0..<n] = Some (yss, e)"
    and ly: "length yss = n" "list_all (\<lambda>ys. length ys = DELAY_NUM_CHANNELS) yss"
    by auto
  have qe: "phaseInvert e = q" using delay_frames_phase_kept [OF fr] qs by simp
  have lpq: "length p = length (phaseInvert s0)" by (simp add: qs p_def q_def)
  define yss1 where "yss1 = map (map2 (flip_sample p q) [0..<DELAY_NUM_CHANNELS]) yss"
  have fr1: "delay_frames (s0\<lparr>phaseInvert := p\<rparr>) input [0..<n] = Some (yss1, e\<lparr>phaseInvert := p\<rparr>)"
    using delay_frames_flip [OF lpq, of input "[0..<n]"] fr by (simp add: qs yss1_def)
  have pe: "(phaseInvert e)[ch := 1] = p" by (simp add: qe q_def p_def)
  have P0: "Delay_Process (Delay_SetPhaseInvert ch 0 d) input n = Some (concat yss, e)"
    unfolding set0 using fr by (simp add: Delay_Process_def s0_def [symmetric])
  have P1: "Delay_Process (Delay_SetPhaseInvert ch invert d) input n
      = Some (concat yss1, e\<lparr>phaseInvert := (phaseInvert e)[ch := 1]\<rparr>)"
  proof -
    have st: "(if needsUpdate (d0\<lparr>phaseInvert := p\<rparr>) \<noteq> 0
        then (Delay_UpdateParameters (d0\<lparr>phaseInvert := p\<rparr>))\<lparr>needsUpdate := 0\<rparr>
        else d0\<lparr>phaseInvert := p\<rparr>) = s0\<lparr>phaseInvert := p\<rparr>"
      unfolding s0_def by (rule start_phase)
    show ?thesis
      unfolding set1 pe Delay_Process_def Let_def st using fr1 by simp
  qed
  have ly1: "length yss1 = n" "list_all (\<lambda>ys. length ys = DELAY_NUM_CHANNELS) yss1"
    using ly by (simp_all add: yss1_def list_all_iff)
  have L0: "length (concat yss) = n * DELAY_NUM_CHANNELS"
    using concat_frames_length [OF ly(2)] ly(1) by simp
  have L1: "length (concat yss1) = n * DELAY_NUM_CHANNELS"
    using concat_frames_length [OF ly1(2)] ly1(1) by simp
  have fl: "flip_sample p q c y = (if c = ch then - y else y)" if "c < DELAY_NUM_CHANNELS" for c y
    using that lp ch by (simp add: flip_sample_def p_def q_def nth_list_update)
  have N: "concat yss1 ! (i * DELAY_NUM_CHANNELS + c)
      = (if c = ch then - (concat yss ! (i * DELAY_NUM_CHANNELS + c))
         else concat yss ! (i * DELAY_NUM_CHANNELS + c))"
    if i: "i < n" and c: "c < DELAY_NUM_CHANNELS" for i c
  proof -
    have l: "length (yss ! i) = DELAY_NUM_CHANNELS"
      using ly i by (simp add: list_all_length)
    have "concat yss1 ! (i * DELAY_NUM_CHANNELS + c) = yss1 ! i ! c"
      using concat_frames_nth [OF ly1(2)] ly1(1) i c by simp
    also have "\<dots> = flip_sample p q c (yss ! i ! c)"
      using i c ly(1) l by (simp add: yss1_def)
    also have "yss ! i ! c = concat yss ! (i * DELAY_NUM_CHANNELS + c)"
      using concat_frames_nth [OF ly(2)] ly(1) i c by simp
    finally show ?thesis using fl [OF c] by simp
  qed
  have S: "sint (concat yss1 ! (i * DELAY_NUM_CHANNELS + ch))
      = - sint (concat yss ! (i * DELAY_NUM_CHANNELS + ch))"
    if i: "i < n" and v: "concat yss ! (i * DELAY_NUM_CHANNELS + ch) \<noteq> - 32768" for i
    using N [OF i ch] sint_neg16 [OF v] by simp
  show ?thesis
    using P0 P1 L0 L1 N S by blast
qed

text \<open>One frame on the initial instance, channel 1 inverted.\<close>

theorem C9_phase_invert_witness:
  "(1::nat) < DELAY_NUM_CHANNELS \<and> delay_wf Delay_Init
   \<and> 1 * DELAY_NUM_CHANNELS \<le> length [5, 100, 7, 9 :: 16 word] \<and> (1 :: 8 word) \<noteq> 0
   \<and> (\<exists>out0 out1 e.
         Delay_Process (Delay_SetPhaseInvert 1 0 Delay_Init) [5, 100, 7, 9] 1 = Some (out0, e)
         \<and> Delay_Process (Delay_SetPhaseInvert 1 1 Delay_Init) [5, 100, 7, 9] 1
             = Some (out1, e\<lparr>phaseInvert := (phaseInvert e)[1 := 1]\<rparr>)
         \<and> out1 ! 1 = - (out0 ! 1) \<and> out1 ! 0 = out0 ! 0)"
proof -
  have h: "(1::nat) < DELAY_NUM_CHANNELS" "delay_wf Delay_Init"
    "1 * DELAY_NUM_CHANNELS \<le> length [5, 100, 7, 9 :: 16 word]" "(1 :: 8 word) \<noteq> 0"
    by (simp_all add: DELAY_NUM_CHANNELS_def init_wf)
  from C9_phase_invert [OF h] obtain out0 out1 e where
    p: "Delay_Process (Delay_SetPhaseInvert 1 0 Delay_Init) [5, 100, 7, 9] 1 = Some (out0, e)"
      "Delay_Process (Delay_SetPhaseInvert 1 1 Delay_Init) [5, 100, 7, 9] 1
         = Some (out1, e\<lparr>phaseInvert := (phaseInvert e)[1 := 1]\<rparr>)"
    and a: "\<forall>i<1. \<forall>c<DELAY_NUM_CHANNELS.
            out1 ! (i * DELAY_NUM_CHANNELS + c)
              = (if c = 1 then - (out0 ! (i * DELAY_NUM_CHANNELS + c))
                 else out0 ! (i * DELAY_NUM_CHANNELS + c))"
    by blast
  from a have "out1 ! (0 * DELAY_NUM_CHANNELS + 1) = - (out0 ! (0 * DELAY_NUM_CHANNELS + 1))"
    using h(1) by force
  moreover from a have "out1 ! (0 * DELAY_NUM_CHANNELS + 0) = out0 ! (0 * DELAY_NUM_CHANNELS + 0)"
    by (simp add: DELAY_NUM_CHANNELS_def)
  ultimately have "out1 ! 1 = - (out0 ! 1) \<and> out1 ! 0 = out0 ! 0" by simp
  with p h show ?thesis by blast
qed

text \<open>
  Claim C9 as stated fails at the minimum sample: with channel 0 inverted the sample -32768
  comes out as -32768, the same as without inversion, which is not its negation.
\<close>

theorem C9_min_sample_counterexample:
  "map_option fst (Delay_Process (Delay_SetPhaseInvert 0 0 Delay_Init) [- 32768, 0, 0, 0] 1)
     = Some [- 32768, 0, 0, 0]
   \<and> map_option fst (Delay_Process (Delay_SetPhaseInvert 0 1 Delay_Init) [- 32768, 0, 0, 0] 1)
     = Some [- 32768, 0, 0, 0]
   \<and> sint (- 32768 :: 16 word) \<noteq> - sint (- 32768 :: 16 word)"
  by (simp add: Delay_Process_def Delay_SetPhaseInvert_def init_fields upt1 upt4n advance_indices_def
      delay_channel_def Delay_GetSample_def float_to_int_def Let_def
      DELAY_NUM_CHANNELS_def DELAY_BUFFER_SIZE_def)



section \<open>Properties of the block pipeline\<close>

lemma clip_sample_count:
  "snd (clip_sample x c) = c + (if spec_out_of_range x then 1 else 0)"
  by (simp add: clip_sample_def spec_out_of_range_def MAX_SAMPLE_VALUE_def MIN_SAMPLE_VALUE_def
      Let_def)

lemma clip_sample_value:
  "float_to_int (fst (clip_sample x c)) = spec_int16 x"
  by (simp add: clip_sample_def spec_int16_def MAX_SAMPLE_VALUE_def MIN_SAMPLE_VALUE_def
      Let_def CLAMP_def float_to_int_def)

lemma spec_int16_range: "- 32768 \<le> spec_int16 x \<and> spec_int16 x \<le> 32767"
proof -
  have "- 32768 \<le> float_to_int s \<and> float_to_int s \<le> 32767"
    if "\<not> s > 32767" "\<not> s < - 32768" for s :: real
  proof (cases "0 \<le> s")
    case True
    then have "0 \<le> \<lfloor>s\<rfloor>" by simp
    moreover have "\<lfloor>s\<rfloor> \<le> 32767" using that by (simp add: floor_le_iff)
    ultimately show ?thesis using True by (simp add: float_to_int_def)
  next
    case False
    then have "\<lceil>s\<rceil> \<le> 0" by (simp add: ceiling_le_iff)
    moreover have "- 32768 \<le> \<lceil>s\<rceil>" using that by (simp add: le_ceiling_iff)
    ultimately show ?thesis using False by (simp add: float_to_int_def)
  qed
  then show ?thesis by (simp add: spec_int16_def)
qed

lemma sint_spec_int16: "sint (word_of_int (spec_int16 x) :: 16 word) = spec_int16 x"
proof -
  have "- (2 ^ 15) \<le> spec_int16 x" "spec_int16 x < 2 ^ 15"
    using spec_int16_range [of x] by simp_all
  then have "signed_take_bit 15 (spec_int16 x) = spec_int16 x"
    by (rule signed_take_bit_int_eq_self)
  then show ?thesis by (simp add: sint_sbintrunc')
qed

lemma convert_loop_length: "length (fst (convert_loop fs c)) = 2 * length fs"
proof (induction fs arbitrary: c)
  case Nil
  then show ?case by simp
next
  case (Cons f fs)
  obtain l r where f: "f = (l, r)" by (cases f)
  show ?case by (simp add: f split_beta Let_def Cons.IH)
qed

lemma convert_loop_count:
  "snd (convert_loop fs c)
     = c + of_nat (length (filter spec_out_of_range (map fst fs))
                   + length (filter spec_out_of_range (map snd fs)))"
proof (induction fs arbitrary: c)
  case Nil
  then show ?case by simp
next
  case (Cons f fs)
  obtain l r where f: "f = (l, r)" by (cases f)
  show ?case by (simp add: f split_beta Let_def Cons.IH clip_sample_count)
qed

lemma convert_loop_nth:
  "i < length fs \<Longrightarrow>
   sint (fst (convert_loop fs c) ! (2 * i)) = spec_int16 (fst (fs ! i))
   \<and> sint (fst (convert_loop fs c) ! (2 * i + 1)) = spec_int16 (snd (fs ! i))"
proof (induction fs arbitrary: c i)
  case Nil
  then show ?case by simp
next
  case (Cons f fs)
  obtain l r where f: "f = (l, r)" by (cases f)
  show ?case
  proof (cases i)
    case 0
    then show ?thesis
      by (simp add: f split_beta Let_def clip_sample_value sint_spec_int16)
  next
    case (Suc j)
    then have "j < length fs" using Cons.prems by simp
    from Cons.IH [OF this] Suc show ?thesis
      by (simp add: f split_beta Let_def)
  qed
qed


lemma memcpy_whole:
  "length src = len \<Longrightarrow> length dst = len \<Longrightarrow> memcpy dst src len = Some src"
  by (simp add: memcpy_def)

lemma UpdatePeakLevels_prefix:
  "length fl = n \<Longrightarrow> length fr = n \<Longrightarrow>
   UpdatePeakLevels (fl @ xs) (fr @ ys) n a b
     = Some (decay_peak (peak_loop fl 0) a, decay_peak (peak_loop fr 0) b)"
  by (simp add: UpdatePeakLevels_def)

lemma peak_loop_Max: "peak_loop xs m = Max (insert m (abs ` set xs))"
proof (induction xs arbitrary: m)
  case Nil
  then show ?case by simp
next
  case (Cons x xs)
  have "Max (insert (max m \<bar>x\<bar>) (abs ` set xs)) = Max (insert m (insert \<bar>x\<bar> (abs ` set xs)))"
    by (cases "set xs = {}") (simp_all add: max.assoc max.commute max.left_commute)
  moreover have "(if \<bar>x\<bar> > m then \<bar>x\<bar> else m) = max m \<bar>x\<bar>" by (simp add: max_def)
  ultimately show ?case using Cons.IH [of "max m \<bar>x\<bar>"] by simp
qed

lemma meter_spec:
  "decay_peak (peak_loop xs 0) held = spec_peak_hold 0.8 held (spec_block_peak xs)"
  by (simp add: decay_peak_def spec_peak_hold_def spec_block_peak_def peak_loop_Max)

lemma block_peak_const:
  assumes "xs \<noteq> []" "\<forall>x \<in> set xs. \<bar>x\<bar> = c" "0 \<le> c"
  shows "spec_block_peak xs = c"
proof -
  have "abs ` set xs = {c}" using assms by (cases xs) auto
  then show ?thesis using assms(3) by (simp add: spec_block_peak_def)
qed

lemma full_scale_peak:
  "k \<le> 1 \<Longrightarrow> spec_block_peak (map (\<lambda>i. real_of_int (sint (data full_scale_block ! (2 * i + k))) / 32767)
      [0..<AUDIO_BUFFER_SIZE div 2]) = 1"
  by (rule block_peak_const)
    (auto simp: full_scale_block_def AUDIO_BUFFER_SIZE_def nth_append)

text \<open>
  Claim C6. When the loop stays inside its arrays, \<^verbatim>\<open>ConvertToInt16\<close> returns; every
  output sample is the upper bound 32767 when its scaled input exceeds it, the lower bound
  -32768 when its scaled input is below it, and the truncated scaled input otherwise; and
  the clip counter grows (in \<^verbatim>\<open>uint32_t\<close>) by the number of out-of-range samples of
  the two channels, one for each and none for an in-range sample.
\<close>

theorem C6_convert_clamps_and_counts:
  assumes "len \<le> length inputL" "len \<le> length inputR" "2 * len \<le> length output"
  shows
   "\<exists>out stats'.
      ConvertToInt16 stats inputL inputR output len = Some (out, stats')
      \<and> length out = length output \<and> drop (2 * len) out = drop (2 * len) output
      \<and> (\<forall>i<len. sint (out ! (2 * i)) = spec_int16 (inputL ! i)
                  \<and> sint (out ! (2 * i + 1)) = spec_int16 (inputR ! i))
      \<and> clippingCount stats'
          = clippingCount stats
            + of_nat (length (filter spec_out_of_range (take len inputL))
                      + length (filter spec_out_of_range (take len inputR)))"
proof -
  define fs where "fs = zip (take len inputL) (take len inputR)"
  define out where "out = fst (convert_loop fs 0) @ drop (2 * len) output"
  define stats' where "stats' = stats\<lparr>clippingCount := clippingCount stats + snd (convert_loop fs 0)\<rparr>"
  have lf: "length fs = len" using assms by (simp add: fs_def)
  have m: "map fst fs = take len inputL" "map snd fs = take len inputR"
    using assms by (simp_all add: fs_def)
  have lo: "length (fst (convert_loop fs 0)) = 2 * len"
    by (simp add: convert_loop_length lf)
  have C: "ConvertToInt16 stats inputL inputR output len = Some (out, stats')"
    using assms by (simp add: ConvertToInt16_def split_beta fs_def out_def stats'_def)
  have L: "length out = length output" using assms lo by (simp add: out_def)
  have D: "drop (2 * len) out = drop (2 * len) output" using lo by (simp add: out_def)
  have N: "sint (out ! (2 * i)) = spec_int16 (inputL ! i)
      \<and> sint (out ! (2 * i + 1)) = spec_int16 (inputR ! i)" if "i < len" for i
  proof -
    have "i < length fs" using that lf by simp
    from convert_loop_nth [OF this, of 0] that lo assms show ?thesis
      by (simp add: out_def nth_append fs_def)
  qed
  have K: "clippingCount stats'
      = clippingCount stats
        + of_nat (length (filter spec_out_of_range (take len inputL))
                  + length (filter spec_out_of_range (take len inputR)))"
    by (simp add: stats'_def convert_loop_count m)
  show ?thesis using C L D N K by blast
qed

text \<open>
  Two frames with one over-range and one in-range sample in each channel: the
  over-range samples come out as 32767 and -32768 and the counter goes from 0 to 2.
\<close>

theorem C6_convert_clamps_and_counts_witness:
  "(2::nat) \<le> length [2, 1 / 2 :: real] \<and> (2::nat) \<le> length [- 2, - 1 :: real]
   \<and> 2 * (2::nat) \<le> length (replicate 4 (0 :: 16 word))
   \<and> (\<exists>out stats'.
         ConvertToInt16 (audioStats AudioProcessing_Init) [2, 1 / 2] [- 2, - 1]
           (replicate 4 0) 2 = Some (out, stats')
         \<and> sint (out ! 0) = 32767 \<and> sint (out ! 1) = - 32768
         \<and> sint (out ! 2) = 16383 \<and> sint (out ! 3) = - 32767
         \<and> clippingCount stats' = 2)"
proof -
  have h: "(2::nat) \<le> length [2, 1 / 2 :: real]" "(2::nat) \<le> length [- 2, - 1 :: real]"
    "2 * (2::nat) \<le> length (replicate 4 (0 :: 16 word))"
    by simp_all
  have v: "spec_int16 2 = 32767" "spec_int16 (- 2) = - 32768" "spec_int16 (1 / 2) = 16383"
    "spec_int16 (- 1) = - 32767"
    by (simp_all add: spec_int16_def float_to_int_def floor_eq_iff)
  have r: "spec_out_of_range 2" "spec_out_of_range (- 2)" "\<not> spec_out_of_range (1 / 2)"
    "\<not> spec_out_of_range (- 1)"
    by (simp_all add: spec_out_of_range_def)
  have c: "clippingCount (audioStats AudioProcessing_Init) = 0"
    by (simp add: AudioProcessing_Init_def)
  from C6_convert_clamps_and_counts [OF h, of "audioStats AudioProcessing_Init"]
  obtain out stats' where
    p: "ConvertToInt16 (audioStats AudioProcessing_Init) [2, 1 / 2] [- 2, - 1]
           (replicate 4 0) 2 = Some (out, stats')"
    and n: "\<forall>i<2. sint (out ! (2 * i)) = spec_int16 ([2, 1 / 2] ! i)
                  \<and> sint (out ! (2 * i + 1)) = spec_int16 ([- 2, - 1] ! i)"
    and k: "clippingCount stats'
          = clippingCount (audioStats AudioProcessing_Init)
            + of_nat (length (filter spec_out_of_range (take 2 [2, 1 / 2]))
                      + length (filter spec_out_of_range (take 2 [- 2, - 1])))"
    by blast
  have "sint (out ! (2 * 0)) = spec_int16 ([2, 1 / 2] ! 0)
      \<and> sint (out ! (2 * 0 + 1)) = spec_int16 ([- 2, - 1] ! 0)"
    using n [rule_format, of 0] by simp
  moreover have "sint (out ! (2 * 1)) = spec_int16 ([2, 1 / 2] ! 1)
      \<and> sint (out ! (2 * 1 + 1)) = spec_int16 ([- 2, - 1] ! 1)"
    using n [rule_format, of 1] by simp
  ultimately have s: "sint (out ! 0) = 32767 \<and> sint (out ! 1) = - 32768
         \<and> sint (out ! 2) = 16383 \<and> sint (out ! 3) = - 32767"
    by (simp add: v)
  have "clippingCount stats' = 2" using k by (simp add: c r)
  with p s h show ?thesis by blast
qed

text \<open>
  Claim C7. With bypass enabled (and the buffers of the sizes their declarations give),
  \<^verbatim>\<open>AudioProcessing_Process\<close> returns an output block equal to the input block, sample
  for sample. Each input peak meter becomes the peak absolute value of its channel of the
  block, scaled by 1/32767, when that exceeds the held value, and 0.8 times the held value
  otherwise; the output peak meters are set to the new input peak meters. Band buffers,
  band meters, dynamics meters, the clip counter and the state of the four stages are as
  before, so no other stage has run.
\<close>

theorem C7_bypass_copies_input:
  assumes byp: "bypassEnabled (fst sx) \<noteq> 0"
    and li: "length (data pInputBuffer) = AUDIO_BUFFER_SIZE"
    and lo: "length (data pOutputBuffer) = AUDIO_BUFFER_SIZE"
    and tl: "AUDIO_BUFFER_SIZE div 2 \<le> length (tempBufferL (fst sx))"
    and tr: "AUDIO_BUFFER_SIZE div 2 \<le> length (tempBufferR (fst sx))"
  shows
   "\<exists>out st'.
      AudioProcessing_Process ext sx pInputBuffer pOutputBuffer pSettings tickStart tickEnd
        = Some (out, st', snd sx)
      \<and> data out = data pInputBuffer
      \<and> inputPeakLevel (audioStats st') CHANNEL_LEFT
          = spec_peak_hold 0.8 (inputPeakLevel (audioStats (fst sx)) CHANNEL_LEFT)
              (spec_block_peak
                 (map (\<lambda>i. real_of_int (sint (data pInputBuffer ! (2 * i))) / 32767)
                    [0..<AUDIO_BUFFER_SIZE div 2]))
      \<and> inputPeakLevel (audioStats st') CHANNEL_RIGHT
          = spec_peak_hold 0.8 (inputPeakLevel (audioStats (fst sx)) CHANNEL_RIGHT)
              (spec_block_peak
                 (map (\<lambda>i. real_of_int (sint (data pInputBuffer ! (2 * i + 1))) / 32767)
                    [0..<AUDIO_BUFFER_SIZE div 2]))
      \<and> outputPeakLevel (audioStats st') CHANNEL_LEFT = inputPeakLevel (audioStats st') CHANNEL_LEFT
      \<and> outputPeakLevel (audioStats st') CHANNEL_RIGHT
          = inputPeakLevel (audioStats st') CHANNEL_RIGHT
      \<and> bandBufferL st' = bandBufferL (fst sx) \<and> bandBufferR st' = bandBufferR (fst sx)
      \<and> bandPeakLevel (audioStats st') = bandPeakLevel (audioStats (fst sx))
      \<and> compressionAmount (audioStats st') = compressionAmount (audioStats (fst sx))
      \<and> limiterActivity (audioStats st') = limiterActivity (audioStats (fst sx))
      \<and> clippingCount (audioStats st') = clippingCount (audioStats (fst sx))"
proof -
  define n where "n = AUDIO_BUFFER_SIZE div 2"
  define st where "st = fst sx"
  define fl where "fl = map (\<lambda>i. real_of_int (sint (data pInputBuffer ! (2 * i))) * (1 / 32767)) [0..<n]"
  define fr where "fr = map (\<lambda>i. real_of_int (sint (data pInputBuffer ! (2 * i + 1))) * (1 / 32767)) [0..<n]"
  have n2: "2 * n \<le> length (data pInputBuffer)"
    by (simp add: li n_def AUDIO_BUFFER_SIZE_def)
  have cf: "ConvertToFloat (data pInputBuffer) (tempBufferL st) (tempBufferR st) n
      = Some (fl @ drop n (tempBufferL st), fr @ drop n (tempBufferR st))"
    using n2 tl tr
    by (simp add: ConvertToFloat_def Let_def MAX_SAMPLE_VALUE_def fl_def fr_def st_def n_def)
  have mc: "memcpy (data pOutputBuffer) (data pInputBuffer) AUDIO_BUFFER_SIZE
      = Some (data pInputBuffer)"
    using li lo by (rule memcpy_whole)
  show ?thesis
    using byp
    by (simp add: AudioProcessing_Process_def Let_def mc cf UpdatePeakLevels_prefix meter_spec
        st_def [symmetric] n_def [symmetric] fl_def fr_def)
qed

text \<open>
  A full-scale block of +32767 and -32767 samples comes out unchanged, and from the initial
  meters of 0 all four peak meters read 1.
\<close>

theorem C7_bypass_copies_input_witness:
  "bypassEnabled (fst (AudioProcessing_SetBypass 1 AudioProcessing_Init, ())) \<noteq> 0
   \<and> length (data full_scale_block) = AUDIO_BUFFER_SIZE
   \<and> length (data empty_block) = AUDIO_BUFFER_SIZE
   \<and> (\<exists>out st'.
         AudioProcessing_Process copy_stages (AudioProcessing_SetBypass 1 AudioProcessing_Init, ())
           full_scale_block empty_block low_muted_settings 10 11 = Some (out, st', ())
         \<and> data out = replicate 128 32767 @ replicate 128 (- 32767)
         \<and> inputPeakLevel (audioStats st') CHANNEL_LEFT = 1
         \<and> inputPeakLevel (audioStats st') CHANNEL_RIGHT = 1
         \<and> outputPeakLevel (audioStats st') CHANNEL_LEFT = 1
         \<and> outputPeakLevel (audioStats st') CHANNEL_RIGHT = 1)"
proof -
  let ?sx = "(AudioProcessing_SetBypass 1 AudioProcessing_Init, ())"
  have h: "bypassEnabled (fst ?sx) \<noteq> 0"
    "length (data full_scale_block) = AUDIO_BUFFER_SIZE"
    "length (data empty_block) = AUDIO_BUFFER_SIZE"
    "AUDIO_BUFFER_SIZE div 2 \<le> length (tempBufferL (fst ?sx))"
    "AUDIO_BUFFER_SIZE div 2 \<le> length (tempBufferR (fst ?sx))"
    by (simp_all add: AudioProcessing_SetBypass_def AudioProcessing_Init_def
        full_scale_block_def empty_block_def AUDIO_BUFFER_SIZE_def AUDIO_TEMP_BUFFER_SIZE_def)
  have old: "inputPeakLevel (audioStats (fst ?sx)) c = 0" for c
    by (simp add: AudioProcessing_SetBypass_def AudioProcessing_Init_def)
  have pk: "spec_block_peak (map (\<lambda>i. real_of_int (sint (data full_scale_block ! (2 * i))) / 32767)
      [0..<AUDIO_BUFFER_SIZE div 2]) = 1"
    using full_scale_peak [of 0] by simp
  have pk1: "spec_block_peak (map (\<lambda>i. real_of_int (sint (data full_scale_block ! (2 * i + 1))) / 32767)
      [0..<AUDIO_BUFFER_SIZE div 2]) = 1"
    using full_scale_peak [of 1] by simp
  from C7_bypass_copies_input [OF h, of copy_stages low_muted_settings 10 11]
  obtain out st' where
    r: "AudioProcessing_Process copy_stages ?sx full_scale_block empty_block low_muted_settings 10 11
       = Some (out, st', snd ?sx)"
    "data out = data full_scale_block"
    and m: "inputPeakLevel (audioStats st') CHANNEL_LEFT
          = spec_peak_hold 0.8 (inputPeakLevel (audioStats (fst ?sx)) CHANNEL_LEFT)
              (spec_block_peak
                 (map (\<lambda>i. real_of_int (sint (data full_scale_block ! (2 * i))) / 32767)
                    [0..<AUDIO_BUFFER_SIZE div 2]))"
    "inputPeakLevel (audioStats st') CHANNEL_RIGHT
          = spec_peak_hold 0.8 (inputPeakLevel (audioStats (fst ?sx)) CHANNEL_RIGHT)
              (spec_block_peak
                 (map (\<lambda>i. real_of_int (sint (data full_scale_block ! (2 * i + 1))) / 32767)
                    [0..<AUDIO_BUFFER_SIZE div 2]))"
    "outputPeakLevel (audioStats st') CHANNEL_LEFT = inputPeakLevel (audioStats st') CHANNEL_LEFT"
    "outputPeakLevel (audioStats st') CHANNEL_RIGHT = inputPeakLevel (audioStats st') CHANNEL_RIGHT"
    by blast
  have v: "inputPeakLevel (audioStats st') CHANNEL_LEFT = 1"
    "inputPeakLevel (audioStats st') CHANNEL_RIGHT = 1"
    unfolding m old pk pk1 by (simp_all add: spec_peak_hold_def)
  from r have "AudioProcessing_Process copy_stages ?sx full_scale_block empty_block
       low_muted_settings 10 11 = Some (out, st', ())
     \<and> data out = replicate 128 32767 @ replicate 128 (- 32767)"
    by (simp add: full_scale_block_def)
  with h v m(3,4) show ?thesis by (intro conjI exI [of _ out] exI [of _ st']) simp_all
qed

section \<open>Properties of the crossover\<close>

lemma set_stage_Some:
  "i < length (filters ch) \<Longrightarrow> set_stage i calc ch = Some (upd_stage i calc ch)"
  by (simp add: set_stage_def upd_stage_def)

lemma xo_wf_lengths:
  "xo_wf cf \<longleftrightarrow>
     length (filters (subLowPass cf)) = 4 \<and> length (filters (lowHighPass cf)) = 4
     \<and> length (filters (lowLowPass cf)) = 4 \<and> length (filters (midHighPass cf)) = 4
     \<and> length (filters (midLowPass cf)) = 4 \<and> length (filters (highHighPass cf)) = 4"
  by (simp add: xo_wf_def chain_specs_def MAX_FILTER_ORDER_def)

lemma calc_stage_spec:
  assumes "xo_wf cf" "i < 4"
  shows "\<exists>cf'. calc_stage calc i cf = Some cf'
     \<and> list_all (\<lambda>(chain, cutoff, type).
          chain cf' = upd_stage i (calc (cutoff cf) type) (chain cf)) chain_specs
     \<and> xo_scalars cf' = xo_scalars cf \<and> xo_wf cf'"
  using assms
  by (simp add: xo_wf_lengths calc_stage_def set_stage_Some chain_specs_def xo_scalars_def
      upd_stage_def)

lemma lr_loop_spec:
  assumes "xo_wf cf" "list_all (\<lambda>i. i < 4) is"
  shows "\<exists>cf'. linkwitz_riley_loop is cf = Some cf'
     \<and> list_all (\<lambda>(chain, cutoff, type).
          chain cf' = foldl (\<lambda>ch i. upd_stage i
              (\<lambda>f. CalculateLinkwitzRileyCoefficients f (cutoff cf) type (filterSampleRate cf)) ch)
            (chain cf) is) chain_specs
     \<and> xo_scalars cf' = xo_scalars cf \<and> xo_wf cf'"
  using assms
proof (induction "is" arbitrary: cf)
  case Nil
  then show ?case by (simp add: chain_specs_def)
next
  case (Cons i "is")
  then have i: "i < 4" and r: "list_all (\<lambda>i. i < 4) is" by simp_all
  from calc_stage_spec [OF Cons.prems(1) i,
      of "\<lambda>frequency type f. CalculateLinkwitzRileyCoefficients f frequency type (filterSampleRate cf)"]
  obtain cf1 where
    a: "calc_stage (\<lambda>frequency type f.
          CalculateLinkwitzRileyCoefficients f frequency type (filterSampleRate cf)) i cf = Some cf1"
    and b: "list_all (\<lambda>(chain, cutoff, type).
          chain cf1 = upd_stage i
            (\<lambda>f. CalculateLinkwitzRileyCoefficients f (cutoff cf) type (filterSampleRate cf))
            (chain cf)) chain_specs"
    and s: "xo_scalars cf1 = xo_scalars cf" and w: "xo_wf cf1"
    by blast
  from Cons.IH [OF w r] obtain cf' where
    c: "linkwitz_riley_loop is cf1 = Some cf'"
    and d: "list_all (\<lambda>(chain, cutoff, type).
          chain cf' = foldl (\<lambda>ch i. upd_stage i
              (\<lambda>f. CalculateLinkwitzRileyCoefficients f (cutoff cf1) type (filterSampleRate cf1)) ch)
            (chain cf1) is) chain_specs"
    and s': "xo_scalars cf' = xo_scalars cf1" and w': "xo_wf cf'"
    by blast
  have "linkwitz_riley_loop (i # is) cf = Some cf'" using a c by simp
  moreover have "list_all (\<lambda>(chain, cutoff, type).
          chain cf' = foldl (\<lambda>ch i. upd_stage i
              (\<lambda>f. CalculateLinkwitzRileyCoefficients f (cutoff cf) type (filterSampleRate cf)) ch)
            (chain cf) (i # is)) chain_specs"
    using b d s by (simp add: chain_specs_def xo_scalars_def)
  moreover have "xo_scalars cf' = xo_scalars cf" using s s' by simp
  ultimately show ?case using w' by blast
qed

lemma bw_loop_spec:
  assumes "xo_wf cf" "list_all (\<lambda>i. i < 4 \<and> i < length qValues) is"
  shows "\<exists>cf'. butterworth_loop qValues is cf = Some cf'
     \<and> list_all (\<lambda>(chain, cutoff, type).
          chain cf' = foldl (\<lambda>ch i. upd_stage i
              (\<lambda>f. CalculateButterworthCoefficients f (cutoff cf) (qValues ! i) type
                     (filterSampleRate cf)) ch)
            (chain cf) is) chain_specs
     \<and> xo_scalars cf' = xo_scalars cf \<and> xo_wf cf'"
  using assms
proof (induction "is" arbitrary: cf)
  case Nil
  then show ?case by (simp add: chain_specs_def)
next
  case (Cons i "is")
  then have i: "i < 4" "i < length qValues"
    and r: "list_all (\<lambda>i. i < 4 \<and> i < length qValues) is" by simp_all
  from calc_stage_spec [OF Cons.prems(1) i(1),
      of "\<lambda>frequency type f. CalculateButterworthCoefficients f frequency (qValues ! i) type
            (filterSampleRate cf)"]
  obtain cf1 where
    a: "calc_stage (\<lambda>frequency type f.
          CalculateButterworthCoefficients f frequency (qValues ! i) type (filterSampleRate cf))
          i cf = Some cf1"
    and b: "list_all (\<lambda>(chain, cutoff, type).
          chain cf1 = upd_stage i
            (\<lambda>f. CalculateButterworthCoefficients f (cutoff cf) (qValues ! i) type
                   (filterSampleRate cf))
            (chain cf)) chain_specs"
    and s: "xo_scalars cf1 = xo_scalars cf" and w: "xo_wf cf1"
    by blast
  from Cons.IH [OF w r] obtain cf' where
    c: "butterworth_loop qValues is cf1 = Some cf'"
    and d: "list_all (\<lambda>(chain, cutoff, type).
          chain cf' = foldl (\<lambda>ch i. upd_stage i
              (\<lambda>f. CalculateButterworthCoefficients f (cutoff cf1) (qValues ! i) type
                     (filterSampleRate cf1)) ch)
            (chain cf1) is) chain_specs"
    and s': "xo_scalars cf' = xo_scalars cf1" and w': "xo_wf cf'"
    by blast
  have "butterworth_loop qValues (i # is) cf = Some cf'" using a c i by simp
  moreover have "list_all (\<lambda>(chain, cutoff, type).
          chain cf' = foldl (\<lambda>ch i. upd_stage i
              (\<lambda>f. CalculateButterworthCoefficients f (cutoff cf) (qValues ! i) type
                     (filterSampleRate cf)) ch)
            (chain cf) (i # is)) chain_specs"
    using b d s by (simp add: chain_specs_def xo_scalars_def)
  moreover have "xo_scalars cf' = xo_scalars cf" using s s' by simp
  ultimately show ?case using w' by blast
qed

lemma foldl_upd_stage:
  "n \<le> length (filters ch) \<Longrightarrow>
   filterCount (foldl (\<lambda>ch i. upd_stage i (F i) ch) ch [0..<n]) = filterCount ch
   \<and> length (filters (foldl (\<lambda>ch i. upd_stage i (F i) ch) ch [0..<n])) = length (filters ch)
   \<and> (\<forall>j. filters (foldl (\<lambda>ch i. upd_stage i (F i) ch) ch [0..<n]) ! j
          = (if j < n then F j (filters ch ! j) else filters ch ! j))"
proof (induction n)
  case 0
  then show ?case by simp
next
  case (Suc n)
  then show ?case
    by (auto simp: upd_stage_def nth_list_update less_Suc_eq)
qed

lemma list_allD: "list_all P xs \<Longrightarrow> x \<in> set xs \<Longrightarrow> P x"
  by (simp add: list_all_iff)

lemma upt_all: "n \<le> m \<Longrightarrow> list_all (\<lambda>i. i < m) [0..<n]"
  by (simp add: list_all_iff)

lemma reset_spec:
  assumes "xo_wf (crossoverFilters st)"
  shows "xo_wf (crossoverFilters (ResetAllFilters st))"
    "xo_scalars (crossoverFilters (ResetAllFilters st)) = xo_scalars (crossoverFilters st)"
    "currentSettings (ResetAllFilters st) = currentSettings st"
    "list_all (\<lambda>(chain, cutoff, type).
        chain (crossoverFilters (ResetAllFilters st)) = reset_chain (chain (crossoverFilters st)))
       chain_specs"
  using assms
  by (simp_all add: ResetAllFilters_def Let_def xo_wf_lengths reset_chain_def chain_specs_def
      xo_scalars_def)

lemma order_cases:
  assumes "order = 2 \<or> order = 4 \<or> order = (8 :: 8 word)"
  shows "unat (order div 2) \<le> 4" "unat (order div 2) \<le> length (butterworth_q order)"
    "unat (order div 4) \<le> 4"
  using assms by (auto simp: butterworth_q_def)

lemma CalculateFilterCoefficients_alt:
  "CalculateFilterCoefficients st0 =
     (if filterType (crossoverFilters (ResetAllFilters st0)) = 0
      then map_option (\<lambda>cf1. (ResetAllFilters st0)\<lparr>crossoverFilters := cf1\<rparr>)
             (butterworth_loop
                (butterworth_q (filterOrder (crossoverFilters (ResetAllFilters st0))))
                [0..<unat (filterOrder (crossoverFilters (ResetAllFilters st0)) div 2)]
                (crossoverFilters (ResetAllFilters st0)))
      else map_option (\<lambda>cf1. (ResetAllFilters st0)\<lparr>crossoverFilters := cf1\<rparr>)
             (linkwitz_riley_loop
                [0..<unat (filterOrder (crossoverFilters (ResetAllFilters st0)) div 4)]
                (crossoverFilters (ResetAllFilters st0))))"
  by (simp only: CalculateFilterCoefficients_def butterworth_q_def Let_def)

lemma calc_spec:
  assumes wf: "xo_wf (crossoverFilters st)"
    and ord: "filterOrder (crossoverFilters st) = 2 \<or> filterOrder (crossoverFilters st) = 4
              \<or> filterOrder (crossoverFilters st) = 8"
  shows "\<exists>st'. CalculateFilterCoefficients st = Some st'
     \<and> xo_scalars (crossoverFilters st') = xo_scalars (crossoverFilters st)
     \<and> currentSettings st' = currentSettings st
     \<and> xo_wf (crossoverFilters st')
     \<and> list_all (\<lambda>(chain, cutoff, type).
          filterCount (chain (crossoverFilters st')) = filterCount (chain (crossoverFilters st))
          \<and> (\<forall>j<4. filters (chain (crossoverFilters st')) ! j
                = (if j < computed_stages (filterType (crossoverFilters st))
                             (filterOrder (crossoverFilters st))
                   then fresh_stage (crossoverFilters st) cutoff type j
                          (filters (chain (crossoverFilters st)) ! j)
                   else ResetFilter (filters (chain (crossoverFilters st)) ! j))))
        chain_specs"
proof -
  define cf where "cf = crossoverFilters st"
  define st1 where "st1 = ResetAllFilters st"
  define cf1 where "cf1 = crossoverFilters st1"
  note r = reset_spec [OF wf, folded st1_def cf1_def cf_def]
  have sc: "filterType cf1 = filterType cf" "filterOrder cf1 = filterOrder cf"
    "filterSampleRate cf1 = filterSampleRate cf"
    "lowCutoff cf1 = lowCutoff cf" "midCutoff cf1 = midCutoff cf" "highCutoff cf1 = highCutoff cf"
    using r(2) by (simp_all add: xo_scalars_def)
  have l1: "list_all (\<lambda>(chain, cutoff, type). length (filters (chain cf1)) = 4) chain_specs"
    using r(1) by (simp add: xo_wf_def MAX_FILTER_ORDER_def)
  note oc = order_cases [OF ord [folded cf_def]]
  define n where "n = computed_stages (filterType cf) (filterOrder cf)"
  have n4: "n \<le> 4" using oc by (simp add: n_def computed_stages_def)
  define F where "F = (\<lambda>cutoff type (j :: nat) f.
      CalculateButterworthCoefficients f (cutoff cf) (stage_q (filterType cf) (filterOrder cf) j)
        type (filterSampleRate cf))"
  have "\<exists>cf'. CalculateFilterCoefficients st = Some (st1\<lparr>crossoverFilters := cf'\<rparr>)
     \<and> list_all (\<lambda>(chain, cutoff, type).
          chain cf' = foldl (\<lambda>ch i. upd_stage i (F cutoff type i) ch) (chain cf1) [0..<n])
        chain_specs
     \<and> xo_scalars cf' = xo_scalars cf1 \<and> xo_wf cf'"
  proof (cases "filterType cf = 0")
    case True
    have a: "list_all (\<lambda>i. i < 4 \<and> i < length (butterworth_q (filterOrder cf)))
        [0..<unat (filterOrder cf div 2)]"
      using oc by (simp add: list_all_iff)
    from bw_loop_spec [OF r(1) a] obtain cf' where
      b: "butterworth_loop (butterworth_q (filterOrder cf)) [0..<unat (filterOrder cf div 2)] cf1
          = Some cf'"
      and c: "list_all (\<lambda>(chain, cutoff, type).
          chain cf' = foldl (\<lambda>ch i. upd_stage i
              (\<lambda>f. CalculateButterworthCoefficients f (cutoff cf1)
                     (butterworth_q (filterOrder cf) ! i) type (filterSampleRate cf1)) ch)
            (chain cf1) [0..<unat (filterOrder cf div 2)]) chain_specs"
      and d: "xo_scalars cf' = xo_scalars cf1" "xo_wf cf'"
      by blast
    have "CalculateFilterCoefficients st = Some (st1\<lparr>crossoverFilters := cf'\<rparr>)"
      using True b
      by (simp add: CalculateFilterCoefficients_alt st1_def [symmetric]
          cf1_def [symmetric] sc)
    moreover have "list_all (\<lambda>(chain, cutoff, type).
          chain cf' = foldl (\<lambda>ch i. upd_stage i (F cutoff type i) ch) (chain cf1) [0..<n])
        chain_specs"
      using c True
      by (simp add: chain_specs_def sc F_def n_def computed_stages_def stage_q_def)
    ultimately show ?thesis using d by blast
  next
    case False
    have a: "list_all (\<lambda>i. i < 4) [0..<unat (filterOrder cf div 4)]"
      using oc by (simp add: list_all_iff)
    from lr_loop_spec [OF r(1) a] obtain cf' where
      b: "linkwitz_riley_loop [0..<unat (filterOrder cf div 4)] cf1 = Some cf'"
      and c: "list_all (\<lambda>(chain, cutoff, type).
          chain cf' = foldl (\<lambda>ch i. upd_stage i
              (\<lambda>f. CalculateLinkwitzRileyCoefficients f (cutoff cf1) type (filterSampleRate cf1)) ch)
            (chain cf1) [0..<unat (filterOrder cf div 4)]) chain_specs"
      and d: "xo_scalars cf' = xo_scalars cf1" "xo_wf cf'"
      by blast
    have "CalculateFilterCoefficients st = Some (st1\<lparr>crossoverFilters := cf'\<rparr>)"
      using False b
      by (simp add: CalculateFilterCoefficients_alt st1_def [symmetric]
          cf1_def [symmetric] sc)
    moreover have "list_all (\<lambda>(chain, cutoff, type).
          chain cf' = foldl (\<lambda>ch i. upd_stage i (F cutoff type i) ch) (chain cf1) [0..<n])
        chain_specs"
      using c False
      by (simp add: chain_specs_def sc F_def n_def computed_stages_def stage_q_def
          CalculateLinkwitzRileyCoefficients_def)
    ultimately show ?thesis using d by blast
  qed
  then obtain cf' where
    R: "CalculateFilterCoefficients st = Some (st1\<lparr>crossoverFilters := cf'\<rparr>)"
    and f: "list_all (\<lambda>(chain, cutoff, type).
          chain cf' = foldl (\<lambda>ch i. upd_stage i (F cutoff type i) ch) (chain cf1) [0..<n])
        chain_specs"
    and s: "xo_scalars cf' = xo_scalars cf1" and w: "xo_wf cf'"
    by blast
  have P: "filterCount (chain cf') = filterCount (chain cf)
      \<and> (\<forall>j<4. filters (chain cf') ! j
            = (if j < n then fresh_stage cf cutoff type j (filters (chain cf) ! j)
               else ResetFilter (filters (chain cf) ! j)))"
    if m: "(chain, cutoff, type) \<in> set chain_specs" for chain cutoff type
  proof -
    have e: "chain cf' = foldl (\<lambda>ch i. upd_stage i (F cutoff type i) ch) (chain cf1) [0..<n]"
      using list_allD [OF f m] by simp
    have l: "length (filters (chain cf1)) = 4" using list_allD [OF l1 m] by simp
    have c1: "chain cf1 = reset_chain (chain cf)" using list_allD [OF r(4) m] by simp
    have nl: "n \<le> length (filters (chain cf1))" using n4 l by simp
    have l0: "length (filters (chain cf)) = 4" using l c1 by (simp add: reset_chain_def)
    from foldl_upd_stage [OF nl, of "F cutoff type"] show ?thesis
      unfolding e [symmetric]
      by (simp add: c1 reset_chain_def l0 F_def fresh_stage_def)
  qed
  have LA: "list_all (\<lambda>(chain, cutoff, type).
          filterCount (chain cf') = filterCount (chain cf)
          \<and> (\<forall>j<4. filters (chain cf') ! j
                = (if j < n then fresh_stage cf cutoff type j (filters (chain cf) ! j)
                   else ResetFilter (filters (chain cf) ! j))))
        chain_specs"
    unfolding list_all_iff using P by blast
  have sel: "crossoverFilters (st1\<lparr>crossoverFilters := cf'\<rparr>) = cf'"
    "currentSettings (st1\<lparr>crossoverFilters := cf'\<rparr>) = currentSettings st1"
    by simp_all
  have s2: "xo_scalars cf' = xo_scalars cf" using s r(2) by simp
  show ?thesis
  proof (intro exI conjI)
    show "CalculateFilterCoefficients st = Some (st1\<lparr>crossoverFilters := cf'\<rparr>)" by (rule R)
    show "xo_scalars (crossoverFilters (st1\<lparr>crossoverFilters := cf'\<rparr>))
        = xo_scalars (crossoverFilters st)"
      unfolding sel cf_def [symmetric] by (rule s2)
    show "currentSettings (st1\<lparr>crossoverFilters := cf'\<rparr>) = currentSettings st"
      unfolding sel by (rule r(3))
    show "xo_wf (crossoverFilters (st1\<lparr>crossoverFilters := cf'\<rparr>))"
      unfolding sel by (rule w)
    show "list_all (\<lambda>(chain, cutoff, type).
          filterCount (chain (crossoverFilters (st1\<lparr>crossoverFilters := cf'\<rparr>)))
            = filterCount (chain (crossoverFilters st))
          \<and> (\<forall>j<4. filters (chain (crossoverFilters (st1\<lparr>crossoverFilters := cf'\<rparr>))) ! j
                = (if j < computed_stages (filterType (crossoverFilters st))
                             (filterOrder (crossoverFilters st))
                   then fresh_stage (crossoverFilters st) cutoff type j
                          (filters (chain (crossoverFilters st)) ! j)
                   else ResetFilter (filters (chain (crossoverFilters st)) ! j))))
        chain_specs"
      unfolding sel cf_def [symmetric] n_def [symmetric] by (rule LA)
  qed
qed

lemma set_settings_spec:
  assumes wf: "xo_wf (crossoverFilters st)"
    and ord: "s_filterOrder s = 2 \<or> s_filterOrder s = 4 \<or> s_filterOrder s = 8"
  shows "\<exists>st'. Crossover_SetSettings s st = Some st'
     \<and> currentSettings st' = s
     \<and> xo_scalars (crossoverFilters st')
         = ((s_lowCutoff s, s_midCutoff s, s_highCutoff s),
            (DB_TO_LINEAR (s_subGain s), DB_TO_LINEAR (s_lowGain s),
             DB_TO_LINEAR (s_midGain s), DB_TO_LINEAR (s_highGain s)),
            (s_filterType s, s_filterOrder s),
            (s_subMute s, s_lowMute s, s_midMute s, s_highMute s),
            filterSampleRate (crossoverFilters st))
     \<and> xo_wf (crossoverFilters st')
     \<and> list_all (\<lambda>(chain, cutoff, type).
          filterCount (chain (crossoverFilters st')) = s_filterOrder s div 2
          \<and> (\<forall>j<4. filters (chain (crossoverFilters st')) ! j
                = (if j < computed_stages (s_filterType s) (s_filterOrder s)
                   then fresh_stage (crossoverFilters st') cutoff type j
                          (filters (chain (crossoverFilters st)) ! j)
                   else ResetFilter (filters (chain (crossoverFilters st)) ! j))))
        chain_specs"
proof -
  define cf where "cf = crossoverFilters st"
  define n where "n = s_filterOrder s div 2"
  define cf1 where "cf1 = cf\<lparr>lowCutoff := s_lowCutoff s,
                   midCutoff := s_midCutoff s,
                   highCutoff := s_highCutoff s,
                   subGain := DB_TO_LINEAR (s_subGain s),
                   lowGain := DB_TO_LINEAR (s_lowGain s),
                   midGain := DB_TO_LINEAR (s_midGain s),
                   highGain := DB_TO_LINEAR (s_highGain s),
                   filterType := s_filterType s,
                   filterOrder := s_filterOrder s,
                   subMute := s_subMute s,
                   lowMute := s_lowMute s,
                   midMute := s_midMute s,
                   highMute := s_highMute s,
                   subLowPass := set_filterCount n (subLowPass cf),
                   lowLowPass := set_filterCount n (lowLowPass cf),
                   lowHighPass := set_filterCount n (lowHighPass cf),
                   midLowPass := set_filterCount n (midLowPass cf),
                   midHighPass := set_filterCount n (midHighPass cf),
                   highHighPass := set_filterCount n (highHighPass cf)\<rparr>"
  define st1 where "st1 = st\<lparr>currentSettings := s, crossoverFilters := cf1\<rparr>"
  have S: "Crossover_SetSettings s st = CalculateFilterCoefficients st1"
    by (simp add: Crossover_SetSettings_def Let_def st1_def cf1_def cf_def n_def)
  have sel: "crossoverFilters st1 = cf1" "currentSettings st1 = s" by (simp_all add: st1_def)
  have wf1: "xo_wf (crossoverFilters st1)"
    using wf by (simp add: sel cf1_def xo_wf_lengths set_filterCount_def cf_def)
  have o1: "filterOrder (crossoverFilters st1) = 2 \<or> filterOrder (crossoverFilters st1) = 4
      \<or> filterOrder (crossoverFilters st1) = 8"
    using ord by (simp add: sel cf1_def)
  have sc1: "xo_scalars cf1
         = ((s_lowCutoff s, s_midCutoff s, s_highCutoff s),
            (DB_TO_LINEAR (s_subGain s), DB_TO_LINEAR (s_lowGain s),
             DB_TO_LINEAR (s_midGain s), DB_TO_LINEAR (s_highGain s)),
            (s_filterType s, s_filterOrder s),
            (s_subMute s, s_lowMute s, s_midMute s, s_highMute s),
            filterSampleRate cf)"
    by (simp add: xo_scalars_def cf1_def)
  have ch1: "list_all (\<lambda>(chain, cutoff, type). chain cf1 = set_filterCount n (chain cf)) chain_specs"
    by (simp add: chain_specs_def cf1_def)
  from calc_spec [OF wf1 o1] obtain st' where
    R: "CalculateFilterCoefficients st1 = Some st'"
    and sc: "xo_scalars (crossoverFilters st') = xo_scalars cf1"
    and cs: "currentSettings st' = s"
    and w: "xo_wf (crossoverFilters st')"
    and la: "list_all (\<lambda>(chain, cutoff, type).
          filterCount (chain (crossoverFilters st')) = filterCount (chain cf1)
          \<and> (\<forall>j<4. filters (chain (crossoverFilters st')) ! j
                = (if j < computed_stages (filterType cf1) (filterOrder cf1)
                   then fresh_stage cf1 cutoff type j (filters (chain cf1) ! j)
                   else ResetFilter (filters (chain cf1) ! j))))
        chain_specs"
    unfolding sel by blast
  have to: "filterType cf1 = s_filterType s" "filterOrder cf1 = s_filterOrder s"
    by (simp_all add: cf1_def)
  have fr: "fresh_stage (crossoverFilters st') cutoff type j f = fresh_stage cf1 cutoff type j f"
    if "(chain, cutoff, type) \<in> set chain_specs" for chain cutoff type j f
    using that sc by (auto simp: chain_specs_def fresh_stage_def xo_scalars_def)
  have P: "filterCount (chain (crossoverFilters st')) = s_filterOrder s div 2
      \<and> (\<forall>j<4. filters (chain (crossoverFilters st')) ! j
            = (if j < computed_stages (s_filterType s) (s_filterOrder s)
               then fresh_stage (crossoverFilters st') cutoff type j (filters (chain cf) ! j)
               else ResetFilter (filters (chain cf) ! j)))"
    if m: "(chain, cutoff, type) \<in> set chain_specs" for chain cutoff type
  proof -
    have c: "chain cf1 = set_filterCount n (chain cf)" using list_allD [OF ch1 m] by simp
    from list_allD [OF la m] show ?thesis
      by (simp add: c set_filterCount_def n_def to fr [OF m])
  qed
  have LA: "list_all (\<lambda>(chain, cutoff, type).
          filterCount (chain (crossoverFilters st')) = s_filterOrder s div 2
          \<and> (\<forall>j<4. filters (chain (crossoverFilters st')) ! j
                = (if j < computed_stages (s_filterType s) (s_filterOrder s)
                   then fresh_stage (crossoverFilters st') cutoff type j (filters (chain cf) ! j)
                   else ResetFilter (filters (chain cf) ! j))))
        chain_specs"
    unfolding list_all_iff using P by blast
  show ?thesis
  proof (intro exI conjI)
    show "Crossover_SetSettings s st = Some st'" using S R by simp
    show "currentSettings st' = s" by (rule cs)
    show "xo_scalars (crossoverFilters st')
         = ((s_lowCutoff s, s_midCutoff s, s_highCutoff s),
            (DB_TO_LINEAR (s_subGain s), DB_TO_LINEAR (s_lowGain s),
             DB_TO_LINEAR (s_midGain s), DB_TO_LINEAR (s_highGain s)),
            (s_filterType s, s_filterOrder s),
            (s_subMute s, s_lowMute s, s_midMute s, s_highMute s),
            filterSampleRate (crossoverFilters st))"
      unfolding cf_def [symmetric] using sc sc1 by simp
    show "xo_wf (crossoverFilters st')" by (rule w)
    show "list_all (\<lambda>(chain, cutoff, type).
          filterCount (chain (crossoverFilters st')) = s_filterOrder s div 2
          \<and> (\<forall>j<4. filters (chain (crossoverFilters st')) ! j
                = (if j < computed_stages (s_filterType s) (s_filterOrder s)
                   then fresh_stage (crossoverFilters st') cutoff type j
                          (filters (chain (crossoverFilters st)) ! j)
                   else ResetFilter (filters (chain (crossoverFilters st)) ! j))))
        chain_specs"
      unfolding cf_def [symmetric] by (rule LA)
  qed
qed

lemma init_spec:
  "\<exists>st0. Crossover_Init = Some st0 \<and> xo_wf (crossoverFilters st0)
     \<and> filterSampleRate (crossoverFilters st0) = 48000
     \<and> list_all (\<lambda>(chain, cutoff, type).
          b0 (filters (chain (crossoverFilters st0)) ! 1) = 0
          \<and> b1 (filters (chain (crossoverFilters st0)) ! 1) = 0
          \<and> b2 (filters (chain (crossoverFilters st0)) ! 1) = 0) chain_specs"
proof -
  define ch where "ch = zero_chain\<lparr>filterCount := (4 :: 8 word) div 2\<rparr>"
  define cf where "cf = \<lparr>subLowPass = ch, lowLowPass = ch, lowHighPass = ch,
                midLowPass = ch, midHighPass = ch, highHighPass = ch,
                lowCutoff = 100, midCutoff = 1000, highCutoff = 5000,
                subGain = 1, lowGain = 1, midGain = 1, highGain = 1,
                filterType = 1, filterOrder = 4,
                subMute = 0, lowMute = 0, midMute = 0, highMute = 0,
                filterSampleRate = 48000\<rparr>"
  define st where "st = \<lparr>crossoverFilters = cf,
                currentSettings =
                  \<lparr>s_lowCutoff = 0, s_midCutoff = 0, s_highCutoff = 0,
                   s_subGain = 0, s_lowGain = 0, s_midGain = 0, s_highGain = 0,
                   s_filterType = 0, s_filterOrder = 0,
                   s_subMute = 0, s_lowMute = 0, s_midMute = 0, s_highMute = 0\<rparr>,
                subBuffer = replicate AUDIO_BUFFER_SIZE 0,
                lowBuffer = replicate AUDIO_BUFFER_SIZE 0,
                midBuffer = replicate AUDIO_BUFFER_SIZE 0,
                highBuffer = replicate AUDIO_BUFFER_SIZE 0\<rparr>"
  define st1 where "st1 = ResetAllFilters st"
  have lch: "length (filters ch) = 4" "filters ch ! 1 = zero_filter"
    "filters ch ! Suc 0 = zero_filter"
    by (simp_all add: ch_def zero_chain_def MAX_FILTER_ORDER_def)
  have wf: "xo_wf (crossoverFilters st)"
    by (simp add: xo_wf_lengths st_def cf_def lch)
  have wf1: "xo_wf (crossoverFilters st1)" unfolding st1_def by (rule reset_spec(1) [OF wf])
  have sc1: "xo_scalars (crossoverFilters st1) = xo_scalars cf"
    using reset_spec(2) [OF wf] by (simp add: st1_def st_def)
  have o1: "filterOrder (crossoverFilters st1) = 2 \<or> filterOrder (crossoverFilters st1) = 4
      \<or> filterOrder (crossoverFilters st1) = 8"
    using sc1 by (simp add: xo_scalars_def cf_def)
  have t1: "computed_stages (filterType (crossoverFilters st1)) (filterOrder (crossoverFilters st1)) = 1"
    using sc1 by (simp add: xo_scalars_def cf_def computed_stages_def)
  have c0: "list_all (\<lambda>(chain, cutoff, type).
        chain (crossoverFilters st1) = reset_chain (chain (crossoverFilters st))) chain_specs"
    unfolding st1_def by (rule reset_spec(4) [OF wf])
  have sel: "crossoverFilters st = cf" by (simp add: st_def)
  have chains: "list_all (\<lambda>(chain, cutoff, type). chain cf = ch) chain_specs"
    by (simp add: chain_specs_def cf_def)
  from calc_spec [OF wf1 o1] obtain st' where
    R: "CalculateFilterCoefficients st1 = Some st'"
    and sc: "xo_scalars (crossoverFilters st') = xo_scalars (crossoverFilters st1)"
    and w: "xo_wf (crossoverFilters st')"
    and la: "list_all (\<lambda>(chain, cutoff, type).
          filterCount (chain (crossoverFilters st')) = filterCount (chain (crossoverFilters st1))
          \<and> (\<forall>j<4. filters (chain (crossoverFilters st')) ! j
                = (if j < 1 then fresh_stage (crossoverFilters st1) cutoff type j
                          (filters (chain (crossoverFilters st1)) ! j)
                   else ResetFilter (filters (chain (crossoverFilters st1)) ! j))))
        chain_specs"
    unfolding t1 by blast
  have P: "filters (chain (crossoverFilters st')) ! 1 = ResetFilter (ResetFilter zero_filter)"
    if m: "(chain, cutoff, type) \<in> set chain_specs" for chain cutoff type
  proof -
    from list_allD [OF la m]
    have "\<forall>j<4. filters (chain (crossoverFilters st')) ! j
                = (if j < 1 then fresh_stage (crossoverFilters st1) cutoff type j
                          (filters (chain (crossoverFilters st1)) ! j)
                   else ResetFilter (filters (chain (crossoverFilters st1)) ! j))"
      by simp
    from this [rule_format, of 1] list_allD [OF c0 m] list_allD [OF chains m] show ?thesis
      by (simp add: sel reset_chain_def lch)
  qed
  define fin where "fin = (\<lambda>st1 :: Crossover_t. st1\<lparr>currentSettings :=
                         \<lparr>s_lowCutoff = lowCutoff (crossoverFilters st1),
                          s_midCutoff = midCutoff (crossoverFilters st1),
                          s_highCutoff = highCutoff (crossoverFilters st1),
                          s_subGain = LINEAR_TO_DB (subGain (crossoverFilters st1)),
                          s_lowGain = LINEAR_TO_DB (lowGain (crossoverFilters st1)),
                          s_midGain = LINEAR_TO_DB (midGain (crossoverFilters st1)),
                          s_highGain = LINEAR_TO_DB (highGain (crossoverFilters st1)),
                          s_filterType = filterType (crossoverFilters st1),
                          s_filterOrder = filterOrder (crossoverFilters st1),
                          s_subMute = subMute (crossoverFilters st1),
                          s_lowMute = lowMute (crossoverFilters st1),
                          s_midMute = midMute (crossoverFilters st1),
                          s_highMute = highMute (crossoverFilters st1)\<rparr>\<rparr>)"
  have I: "Crossover_Init = map_option fin (CalculateFilterCoefficients st1)"
    by (simp only: Crossover_Init_def Let_def ch_def cf_def st_def st1_def fin_def)
  have cfin: "crossoverFilters (fin st') = crossoverFilters st'" by (simp add: fin_def)
  have "Crossover_Init = Some (fin st')" using I R by simp
  moreover have "xo_wf (crossoverFilters (fin st'))" unfolding cfin by (rule w)
  moreover have "filterSampleRate (crossoverFilters (fin st')) = 48000"
    unfolding cfin using sc sc1 by (simp add: xo_scalars_def cf_def)
  moreover have "list_all (\<lambda>(chain, cutoff, type).
          b0 (filters (chain (crossoverFilters (fin st'))) ! 1) = 0
          \<and> b1 (filters (chain (crossoverFilters (fin st'))) ! 1) = 0
          \<and> b2 (filters (chain (crossoverFilters (fin st'))) ! 1) = 0) chain_specs"
    unfolding cfin list_all_iff using P by (auto simp: ResetFilter_def zero_filter_def)
  ultimately show ?thesis by blast
qed

lemma upt2: "[0..<2] = [0, 1]"
  by (simp add: upt_rec)

lemma chain_silent:
  assumes "filterCount ch = 2" "length (filters ch) = 4"
    "b0 (filters ch ! 1) = 0" "b1 (filters ch ! 1) = 0" "b2 (filters ch ! 1) = 0"
  shows "map_option fst (ProcessFilterChain ch x) = Some 0"
  using assms
  by (simp add: ProcessFilterChain_def upt2 ProcessBiquad_def Let_def split_beta)

lemma lowpass_b0_nonzero:
  fixes w q :: real
  assumes "0 < w" "w < 2" "0 < q"
  shows "((1 - cos w) / 2) / (1 + sin w / (2 * q)) \<noteq> 0"
proof -
  have "cos (2 * (w / 2)) < 1" using assms by (intro cos_double_less_one) simp_all
  then have c: "cos w < 1" by simp
  have "0 < sin w" using assms by (intro sin_gt_zero_02) simp_all
  then have "0 < 1 + sin w / (2 * q)" using assms by (simp add: add_pos_nonneg)
  with c show ?thesis by simp
qed

lemma computed_stages_le:
  assumes "order = 2 \<or> order = 4 \<or> order = (8 :: 8 word)"
  shows "computed_stages type order \<le> 4"
  using assms by (auto simp: computed_stages_def)

lemma init_then_out_of_range:
  "\<exists>st0 st. Crossover_Init = Some st0
     \<and> Crossover_SetSettings out_of_range_settings st0 = Some st
     \<and> lowCutoff (crossoverFilters st) = 5 \<and> highCutoff (crossoverFilters st) = 30000"
proof -
  from init_spec obtain st0 where
    I: "Crossover_Init = Some st0" and wf: "xo_wf (crossoverFilters st0)"
    by blast
  have ord: "s_filterOrder out_of_range_settings = 2 \<or> s_filterOrder out_of_range_settings = 4
      \<or> s_filterOrder out_of_range_settings = 8"
    by (simp add: out_of_range_settings_def)
  from set_settings_spec [OF wf ord] obtain st where
    S: "Crossover_SetSettings out_of_range_settings st0 = Some st"
    and sc: "xo_scalars (crossoverFilters st)
         = ((s_lowCutoff out_of_range_settings, s_midCutoff out_of_range_settings,
             s_highCutoff out_of_range_settings),
            (DB_TO_LINEAR (s_subGain out_of_range_settings),
             DB_TO_LINEAR (s_lowGain out_of_range_settings),
             DB_TO_LINEAR (s_midGain out_of_range_settings),
             DB_TO_LINEAR (s_highGain out_of_range_settings)),
            (s_filterType out_of_range_settings, s_filterOrder out_of_range_settings),
            (s_subMute out_of_range_settings, s_lowMute out_of_range_settings,
             s_midMute out_of_range_settings, s_highMute out_of_range_settings),
            filterSampleRate (crossoverFilters st0))"
    by blast
  have "lowCutoff (crossoverFilters st) = 5" "highCutoff (crossoverFilters st) = 30000"
    using sc by (simp_all add: xo_scalars_def out_of_range_settings_def)
  with I S show ?thesis by blast
qed

subsection \<open>Claim C1: recomputation of every active stage\<close>

text \<open>
  Claim C1. After a call that changes the cutoffs, type, order or sample rate, every one of
  the order/2 active biquad stages of each of the six chains should hold freshly computed
  coefficients. The code does not do this for the Linkwitz-Riley type: with
  \<^const>\<open>Crossover_Init\<close> followed by \<^const>\<open>Crossover_SetSettings\<close> for a
  fourth-order Linkwitz-Riley crossover at 80, 1000 and 8000 Hz, every chain has
  \<open>filterCount = 2\<close>, but the coefficient loop of the Linkwitz-Riley branch runs
  \<open>filterOrder / 4 = 1\<close> times only. Stage 1 of every chain keeps the all-zero
  coefficients it had before the call, although the freshly computed \<open>b0\<close> of the
  sub low-pass would be non-zero, and \<^const>\<open>ProcessFilterChain\<close> therefore returns 0
  for every input sample.
\<close>

theorem C1_linkwitz_riley_second_stage_stale:
  "\<exists>st. Crossover_Init \<bind> Crossover_SetSettings lr4_settings = Some st
     \<and> b0 (fresh_stage (crossoverFilters st) lowCutoff 0 1
              (filters (subLowPass (crossoverFilters st)) ! 1)) \<noteq> 0
     \<and> list_all (\<lambda>(chain, cutoff, type).
          filterCount (chain (crossoverFilters st)) = 2
          \<and> b0 (filters (chain (crossoverFilters st)) ! 1) = 0
          \<and> b1 (filters (chain (crossoverFilters st)) ! 1) = 0
          \<and> b2 (filters (chain (crossoverFilters st)) ! 1) = 0
          \<and> (\<forall>x. map_option fst (ProcessFilterChain (chain (crossoverFilters st)) x) = Some 0))
        chain_specs"
proof -
  from init_spec obtain st0 where
    I: "Crossover_Init = Some st0" and wf: "xo_wf (crossoverFilters st0)"
    and fs0: "filterSampleRate (crossoverFilters st0) = 48000"
    and z: "list_all (\<lambda>(chain, cutoff, type).
          b0 (filters (chain (crossoverFilters st0)) ! 1) = 0
          \<and> b1 (filters (chain (crossoverFilters st0)) ! 1) = 0
          \<and> b2 (filters (chain (crossoverFilters st0)) ! 1) = 0) chain_specs"
    by blast
  have ord: "s_filterOrder lr4_settings = 2 \<or> s_filterOrder lr4_settings = 4
      \<or> s_filterOrder lr4_settings = 8"
    by (simp add: lr4_settings_def)
  have cs: "computed_stages (s_filterType lr4_settings) (s_filterOrder lr4_settings) = 1"
    "s_filterOrder lr4_settings div 2 = 2"
    by (simp_all add: computed_stages_def lr4_settings_def)
  from set_settings_spec [OF wf ord] obtain st where
    S: "Crossover_SetSettings lr4_settings st0 = Some st"
    and sc: "xo_scalars (crossoverFilters st)
         = ((s_lowCutoff lr4_settings, s_midCutoff lr4_settings, s_highCutoff lr4_settings),
            (DB_TO_LINEAR (s_subGain lr4_settings), DB_TO_LINEAR (s_lowGain lr4_settings),
             DB_TO_LINEAR (s_midGain lr4_settings), DB_TO_LINEAR (s_highGain lr4_settings)),
            (s_filterType lr4_settings, s_filterOrder lr4_settings),
            (s_subMute lr4_settings, s_lowMute lr4_settings, s_midMute lr4_settings,
             s_highMute lr4_settings),
            filterSampleRate (crossoverFilters st0))"
    and w: "xo_wf (crossoverFilters st)"
    and la: "list_all (\<lambda>(chain, cutoff, type).
          filterCount (chain (crossoverFilters st)) = 2
          \<and> (\<forall>j<4. filters (chain (crossoverFilters st)) ! j
                = (if j < 1
                   then fresh_stage (crossoverFilters st) cutoff type j
                          (filters (chain (crossoverFilters st0)) ! j)
                   else ResetFilter (filters (chain (crossoverFilters st0)) ! j))))
        chain_specs"
    unfolding cs by blast
  have l4: "list_all (\<lambda>(chain, cutoff, type). length (filters (chain (crossoverFilters st))) = 4)
      chain_specs"
    using w by (simp add: xo_wf_def MAX_FILTER_ORDER_def)
  have P: "filterCount (chain (crossoverFilters st)) = 2
          \<and> b0 (filters (chain (crossoverFilters st)) ! 1) = 0
          \<and> b1 (filters (chain (crossoverFilters st)) ! 1) = 0
          \<and> b2 (filters (chain (crossoverFilters st)) ! 1) = 0
          \<and> (\<forall>x. map_option fst (ProcessFilterChain (chain (crossoverFilters st)) x) = Some 0)"
    if m: "(chain, cutoff, type) \<in> set chain_specs" for chain cutoff type
  proof -
    from list_allD [OF la m]
    have fc: "filterCount (chain (crossoverFilters st)) = 2"
      and a: "\<forall>j<4. filters (chain (crossoverFilters st)) ! j
                = (if j < 1
                   then fresh_stage (crossoverFilters st) cutoff type j
                          (filters (chain (crossoverFilters st0)) ! j)
                   else ResetFilter (filters (chain (crossoverFilters st0)) ! j))"
      by simp_all
    from a [rule_format, of 1]
    have e: "filters (chain (crossoverFilters st)) ! 1
        = ResetFilter (filters (chain (crossoverFilters st0)) ! 1)" by simp
    from list_allD [OF z m]
    have z0: "b0 (filters (chain (crossoverFilters st0)) ! 1) = 0"
      "b1 (filters (chain (crossoverFilters st0)) ! 1) = 0"
      "b2 (filters (chain (crossoverFilters st0)) ! 1) = 0" by simp_all
    have b: "b0 (filters (chain (crossoverFilters st)) ! 1) = 0"
      "b1 (filters (chain (crossoverFilters st)) ! 1) = 0"
      "b2 (filters (chain (crossoverFilters st)) ! 1) = 0"
      unfolding e using z0 by (simp_all add: ResetFilter_def)
    have l: "length (filters (chain (crossoverFilters st))) = 4"
      using list_allD [OF l4 m] by simp
    from chain_silent [OF fc l b] fc b show ?thesis by blast
  qed
  have v: "lowCutoff (crossoverFilters st) = 80" "filterSampleRate (crossoverFilters st) = 48000"
    "filterType (crossoverFilters st) = 1"
    using sc fs0 by (simp_all add: xo_scalars_def lr4_settings_def)
  have nz: "b0 (fresh_stage (crossoverFilters st) lowCutoff 0 1
              (filters (subLowPass (crossoverFilters st)) ! 1)) \<noteq> 0"
  proof -
    have "((1 - cos (2 * PI * 80 / 48000)) / 2)
        / (1 + sin (2 * PI * 80 / 48000) / (2 * (7071 / 10000))) \<noteq> 0"
      by (rule lowpass_b0_nonzero) (simp_all add: PI_def)
    then show ?thesis
      by (simp add: fresh_stage_def CalculateButterworthCoefficients_def Let_def v stage_q_def)
  qed
  have "Crossover_Init \<bind> Crossover_SetSettings lr4_settings = Some st"
    unfolding I using S by simp
  moreover note nz
  moreover have "list_all (\<lambda>(chain, cutoff, type).
          filterCount (chain (crossoverFilters st)) = 2
          \<and> b0 (filters (chain (crossoverFilters st)) ! 1) = 0
          \<and> b1 (filters (chain (crossoverFilters st)) ! 1) = 0
          \<and> b2 (filters (chain (crossoverFilters st)) ! 1) = 0
          \<and> (\<forall>x. map_option fst (ProcessFilterChain (chain (crossoverFilters st)) x) = Some 0))
        chain_specs"
    unfolding list_all_iff using P by blast
  ultimately show ?thesis by blast
qed

subsection \<open>Muted bands in the crossover\<close>

lemma chain_loop_Some:
  "list_all (\<lambda>i. i < length fs) is \<Longrightarrow>
   \<exists>r fs'. chain_loop fs is x = Some (r, fs') \<and> length fs' = length fs"
proof (induction "is" arbitrary: fs x)
  case Nil
  then show ?case by simp
next
  case (Cons i "is")
  obtain r f where p: "ProcessBiquad (fs ! i) x = (r, f)" by (cases "ProcessBiquad (fs ! i) x")
  from Cons.prems have i: "i < length fs" and r: "list_all (\<lambda>j. j < length (fs[i := f])) is"
    by simp_all
  from Cons.IH [OF r, of r] i p show ?case by simp
qed

lemma ProcessFilterChain_Some:
  assumes "unat (filterCount ch) \<le> length (filters ch)"
  shows "\<exists>r ch'. ProcessFilterChain ch x = Some (r, ch')
     \<and> length (filters ch') = length (filters ch) \<and> filterCount ch' = filterCount ch"
proof -
  have "list_all (\<lambda>i. i < length (filters ch)) [0..<unat (filterCount ch)]"
    using assms by (simp add: list_all_iff)
  from chain_loop_Some [OF this, of x] obtain r fs' where
    "chain_loop (filters ch) [0..<unat (filterCount ch)] x = Some (r, fs')"
    "length fs' = length (filters ch)" by blast
  then show ?thesis by (simp add: ProcessFilterChain_def)
qed

lemma xo_chain_ok:
  assumes "xo_wf cf" "xo_counts cf"
  shows "unat (filterCount (subLowPass cf)) \<le> length (filters (subLowPass cf))"
    "unat (filterCount (lowHighPass cf)) \<le> length (filters (lowHighPass cf))"
    "unat (filterCount (lowLowPass cf)) \<le> length (filters (lowLowPass cf))"
    "unat (filterCount (midHighPass cf)) \<le> length (filters (midHighPass cf))"
    "unat (filterCount (midLowPass cf)) \<le> length (filters (midLowPass cf))"
    "unat (filterCount (highHighPass cf)) \<le> length (filters (highHighPass cf))"
  using assms by (simp_all add: xo_wf_def xo_counts_def chain_specs_def)

lemma crossover_sample_spec:
  assumes wf: "xo_wf cf" and cn: "xo_counts cf"
  shows "\<exists>smp cf'. crossover_sample cf x = Some (smp, cf')
     \<and> (\<forall>b. xo_mute cf b \<noteq> 0 \<longrightarrow> xo_sample smp b = 0)
     \<and> xo_wf cf' \<and> xo_counts cf' \<and> (\<forall>b. xo_mute cf' b = xo_mute cf b)"
proof -
  note ok = xo_chain_ok [OF wf cn]
  from ProcessFilterChain_Some [OF ok(1)] obtain r1 c1 where
    p1: "ProcessFilterChain (subLowPass cf) x = Some (r1, c1)"
    "length (filters c1) = length (filters (subLowPass cf))"
    "filterCount c1 = filterCount (subLowPass cf)" by blast
  from ProcessFilterChain_Some [OF ok(2)] obtain r2 c2 where
    p2: "ProcessFilterChain (lowHighPass cf) x = Some (r2, c2)"
    "length (filters c2) = length (filters (lowHighPass cf))"
    "filterCount c2 = filterCount (lowHighPass cf)" by blast
  from ProcessFilterChain_Some [OF ok(3)] obtain r3 c3 where
    p3: "ProcessFilterChain (lowLowPass cf) r2 = Some (r3, c3)"
    "length (filters c3) = length (filters (lowLowPass cf))"
    "filterCount c3 = filterCount (lowLowPass cf)" by blast
  from ProcessFilterChain_Some [OF ok(4)] obtain r4 c4 where
    p4: "ProcessFilterChain (midHighPass cf) x = Some (r4, c4)"
    "length (filters c4) = length (filters (midHighPass cf))"
    "filterCount c4 = filterCount (midHighPass cf)" by blast
  from ProcessFilterChain_Some [OF ok(5)] obtain r5 c5 where
    p5: "ProcessFilterChain (midLowPass cf) r4 = Some (r5, c5)"
    "length (filters c5) = length (filters (midLowPass cf))"
    "filterCount c5 = filterCount (midLowPass cf)" by blast
  from ProcessFilterChain_Some [OF ok(6)] obtain r6 c6 where
    p6: "ProcessFilterChain (highHighPass cf) x = Some (r6, c6)"
    "length (filters c6) = length (filters (highHighPass cf))"
    "filterCount c6 = filterCount (highHighPass cf)" by blast
  define smp where "smp = (if subMute cf \<noteq> 0 then 0 else r1 * subGain cf,
            if lowMute cf \<noteq> 0 then 0 else r3 * lowGain cf,
            if midMute cf \<noteq> 0 then 0 else r5 * midGain cf,
            if highMute cf \<noteq> 0 then 0 else r6 * highGain cf)"
  define cf' where "cf' = cf\<lparr>subLowPass := c1, lowHighPass := c2, lowLowPass := c3,
              midHighPass := c4, midLowPass := c5, highHighPass := c6\<rparr>"
  have e: "crossover_sample cf x = Some (smp, cf')"
    by (simp add: crossover_sample_def p1(1) p2(1) p3(1) p4(1) p5(1) p6(1) smp_def cf'_def)
  have m: "xo_mute cf b \<noteq> 0 \<longrightarrow> xo_sample smp b = 0" for b
    by (cases b) (simp_all add: smp_def)
  have w: "xo_wf cf'" "xo_counts cf'"
    using wf cn p1 p2 p3 p4 p5 p6
    by (simp_all add: xo_wf_def xo_counts_def chain_specs_def cf'_def)
  have k: "xo_mute cf' b = xo_mute cf b" for b
    by (cases b) (simp_all add: cf'_def)
  from e m w k show ?thesis by blast
qed


lemma store_opt_Some:
  "opt_sized n p \<Longrightarrow> i < n \<Longrightarrow>
   store_opt p i v = Some (map_option (\<lambda>buf. buf[i := v]) p)"
  by (cases p) (simp_all add: store_opt_def opt_sized_def)

lemma opt_sized_update: "opt_sized n p \<Longrightarrow> opt_sized n (map_option (\<lambda>buf. buf[i := v]) p)"
  by (cases p) (simp_all add: opt_sized_def)

lemma crossover_step_spec:
  assumes i: "i < n" "n \<le> length input"
    and wf: "xo_wf (crossoverFilters st)" and cn: "xo_counts (crossoverFilters st)"
    and sz: "xo_sized n st outs"
  shows "\<exists>smp st' outs'. crossover_step input i (st, outs) = Some (st', outs')
     \<and> (\<forall>b. xo_mute (crossoverFilters st) b \<noteq> 0 \<longrightarrow> xo_sample smp b = 0)
     \<and> (\<forall>b. xo_buffer st' b = (xo_buffer st b)[i := xo_sample smp b])
     \<and> (\<forall>b. xo_out outs' b = map_option (\<lambda>buf. buf[i := xo_sample smp b]) (xo_out outs b))
     \<and> mixOut outs'
         = map_option (\<lambda>buf. buf[i := xo_sample smp BAND_SUB + xo_sample smp BAND_LOW
                                     + xo_sample smp BAND_MID + xo_sample smp BAND_HIGH])
             (mixOut outs)
     \<and> xo_wf (crossoverFilters st') \<and> xo_counts (crossoverFilters st')
     \<and> (\<forall>b. xo_mute (crossoverFilters st') b = xo_mute (crossoverFilters st) b)"
proof -
  from crossover_sample_spec [OF wf cn, of "input ! i"] obtain smp cf' where
    e: "crossover_sample (crossoverFilters st) (input ! i) = Some (smp, cf')"
    and m: "\<forall>b. xo_mute (crossoverFilters st) b \<noteq> 0 \<longrightarrow> xo_sample smp b = 0"
    and w: "xo_wf cf'" "xo_counts cf'"
    and k: "\<forall>b. xo_mute cf' b = xo_mute (crossoverFilters st) b"
    by blast
  obtain s l md h where smp: "smp = (s, l, md, h)" by (cases smp)
  have bl: "i < length (subBuffer st)" "i < length (lowBuffer st)" "i < length (midBuffer st)"
    "i < length (highBuffer st)"
    using sz i(1) by (simp_all add: xo_sized_def)
  have ob: "opt_sized n (subOut outs)" "opt_sized n (lowOut outs)" "opt_sized n (midOut outs)"
    "opt_sized n (highOut outs)" "opt_sized n (mixOut outs)"
    using sz by (simp_all add: xo_sized_def)
  define st' where "st' = st\<lparr>crossoverFilters := cf', subBuffer := (subBuffer st)[i := s],
      lowBuffer := (lowBuffer st)[i := l], midBuffer := (midBuffer st)[i := md],
      highBuffer := (highBuffer st)[i := h]\<rparr>"
  define outs' where "outs' = \<lparr>subOut = map_option (\<lambda>buf. buf[i := s]) (subOut outs),
      lowOut = map_option (\<lambda>buf. buf[i := l]) (lowOut outs),
      midOut = map_option (\<lambda>buf. buf[i := md]) (midOut outs),
      highOut = map_option (\<lambda>buf. buf[i := h]) (highOut outs),
      mixOut = map_option (\<lambda>buf. buf[i := s + l + md + h]) (mixOut outs)\<rparr>"
  have il: "i < length input" using i by simp
  have r: "crossover_step input i (st, outs) = Some (st', outs')"
    using il bl
    by (simp add: crossover_step_def Let_def e smp store_opt_Some [OF ob(1) i(1)] store_opt_Some [OF ob(2) i(1)]
        store_opt_Some [OF ob(3) i(1)] store_opt_Some [OF ob(4) i(1)] store_opt_Some [OF ob(5) i(1)]
        store_buf_def st'_def outs'_def)
  have b: "xo_buffer st' b = (xo_buffer st b)[i := xo_sample smp b]" for b
    by (cases b) (simp_all add: st'_def smp)
  have o: "xo_out outs' b = map_option (\<lambda>buf. buf[i := xo_sample smp b]) (xo_out outs b)" for b
    by (cases b) (simp_all add: outs'_def smp)
  have x: "mixOut outs'
         = map_option (\<lambda>buf. buf[i := xo_sample smp BAND_SUB + xo_sample smp BAND_LOW
                                     + xo_sample smp BAND_MID + xo_sample smp BAND_HIGH])
             (mixOut outs)"
    by (simp add: outs'_def smp)
  have c: "crossoverFilters st' = cf'" by (simp add: st'_def)
  from r m b o x w k show ?thesis unfolding c [symmetric] by blast
qed


lemma xo_sized_buffer: "xo_sized n st outs \<Longrightarrow> n \<le> length (xo_buffer st b)"
  by (cases b) (simp_all add: xo_sized_def)

lemma xo_sized_out: "xo_sized n st outs \<Longrightarrow> opt_sized n (xo_out outs b)"
  by (cases b) (simp_all add: xo_sized_def)

lemma xo_sized_intro:
  assumes "\<And>b. n \<le> length (xo_buffer st b)" "\<And>b. opt_sized n (xo_out outs b)"
    "opt_sized n (mixOut outs)"
  shows "xo_sized n st outs"
  using assms(1) [of BAND_SUB] assms(1) [of BAND_LOW] assms(1) [of BAND_MID] assms(1) [of BAND_HIGH]
    assms(2) [of BAND_SUB] assms(2) [of BAND_LOW] assms(2) [of BAND_MID] assms(2) [of BAND_HIGH]
    assms(3)
  by (simp add: xo_sized_def)

lemma step_sized:
  assumes sz: "xo_sized n st outs"
    and b: "\<forall>b. xo_buffer st' b = (xo_buffer st b)[i := v b]"
    and o: "\<forall>b. xo_out outs' b = map_option (\<lambda>buf. buf[i := v b]) (xo_out outs b)"
    and x: "mixOut outs' = map_option (\<lambda>buf. buf[i := t]) (mixOut outs)"
  shows "xo_sized n st' outs'"
proof (rule xo_sized_intro)
  fix c
  show "n \<le> length (xo_buffer st' c)" using xo_sized_buffer [OF sz, of c] b by simp
  show "opt_sized n (xo_out outs' c)"
    using opt_sized_update [OF xo_sized_out [OF sz, of c]] o by simp
next
  have "opt_sized n (mixOut outs)" using sz by (simp add: xo_sized_def)
  then show "opt_sized n (mixOut outs')" unfolding x by (rule opt_sized_update)
qed

lemma step_muted:
  assumes sz: "xo_sized n st outs" and i: "i < n"
    and b: "\<forall>b. xo_buffer st' b = (xo_buffer st b)[i := v b]"
    and o: "\<forall>b. xo_out outs' b = map_option (\<lambda>buf. buf[i := v b]) (xo_out outs b)"
    and x: "mixOut outs'
        = map_option (\<lambda>buf. buf[i := v BAND_SUB + v BAND_LOW + v BAND_MID + v BAND_HIGH])
            (mixOut outs)"
    and z: "v c = 0"
  shows "xo_muted_at c i st' outs'"
proof -
  have nth: "xo_buffer st' a ! i = v a" for a
    using xo_sized_buffer [OF sz, of a] i b by simp
  have s: "xo_buffer st' BAND_SUB ! i + xo_buffer st' BAND_LOW ! i + xo_buffer st' BAND_MID ! i
        + xo_buffer st' BAND_HIGH ! i
      = v BAND_SUB + v BAND_LOW + v BAND_MID + v BAND_HIGH"
    unfolding nth by (rule refl)
  have m: "opt_sized n (mixOut outs)" using sz by (simp add: xo_sized_def)
  have p1: "xo_buffer st' c ! i = 0" using nth [of c] z by simp
  have p2: "(case xo_out outs' c of None \<Rightarrow> True | Some buf \<Rightarrow> buf ! i = 0)"
    unfolding o [rule_format] using xo_sized_out [OF sz, of c] i z
    by (cases "xo_out outs c") (simp_all add: opt_sized_def)
  have p3: "(case mixOut outs' of None \<Rightarrow> True
      | Some buf \<Rightarrow> buf ! i = v BAND_SUB + v BAND_LOW + v BAND_MID + v BAND_HIGH)"
    unfolding x using m i by (cases "mixOut outs") (simp_all add: opt_sized_def)
  show ?thesis unfolding xo_muted_at_def s using p1 p2 p3 by blast
qed

lemma step_keeps:
  assumes k: "k \<noteq> i"
    and b: "\<forall>b. xo_buffer st' b = (xo_buffer st b)[i := v b]"
    and o: "\<forall>b. xo_out outs' b = map_option (\<lambda>buf. buf[i := v b]) (xo_out outs b)"
    and x: "mixOut outs' = map_option (\<lambda>buf. buf[i := t]) (mixOut outs)"
    and a: "xo_muted_at c k st outs"
  shows "xo_muted_at c k st' outs'"
proof -
  have nth: "xo_buffer st' a ! k = xo_buffer st a ! k" for a
    using k b by simp
  from a have a1: "xo_buffer st c ! k = 0"
    and a2: "(case xo_out outs c of None \<Rightarrow> True | Some buf \<Rightarrow> buf ! k = 0)"
    and a3: "(case mixOut outs of None \<Rightarrow> True
      | Some buf \<Rightarrow> buf ! k = xo_buffer st BAND_SUB ! k + xo_buffer st BAND_LOW ! k + xo_buffer st BAND_MID ! k + xo_buffer st BAND_HIGH ! k)"
    unfolding xo_muted_at_def by blast+
  have p1: "xo_buffer st' c ! k = 0" using nth [of c] a1 by simp
  have p2: "(case xo_out outs' c of None \<Rightarrow> True | Some buf \<Rightarrow> buf ! k = 0)"
    unfolding o [rule_format] using a2 k by (cases "xo_out outs c") simp_all
  have p3: "(case mixOut outs' of None \<Rightarrow> True
      | Some buf \<Rightarrow> buf ! k = xo_buffer st BAND_SUB ! k + xo_buffer st BAND_LOW ! k + xo_buffer st BAND_MID ! k + xo_buffer st BAND_HIGH ! k)"
    unfolding x using a3 k by (cases "mixOut outs") simp_all
  show ?thesis unfolding xo_muted_at_def nth using a1 p2 p3 by blast
qed


lemma crossover_loop_muted:
  assumes nl: "n \<le> length input"
  shows "list_all (\<lambda>i. i < n) is \<Longrightarrow> xo_wf (crossoverFilters st) \<Longrightarrow>
     xo_counts (crossoverFilters st) \<Longrightarrow> xo_sized n st outs \<Longrightarrow>
     xo_mute (crossoverFilters st) c \<noteq> 0 \<Longrightarrow>
     \<exists>st' outs'. crossover_loop input is (st, outs) = Some (st', outs')
       \<and> (\<forall>k. k \<in> set is \<or> xo_muted_at c k st outs \<longrightarrow> xo_muted_at c k st' outs')
       \<and> (\<forall>b. (xo_out outs' b = None) = (xo_out outs b = None))
       \<and> ((mixOut outs' = None) = (mixOut outs = None))"
proof (induction "is" arbitrary: st outs)
  case Nil
  then show ?case by simp
next
  case (Cons i "is")
  from Cons.prems(1) have i: "i < n" and r: "list_all (\<lambda>i. i < n) is" by simp_all
  from crossover_step_spec [OF i nl Cons.prems(2,3,4)] obtain smp st1 outs1 where
    e: "crossover_step input i (st, outs) = Some (st1, outs1)"
    and m: "\<forall>b. xo_mute (crossoverFilters st) b \<noteq> 0 \<longrightarrow> xo_sample smp b = 0"
    and b: "\<forall>b. xo_buffer st1 b = (xo_buffer st b)[i := xo_sample smp b]"
    and o: "\<forall>b. xo_out outs1 b = map_option (\<lambda>buf. buf[i := xo_sample smp b]) (xo_out outs b)"
    and x: "mixOut outs1
         = map_option (\<lambda>buf. buf[i := xo_sample smp BAND_SUB + xo_sample smp BAND_LOW
                                     + xo_sample smp BAND_MID + xo_sample smp BAND_HIGH])
             (mixOut outs)"
    and w: "xo_wf (crossoverFilters st1)" "xo_counts (crossoverFilters st1)"
    and k: "\<forall>b. xo_mute (crossoverFilters st1) b = xo_mute (crossoverFilters st) b"
    by blast
  have z: "xo_sample smp c = 0" using m Cons.prems(5) by blast
  have sz1: "xo_sized n st1 outs1" by (rule step_sized [OF Cons.prems(4) b o x])
  have mu1: "xo_mute (crossoverFilters st1) c \<noteq> 0" using k Cons.prems(5) by simp
  from Cons.IH [OF r w sz1 mu1] obtain st' outs' where
    l: "crossover_loop input is (st1, outs1) = Some (st', outs')"
    and a: "\<forall>k. k \<in> set is \<or> xo_muted_at c k st1 outs1 \<longrightarrow> xo_muted_at c k st' outs'"
    and n1: "\<forall>b. (xo_out outs' b = None) = (xo_out outs1 b = None)"
    and n2: "(mixOut outs' = None) = (mixOut outs1 = None)"
    by auto
  have here: "xo_muted_at c i st1 outs1" by (rule step_muted [OF Cons.prems(4) i b o x z])
  have P: "xo_muted_at c j st' outs'" if j: "j \<in> set (i # is) \<or> xo_muted_at c j st outs" for j
  proof (cases "j = i")
    case True
    then show ?thesis using a here by blast
  next
    case False
    show ?thesis
    proof (cases "j \<in> set is")
      case True
      then show ?thesis using a by blast
    next
      case nin: False
      with j False have "xo_muted_at c j st outs" by simp
      from step_keeps [OF False b o x this] a show ?thesis by blast
    qed
  qed
  have A: "crossover_loop input (i # is) (st, outs) = Some (st', outs')" using e l by simp
  have B: "\<forall>b. (xo_out outs' b = None) = (xo_out outs b = None)" using n1 o by simp
  have C: "(mixOut outs' = None) = (mixOut outs = None)" using n2 x by simp
  have D: "\<forall>k. k \<in> set (i # is) \<or> xo_muted_at c k st outs \<longrightarrow> xo_muted_at c k st' outs'"
    using P by blast
  show ?case by (intro exI conjI) (rule A D B C)+
qed

lemma crossover_process_muted:
  assumes nl: "n \<le> length input"
    and wf: "xo_wf (crossoverFilters st)" and cn: "xo_counts (crossoverFilters st)"
    and sz: "xo_sized n st outs"
    and mu: "xo_mute (crossoverFilters st) c \<noteq> 0"
  shows "\<exists>st' outs'. Crossover_Process st input outs n = Some (st', outs')
     \<and> (\<forall>i<n. xo_buffer st' c ! i = 0)
     \<and> (\<forall>buf. xo_out outs' c = Some buf \<longrightarrow> (\<forall>i<n. buf ! i = 0))
     \<and> (\<forall>buf. mixOut outs' = Some buf \<longrightarrow>
           (\<forall>i<n. buf ! i = xo_buffer st' BAND_SUB ! i + xo_buffer st' BAND_LOW ! i + xo_buffer st' BAND_MID ! i + xo_buffer st' BAND_HIGH ! i))
     \<and> (\<forall>b. (xo_out outs' b = None) = (xo_out outs b = None))
     \<and> ((mixOut outs' = None) = (mixOut outs = None))"
proof -
  have r: "list_all (\<lambda>i. i < n) [0..<n]" by (simp add: list_all_iff)
  from crossover_loop_muted [OF nl r wf cn sz mu] obtain st' outs' where
    l: "crossover_loop input [0..<n] (st, outs) = Some (st', outs')"
    and a: "\<forall>k. k \<in> set [0..<n] \<or> xo_muted_at c k st outs \<longrightarrow> xo_muted_at c k st' outs'"
    and n1: "\<forall>b. (xo_out outs' b = None) = (xo_out outs b = None)"
    and n2: "(mixOut outs' = None) = (mixOut outs = None)"
    by auto
  have m: "xo_muted_at c i st' outs'" if "i < n" for i using a that by simp
  have A: "Crossover_Process st input outs n = Some (st', outs')"
    using l by (simp add: Crossover_Process_def)
  have B: "\<forall>i<n. xo_buffer st' c ! i = 0" using m by (simp add: xo_muted_at_def)
  have C: "\<forall>buf. xo_out outs' c = Some buf \<longrightarrow> (\<forall>i<n. buf ! i = 0)"
    using m by (auto simp: xo_muted_at_def)
  have D: "\<forall>buf. mixOut outs' = Some buf \<longrightarrow>
           (\<forall>i<n. buf ! i = xo_buffer st' BAND_SUB ! i + xo_buffer st' BAND_LOW ! i + xo_buffer st' BAND_MID ! i + xo_buffer st' BAND_HIGH ! i)"
    using m by (auto simp: xo_muted_at_def)
  show ?thesis by (intro exI conjI) (rule A B C D n1 n2)+
qed


lemma calc_buffers:
  assumes "CalculateFilterCoefficients st = Some st'"
  shows "length (xo_buffer st' b) = length (xo_buffer st b)"
proof -
  have r: "length (xo_buffer (ResetAllFilters st) b) = length (xo_buffer st b)"
    by (cases b) (simp_all add: ResetAllFilters_def Let_def)
  have "\<exists>cf1. st' = (ResetAllFilters st)\<lparr>crossoverFilters := cf1\<rparr>"
    using assms unfolding CalculateFilterCoefficients_alt by (auto split: if_splits)
  then obtain cf1 where "st' = (ResetAllFilters st)\<lparr>crossoverFilters := cf1\<rparr>" by blast
  then have "xo_buffer st' b = xo_buffer (ResetAllFilters st) b" by (cases b) simp_all
  with r show ?thesis by simp
qed

lemma set_settings_buffers:
  assumes "Crossover_SetSettings s st = Some st'"
  shows "length (xo_buffer st' b) = length (xo_buffer st b)"
proof -
  from assms obtain st1 where c: "CalculateFilterCoefficients st1 = Some st'"
    and e: "xo_buffer st1 b = xo_buffer st b"
    unfolding Crossover_SetSettings_def Let_def by (cases b) auto
  from calc_buffers [OF c, of b] e show ?thesis by simp
qed

lemma init_buffers:
  assumes "Crossover_Init = Some st0"
  shows "length (xo_buffer st0 b) = AUDIO_BUFFER_SIZE"
proof -
  from assms obtain st1 st2 where c: "CalculateFilterCoefficients (ResetAllFilters st1) = Some st2"
    and e: "length (xo_buffer st1 b) = AUDIO_BUFFER_SIZE"
    and f: "xo_buffer st0 b = xo_buffer st2 b"
    unfolding Crossover_Init_def Let_def by (cases b) auto
  have r: "length (xo_buffer (ResetAllFilters st1) b) = length (xo_buffer st1 b)"
    by (cases b) (simp_all add: ResetAllFilters_def Let_def)
  from calc_buffers [OF c, of b] e f r show ?thesis by simp
qed

subsection \<open>Muted bands in the pipeline\<close>

lemma keepD:
  assumes "stages_keep_lengths ext"
  shows "n \<le> length inL \<Longrightarrow> n \<le> length inR \<Longrightarrow> n \<le> length (bl b) \<Longrightarrow> n \<le> length (br b) \<Longrightarrow>
      n \<le> length (fst (ext_Crossover_Process ext x inL inR n bl br cs) b)
      \<and> n \<le> length (fst (snd (ext_Crossover_Process ext x inL inR n bl br cs)) b)"
    "n \<le> length l \<Longrightarrow> n \<le> length r \<Longrightarrow>
      n \<le> length (fst (ext_Compressor_Process ext x l r n thr rat att rel mk b))
      \<and> n \<le> length (fst (snd (ext_Compressor_Process ext x l r n thr rat att rel mk b)))"
    "n \<le> length l \<Longrightarrow> n \<le> length r \<Longrightarrow>
      n \<le> length (fst (ext_Limiter_Process ext x l r n thr rel b))
      \<and> n \<le> length (fst (snd (ext_Limiter_Process ext x l r n thr rel b)))"
    "n \<le> length l \<Longrightarrow> n \<le> length r \<Longrightarrow>
      n \<le> length (fst (ext_Delay_Process ext x l r n ms ph b))
      \<and> n \<le> length (fst (snd (ext_Delay_Process ext x l r n ms ph b)))"
  using assms unfolding stages_keep_lengths_def by simp_all

lemma all_bands_set: "b \<in> set all_bands"
  by (cases b) (simp_all add: all_bands_def)

lemma band_sized_iff:
  "band_sized n st = (\<forall>b. n \<le> length (bandBufferL st b) \<and> n \<le> length (bandBufferR st b))"
  unfolding band_sized_def list_all_iff using all_bands_set by blast

lemma band_zero_iff:
  "band_zero n b st = (\<forall>i<n. bandBufferL st b ! i = 0 \<and> bandBufferR st b ! i = 0)"
  unfolding band_zero_def list_all_iff by auto

lemma process_band_muted:
  assumes "band_mute (crossover pSettings) b \<noteq> 0" "band_sized n (fst sx)"
  shows "\<exists>sx'. process_band ext pSettings n b sx = Some sx'
     \<and> band_sized n (fst sx') \<and> band_zero n b (fst sx')
     \<and> tempBufferL (fst sx') = tempBufferL (fst sx)
     \<and> tempBufferR (fst sx') = tempBufferR (fst sx)"
  using assms
  by (simp add: process_band_def Let_def memset_zero_def band_sized_iff band_zero_iff nth_append)


lemma ApplyGain_Some:
  "n \<le> length buf \<Longrightarrow>
   \<exists>g. ApplyGain buf n gainDB = Some g \<and> length g = length buf"
  by (simp add: ApplyGain_def Let_def)

lemma process_band_other:
  assumes keep: "stages_keep_lengths ext" and sz: "band_sized n (fst sx)"
  shows "\<exists>sx'. process_band ext pSettings n b sx = Some sx'
     \<and> band_sized n (fst sx')
     \<and> (\<forall>b'. b' \<noteq> b \<longrightarrow> bandBufferL (fst sx') b' = bandBufferL (fst sx) b'
                          \<and> bandBufferR (fst sx') b' = bandBufferR (fst sx) b')
     \<and> tempBufferL (fst sx') = tempBufferL (fst sx)
     \<and> tempBufferR (fst sx') = tempBufferR (fst sx)"
proof (cases "band_mute (crossover pSettings) b \<noteq> 0")
  case True
  then show ?thesis using sz
    by (simp add: process_band_def Let_def memset_zero_def band_sized_iff)
next
  case False
  from sz have l: "n \<le> length (bandBufferL (fst sx) b)" "n \<le> length (bandBufferR (fst sx) b)"
    by (simp_all add: band_sized_iff)
  from ApplyGain_Some [OF l(1)] obtain gl where
    gl: "ApplyGain (bandBufferL (fst sx) b) n (band_gain (crossover pSettings) b) = Some gl"
    "length gl = length (bandBufferL (fst sx) b)" by blast
  from ApplyGain_Some [OF l(2)] obtain gr where
    gr: "ApplyGain (bandBufferR (fst sx) b) n (band_gain (crossover pSettings) b) = Some gr"
    "length gr = length (bandBufferR (fst sx) b)" by blast
  have up: "UpdatePeakLevels gl gr n pl pr
      = Some (decay_peak (peak_loop (take n gl) 0) pl, decay_peak (peak_loop (take n gr) 0) pr)"
    for pl pr
    using l gl(2) gr(2) by (simp add: UpdatePeakLevels_def)
  show ?thesis using False sz
    by (simp add: process_band_def Let_def gl gr up split_beta band_sized_iff keepD [OF keep])
qed


lemma band_loop_muted:
  assumes keep: "stages_keep_lengths ext"
    and mute: "band_mute (crossover pSettings) b \<noteq> 0"
  shows "band_sized n (fst sx) \<Longrightarrow> b \<in> set bs \<or> band_zero n b (fst sx) \<Longrightarrow>
     \<exists>sx'. band_loop ext pSettings n bs sx = Some sx'
       \<and> band_sized n (fst sx') \<and> band_zero n b (fst sx')
       \<and> tempBufferL (fst sx') = tempBufferL (fst sx)
       \<and> tempBufferR (fst sx') = tempBufferR (fst sx)"
proof (induction bs arbitrary: sx)
  case Nil
  then show ?case by simp
next
  case (Cons c bs)
  have "\<exists>sx1. process_band ext pSettings n c sx = Some sx1
     \<and> band_sized n (fst sx1) \<and> (b \<in> set bs \<or> band_zero n b (fst sx1))
     \<and> tempBufferL (fst sx1) = tempBufferL (fst sx)
     \<and> tempBufferR (fst sx1) = tempBufferR (fst sx)"
  proof (cases "c = b")
    case True
    from process_band_muted [OF mute Cons.prems(1), of ext] show ?thesis
      unfolding True by blast
  next
    case False
    from process_band_other [OF keep Cons.prems(1), of pSettings c] obtain sx1 where
      p: "process_band ext pSettings n c sx = Some sx1" "band_sized n (fst sx1)"
      "\<forall>b'. b' \<noteq> c \<longrightarrow> bandBufferL (fst sx1) b' = bandBufferL (fst sx) b'
                          \<and> bandBufferR (fst sx1) b' = bandBufferR (fst sx) b'"
      "tempBufferL (fst sx1) = tempBufferL (fst sx)" "tempBufferR (fst sx1) = tempBufferR (fst sx)"
      by blast
    from p(3) False have e: "bandBufferL (fst sx1) b = bandBufferL (fst sx) b"
      "bandBufferR (fst sx1) b = bandBufferR (fst sx) b" by auto
    have "b \<in> set bs \<or> band_zero n b (fst sx1)"
      using Cons.prems(2) False by (auto simp: band_zero_iff e)
    with p show ?thesis by blast
  qed
  then obtain sx1 where
    p: "process_band ext pSettings n c sx = Some sx1" "band_sized n (fst sx1)"
    "b \<in> set bs \<or> band_zero n b (fst sx1)"
    "tempBufferL (fst sx1) = tempBufferL (fst sx)" "tempBufferR (fst sx1) = tempBufferR (fst sx)"
    by blast
  from Cons.IH [OF p(2,3)] obtain sx' where
    "band_loop ext pSettings n bs sx1 = Some sx'" "band_sized n (fst sx')"
    "band_zero n b (fst sx')" "tempBufferL (fst sx') = tempBufferL (fst sx1)"
    "tempBufferR (fst sx') = tempBufferR (fst sx1)" by blast
  with p show ?case by simp
qed

lemma MixBands_spec:
  assumes "n \<le> length s" "n \<le> length l" "n \<le> length m" "n \<le> length h"
    "n \<le> length out"
  shows "\<exists>mix. MixBands s l m h out n = Some mix \<and> length mix = length out
     \<and> (\<forall>i<n. mix ! i = s ! i + l ! i + m ! i + h ! i)"
  using assms by (simp add: MixBands_def nth_append)

lemma convert_block_nth:
  assumes "len \<le> length inputL" "len \<le> length inputR" "i < len"
  shows "sint ((fst (convert_loop (zip (take len inputL) (take len inputR)) 0) @ rest) ! (2 * i))
       = spec_int16 (inputL ! i)
     \<and> sint ((fst (convert_loop (zip (take len inputL) (take len inputR)) 0) @ rest) ! (2 * i + 1))
       = spec_int16 (inputR ! i)"
proof -
  define fs where "fs = zip (take len inputL) (take len inputR)"
  have lf: "length fs = len" using assms by (simp add: fs_def)
  have lo: "length (fst (convert_loop fs 0)) = 2 * len"
    by (simp add: convert_loop_length lf)
  have "i < length fs" using assms lf by simp
  from convert_loop_nth [OF this, of 0] assms lo show ?thesis
    unfolding fs_def [symmetric] by (simp add: nth_append fs_def)
qed

lemma ConvertToInt16_eq:
  assumes "n \<le> length l" "n \<le> length r" "2 * n \<le> length out"
  shows "ConvertToInt16 stats l r out n
     = Some (fst (convert_loop (zip (take n l) (take n r)) 0) @ drop (2 * n) out,
             stats\<lparr>clippingCount := clippingCount stats
                       + snd (convert_loop (zip (take n l) (take n r)) 0)\<rparr>)"
  using assms by (simp add: ConvertToInt16_def split_beta)

lemma audio_process_muted:
  assumes keep: "stages_keep_lengths ext"
    and mute: "band_mute (crossover pSettings) b \<noteq> 0"
    and byp: "bypassEnabled (fst sx) = 0"
    and li: "length (data pInputBuffer) = AUDIO_BUFFER_SIZE"
    and lo: "length (data pOutputBuffer) = AUDIO_BUFFER_SIZE"
    and tl: "AUDIO_BUFFER_SIZE div 2 \<le> length (tempBufferL (fst sx))"
    and tr: "AUDIO_BUFFER_SIZE div 2 \<le> length (tempBufferR (fst sx))"
    and bs: "band_sized (AUDIO_BUFFER_SIZE div 2) (fst sx)"
  shows "\<exists>out st' x'.
      AudioProcessing_Process ext sx pInputBuffer pOutputBuffer pSettings tickStart tickEnd
        = Some (out, st', x')
      \<and> (\<forall>i < AUDIO_BUFFER_SIZE div 2.
            bandBufferL st' b ! i = 0 \<and> bandBufferR st' b ! i = 0
            \<and> tempBufferL st' ! i
                = bandBufferL st' BAND_SUB ! i + bandBufferL st' BAND_LOW ! i + bandBufferL st' BAND_MID ! i + bandBufferL st' BAND_HIGH ! i
            \<and> tempBufferR st' ! i
                = bandBufferR st' BAND_SUB ! i + bandBufferR st' BAND_LOW ! i + bandBufferR st' BAND_MID ! i + bandBufferR st' BAND_HIGH ! i
            \<and> sint (data out ! (2 * i)) = spec_int16 (tempBufferL st' ! i)
            \<and> sint (data out ! (2 * i + 1)) = spec_int16 (tempBufferR st' ! i))"
proof -
  let ?n = "AUDIO_BUFFER_SIZE div 2"
  define fl where "fl = map (\<lambda>i. real_of_int (sint (data pInputBuffer ! (2 * i))) * (1 / MAX_SAMPLE_VALUE)) [0..<?n]
      @ drop ?n (tempBufferL (fst sx))"
  define fr where "fr = map (\<lambda>i. real_of_int (sint (data pInputBuffer ! (2 * i + 1))) * (1 / MAX_SAMPLE_VALUE)) [0..<?n]
      @ drop ?n (tempBufferR (fst sx))"
  have n2: "2 * ?n \<le> length (data pInputBuffer)" "2 * ?n \<le> length (data pOutputBuffer)"
    by (simp_all add: li lo AUDIO_BUFFER_SIZE_def)
  have cf: "ConvertToFloat (data pInputBuffer) (tempBufferL (fst sx)) (tempBufferR (fst sx)) ?n
      = Some (fl, fr)"
    using n2 tl tr by (simp add: ConvertToFloat_def Let_def fl_def fr_def)
  have lf: "?n \<le> length fl" "?n \<le> length fr" using tl tr by (simp_all add: fl_def fr_def)
  have up: "UpdatePeakLevels fl fr ?n pl pr
      = Some (decay_peak (peak_loop (take ?n fl) 0) pl, decay_peak (peak_loop (take ?n fr) 0) pr)"
    for pl pr
    using lf by (simp add: UpdatePeakLevels_def)
  define cp where "cp = ext_Crossover_Process ext (snd sx) fl fr ?n (bandBufferL (fst sx))
      (bandBufferR (fst sx)) (crossover pSettings)"
  define st1 where "st1 = (fst sx)\<lparr>processingStartTime := tickStart,
      audioStats := (audioStats (fst sx))\<lparr>inputPeakLevel :=
        (inputPeakLevel (audioStats (fst sx)))
          (CHANNEL_LEFT := decay_peak (peak_loop (take ?n fl) 0)
                             (inputPeakLevel (audioStats (fst sx)) CHANNEL_LEFT),
           CHANNEL_RIGHT := decay_peak (peak_loop (take ?n fr) 0)
                             (inputPeakLevel (audioStats (fst sx)) CHANNEL_RIGHT))\<rparr>,
      tempBufferL := fl, tempBufferR := fr,
      bandBufferL := fst cp, bandBufferR := fst (snd cp)\<rparr>"
  have bs1: "band_sized ?n (fst (st1, snd (snd cp)))"
  proof -
    have "?n \<le> length (fst cp c) \<and> ?n \<le> length (fst (snd cp) c)" for c
      unfolding cp_def using bs lf by (intro keepD(1) [OF keep]) (simp_all add: band_sized_iff)
    then show ?thesis by (simp add: band_sized_iff st1_def)
  qed
  have z: "b \<in> set all_bands \<or> band_zero ?n b (fst (st1, snd (snd cp)))"
    by (simp add: all_bands_set)
  from band_loop_muted [OF keep mute bs1 z] obtain sx2 where
    bl: "band_loop ext pSettings ?n all_bands (st1, snd (snd cp)) = Some sx2"
    and bs2: "band_sized ?n (fst sx2)" and bz: "band_zero ?n b (fst sx2)"
    and t2: "tempBufferL (fst sx2) = fl" "tempBufferR (fst sx2) = fr"
    by (auto simp: st1_def)
  obtain st2 x2 where sx2: "sx2 = (st2, x2)" by (cases sx2)
  note bl2 = bl [unfolded sx2 st1_def cp_def]
  have t2': "tempBufferL st2 = fl" "tempBufferR st2 = fr" using t2 by (simp_all add: sx2)
  have l2: "?n \<le> length (bandBufferL st2 c)" "?n \<le> length (bandBufferR st2 c)" for c
    using bs2 by (simp_all add: band_sized_iff sx2)
  from MixBands_spec [OF l2(1) l2(1) l2(1) l2(1) lf(1)] obtain mixL where
    mL: "MixBands (bandBufferL st2 BAND_SUB) (bandBufferL st2 BAND_LOW) (bandBufferL st2 BAND_MID)
           (bandBufferL st2 BAND_HIGH) fl ?n = Some mixL"
    and lmL: "length mixL = length fl"
    and vL: "\<forall>i<?n. mixL ! i = bandBufferL st2 BAND_SUB ! i + bandBufferL st2 BAND_LOW ! i
              + bandBufferL st2 BAND_MID ! i + bandBufferL st2 BAND_HIGH ! i"
    by blast
  from MixBands_spec [OF l2(2) l2(2) l2(2) l2(2) lf(2)] obtain mixR where
    mR: "MixBands (bandBufferR st2 BAND_SUB) (bandBufferR st2 BAND_LOW) (bandBufferR st2 BAND_MID)
           (bandBufferR st2 BAND_HIGH) fr ?n = Some mixR"
    and lmR: "length mixR = length fr"
    and vR: "\<forall>i<?n. mixR ! i = bandBufferR st2 BAND_SUB ! i + bandBufferR st2 BAND_LOW ! i
              + bandBufferR st2 BAND_MID ! i + bandBufferR st2 BAND_HIGH ! i"
    by blast
  have lm: "?n \<le> length mixL" "?n \<le> length mixR" using lf lmL lmR by simp_all
  have up2: "UpdatePeakLevels mixL mixR ?n pl pr
      = Some (decay_peak (peak_loop (take ?n mixL) 0) pl, decay_peak (peak_loop (take ?n mixR) 0) pr)"
    for pl pr
    using lm by (simp add: UpdatePeakLevels_def)
  note ci = ConvertToInt16_eq [OF lm n2(2)]
  define D where "D = fst (convert_loop (zip (take ?n mixL) (take ?n mixR)) 0)
      @ drop (2 * ?n) (data pOutputBuffer)"
  have R: "\<exists>stats'. AudioProcessing_Process ext sx pInputBuffer pOutputBuffer pSettings tickStart tickEnd
        = Some (pOutputBuffer\<lparr>data := D\<rparr>, st2\<lparr>audioStats := stats', tempBufferL := mixL, tempBufferR := mixR,
                        processingEndTime := tickEnd\<rparr>, x2)"
    using byp
    apply (simp add: AudioProcessing_Process_def Let_def split_beta cf up bl2 t2' mL mR up2 ci
        D_def [symmetric])
    apply (rule exI, rule refl)
    done
  then obtain stats' where
    R': "AudioProcessing_Process ext sx pInputBuffer pOutputBuffer pSettings tickStart tickEnd
        = Some (pOutputBuffer\<lparr>data := D\<rparr>, st2\<lparr>audioStats := stats', tempBufferL := mixL, tempBufferR := mixR,
                        processingEndTime := tickEnd\<rparr>, x2)" by blast
  define st' where "st' = st2\<lparr>audioStats := stats', tempBufferL := mixL, tempBufferR := mixR,
                        processingEndTime := tickEnd\<rparr>"
  have sel: "bandBufferL st' = bandBufferL st2" "bandBufferR st' = bandBufferR st2"
    "tempBufferL st' = mixL" "tempBufferR st' = mixR"
    by (simp_all add: st'_def)
  have zz: "bandBufferL st2 b ! i = 0" "bandBufferR st2 b ! i = 0" if "i < ?n" for i
    using bz that by (simp_all add: band_zero_iff sx2)
  have P: "bandBufferL st' b ! i = 0 \<and> bandBufferR st' b ! i = 0
            \<and> tempBufferL st' ! i
                = bandBufferL st' BAND_SUB ! i + bandBufferL st' BAND_LOW ! i + bandBufferL st' BAND_MID ! i + bandBufferL st' BAND_HIGH ! i
            \<and> tempBufferR st' ! i
                = bandBufferR st' BAND_SUB ! i + bandBufferR st' BAND_LOW ! i + bandBufferR st' BAND_MID ! i + bandBufferR st' BAND_HIGH ! i
            \<and> sint (data (pOutputBuffer\<lparr>data := D\<rparr>) ! (2 * i)) = spec_int16 (tempBufferL st' ! i)
            \<and> sint (data (pOutputBuffer\<lparr>data := D\<rparr>) ! (2 * i + 1)) = spec_int16 (tempBufferR st' ! i)"
    if i: "i < ?n" for i
  proof -
    have sd: "data (pOutputBuffer\<lparr>data := X\<rparr>) = X" for X by simp
    have cv: "sint (data (pOutputBuffer\<lparr>data := D\<rparr>) ! (2 * i)) = spec_int16 (mixL ! i)"
      "sint (data (pOutputBuffer\<lparr>data := D\<rparr>) ! (2 * i + 1)) = spec_int16 (mixR ! i)"
      unfolding sd D_def
      by (rule convert_block_nth [OF lm i, THEN conjunct1],
          rule convert_block_nth [OF lm i, THEN conjunct2])
    have "mixL ! i = bandBufferL st2 BAND_SUB ! i + bandBufferL st2 BAND_LOW ! i
        + bandBufferL st2 BAND_MID ! i + bandBufferL st2 BAND_HIGH ! i"
      "mixR ! i = bandBufferR st2 BAND_SUB ! i + bandBufferR st2 BAND_LOW ! i
        + bandBufferR st2 BAND_MID ! i + bandBufferR st2 BAND_HIGH ! i"
      using vL [rule_format, OF i] vR [rule_format, OF i] by simp_all
    note ms = this
    show ?thesis unfolding sel
      by (intro conjI) (rule zz [OF i] ms cv)+
  qed
  have Q: "\<forall>i < ?n. bandBufferL st' b ! i = 0 \<and> bandBufferR st' b ! i = 0
            \<and> tempBufferL st' ! i
                = bandBufferL st' BAND_SUB ! i + bandBufferL st' BAND_LOW ! i + bandBufferL st' BAND_MID ! i + bandBufferL st' BAND_HIGH ! i
            \<and> tempBufferR st' ! i
                = bandBufferR st' BAND_SUB ! i + bandBufferR st' BAND_LOW ! i + bandBufferR st' BAND_MID ! i + bandBufferR st' BAND_HIGH ! i
            \<and> sint (data (pOutputBuffer\<lparr>data := D\<rparr>) ! (2 * i)) = spec_int16 (tempBufferL st' ! i)
            \<and> sint (data (pOutputBuffer\<lparr>data := D\<rparr>) ! (2 * i + 1)) = spec_int16 (tempBufferR st' ! i)"
    using P by (intro allI impI)
  note R'' = R' [folded st'_def]
  show ?thesis by (intro exI conjI) (rule R'' Q)+
qed

lemma copy_stages_keep: "stages_keep_lengths copy_stages"
  by (simp add: stages_keep_lengths_def copy_stages_def)

lemma init_then_low_muted:
  "\<exists>st. Crossover_Init \<bind> Crossover_SetSettings (crossover low_muted_settings) = Some st
     \<and> xo_wf (crossoverFilters st) \<and> xo_counts (crossoverFilters st)
     \<and> xo_sized 2 st low_monitor \<and> xo_mute (crossoverFilters st) BAND_LOW = 1"
proof -
  let ?s = "crossover low_muted_settings"
  from init_spec obtain st0 where
    I: "Crossover_Init = Some st0" and wf: "xo_wf (crossoverFilters st0)"
    by blast
  have ord: "s_filterOrder ?s = 2 \<or> s_filterOrder ?s = 4 \<or> s_filterOrder ?s = 8"
    by (simp add: low_muted_settings_def)
  have o2: "s_filterOrder ?s div 2 = 2" by (simp add: low_muted_settings_def)
  from set_settings_spec [OF wf ord] obtain st where
    S: "Crossover_SetSettings ?s st0 = Some st"
    and sc: "xo_scalars (crossoverFilters st)
         = ((s_lowCutoff ?s, s_midCutoff ?s, s_highCutoff ?s),
            (DB_TO_LINEAR (s_subGain ?s), DB_TO_LINEAR (s_lowGain ?s),
             DB_TO_LINEAR (s_midGain ?s), DB_TO_LINEAR (s_highGain ?s)),
            (s_filterType ?s, s_filterOrder ?s),
            (s_subMute ?s, s_lowMute ?s, s_midMute ?s, s_highMute ?s),
            filterSampleRate (crossoverFilters st0))"
    and w: "xo_wf (crossoverFilters st)"
    and la: "list_all (\<lambda>(chain, cutoff, type).
          filterCount (chain (crossoverFilters st)) = 2
          \<and> (\<forall>j<4. filters (chain (crossoverFilters st)) ! j
                = (if j < computed_stages (s_filterType ?s) (s_filterOrder ?s)
                   then fresh_stage (crossoverFilters st) cutoff type j
                          (filters (chain (crossoverFilters st0)) ! j)
                   else ResetFilter (filters (chain (crossoverFilters st0)) ! j))))
        chain_specs"
    unfolding o2 by blast
  have cn: "xo_counts (crossoverFilters st)"
    unfolding xo_counts_def list_all_iff
  proof (intro ballI)
    fix x assume m: "x \<in> set chain_specs"
    obtain chain cutoff type where x: "x = (chain, cutoff, type)" by (cases x)
    from list_allD [OF la m [unfolded x]]
    have "filterCount (chain (crossoverFilters st)) = 2" by simp
    then show "case x of (chain, cutoff, type) \<Rightarrow>
        unat (filterCount (chain (crossoverFilters st))) \<le> MAX_FILTER_ORDER div 2"
      by (simp add: x MAX_FILTER_ORDER_def)
  qed
  have bl: "length (xo_buffer st c) = AUDIO_BUFFER_SIZE" for c
    using set_settings_buffers [OF S, of c] init_buffers [OF I, of c] by simp
  have oz: "opt_sized 2 (xo_out low_monitor c)" for c
    by (cases c) (simp_all add: low_monitor_def opt_sized_def)
  have sz: "xo_sized 2 st low_monitor"
  proof (rule xo_sized_intro)
    fix c
    show "2 \<le> length (xo_buffer st c)" by (simp add: bl AUDIO_BUFFER_SIZE_def)
    show "opt_sized 2 (xo_out low_monitor c)" by (rule oz)
  next
    show "opt_sized 2 (mixOut low_monitor)" by (simp add: low_monitor_def opt_sized_def)
  qed
  have mu: "xo_mute (crossoverFilters st) BAND_LOW = 1"
    using sc by (simp add: xo_scalars_def low_muted_settings_def)
  have "Crossover_Init \<bind> Crossover_SetSettings ?s = Some st"
    unfolding I using S by simp
  with w cn sz mu show ?thesis by blast
qed

subsection \<open>Claim C8: out-of-range cutoff requests\<close>

text \<open>
  Claim C8, as stated, asks that a requested cutoff outside [20 Hz, Nyquist] is clamped inside
  the setter before it is stored. \<^const>\<open>Crossover_SetSettings\<close> has no clamp: after
  \<^const>\<open>Crossover_Init\<close> (48 kHz), a request for a low cutoff of 5 Hz and a high cutoff
  of 30000 Hz stores 5 and 30000, where the clamp of the specification gives 20 and 24000.
\<close>

theorem C8_cutoff_not_clamped_counterexample:
  "map_option (lowCutoff \<circ> crossoverFilters)
      (Crossover_Init \<bind> Crossover_SetSettings out_of_range_settings) = Some 5
   \<and> spec_clamp_cutoff 48000 (s_lowCutoff out_of_range_settings) = 20
   \<and> map_option (highCutoff \<circ> crossoverFilters)
      (Crossover_Init \<bind> Crossover_SetSettings out_of_range_settings) = Some 30000
   \<and> spec_clamp_cutoff 48000 (s_highCutoff out_of_range_settings) = 24000"
proof -
  from init_then_out_of_range obtain st0 st where
    I: "Crossover_Init = Some st0"
    and S: "Crossover_SetSettings out_of_range_settings st0 = Some st"
    and v: "lowCutoff (crossoverFilters st) = 5" "highCutoff (crossoverFilters st) = 30000"
    by blast
  have b: "Crossover_Init \<bind> Crossover_SetSettings out_of_range_settings = Some st"
    unfolding I using S by simp
  have c: "spec_clamp_cutoff 48000 (s_lowCutoff out_of_range_settings) = 20"
    "spec_clamp_cutoff 48000 (s_highCutoff out_of_range_settings) = 24000"
    by (simp_all add: spec_clamp_cutoff_def CLAMP_def out_of_range_settings_def)
  show ?thesis unfolding b using v c by simp
qed

text \<open>
  Claim C8, amended. For every settings update with filter order 2, 4 or 8 on a crossover
  whose six chains have their four stages, \<^const>\<open>Crossover_SetSettings\<close> returns (no
  error is surfaced), the current settings are the requested ones, each of the three cutoffs
  is stored exactly as requested, whatever its value, and every stage the coefficient loop
  computes holds the Butterworth coefficients of the stored cutoff, on a reset state.
\<close>

theorem C8_cutoffs_stored_as_requested:
  assumes wf: "xo_wf (crossoverFilters st)"
    and ord: "s_filterOrder s = 2 \<or> s_filterOrder s = 4 \<or> s_filterOrder s = 8"
  shows "\<exists>st'. Crossover_SetSettings s st = Some st'
     \<and> currentSettings st' = s
     \<and> lowCutoff (crossoverFilters st') = s_lowCutoff s
     \<and> midCutoff (crossoverFilters st') = s_midCutoff s
     \<and> highCutoff (crossoverFilters st') = s_highCutoff s
     \<and> list_all (\<lambda>(chain, cutoff, type).
          \<forall>j < computed_stages (s_filterType s) (s_filterOrder s).
             filters (chain (crossoverFilters st')) ! j
               = CalculateButterworthCoefficients
                   (ResetFilter (filters (chain (crossoverFilters st)) ! j))
                   (cutoff (crossoverFilters st'))
                   (stage_q (s_filterType s) (s_filterOrder s) j) type
                   (filterSampleRate (crossoverFilters st)))
        chain_specs"
proof -
  from set_settings_spec [OF wf ord] obtain st' where
    S: "Crossover_SetSettings s st = Some st'"
    and cs: "currentSettings st' = s"
    and sc: "xo_scalars (crossoverFilters st')
         = ((s_lowCutoff s, s_midCutoff s, s_highCutoff s),
            (DB_TO_LINEAR (s_subGain s), DB_TO_LINEAR (s_lowGain s),
             DB_TO_LINEAR (s_midGain s), DB_TO_LINEAR (s_highGain s)),
            (s_filterType s, s_filterOrder s),
            (s_subMute s, s_lowMute s, s_midMute s, s_highMute s),
            filterSampleRate (crossoverFilters st))"
    and la: "list_all (\<lambda>(chain, cutoff, type).
          filterCount (chain (crossoverFilters st')) = s_filterOrder s div 2
          \<and> (\<forall>j<4. filters (chain (crossoverFilters st')) ! j
                = (if j < computed_stages (s_filterType s) (s_filterOrder s)
                   then fresh_stage (crossoverFilters st') cutoff type j
                          (filters (chain (crossoverFilters st)) ! j)
                   else ResetFilter (filters (chain (crossoverFilters st)) ! j))))
        chain_specs"
    by blast
  have v: "lowCutoff (crossoverFilters st') = s_lowCutoff s"
    "midCutoff (crossoverFilters st') = s_midCutoff s"
    "highCutoff (crossoverFilters st') = s_highCutoff s"
    "filterType (crossoverFilters st') = s_filterType s"
    "filterOrder (crossoverFilters st') = s_filterOrder s"
    "filterSampleRate (crossoverFilters st') = filterSampleRate (crossoverFilters st)"
    using sc by (simp_all add: xo_scalars_def)
  have le: "computed_stages (s_filterType s) (s_filterOrder s) \<le> 4"
    by (rule computed_stages_le [OF ord])
  have P: "filters (chain (crossoverFilters st')) ! j
               = CalculateButterworthCoefficients
                   (ResetFilter (filters (chain (crossoverFilters st)) ! j))
                   (cutoff (crossoverFilters st'))
                   (stage_q (s_filterType s) (s_filterOrder s) j) type
                   (filterSampleRate (crossoverFilters st))"
    if m: "(chain, cutoff, type) \<in> set chain_specs"
      and j: "j < computed_stages (s_filterType s) (s_filterOrder s)" for chain cutoff type j
  proof -
    from list_allD [OF la m]
    have a: "\<forall>j<4. filters (chain (crossoverFilters st')) ! j
                = (if j < computed_stages (s_filterType s) (s_filterOrder s)
                   then fresh_stage (crossoverFilters st') cutoff type j
                          (filters (chain (crossoverFilters st)) ! j)
                   else ResetFilter (filters (chain (crossoverFilters st)) ! j))"
      by simp
    have "j < 4" using j le by simp
    from a [rule_format, OF this] j show ?thesis
      by (simp add: fresh_stage_def v)
  qed
  have "list_all (\<lambda>(chain, cutoff, type).
          \<forall>j < computed_stages (s_filterType s) (s_filterOrder s).
             filters (chain (crossoverFilters st')) ! j
               = CalculateButterworthCoefficients
                   (ResetFilter (filters (chain (crossoverFilters st)) ! j))
                   (cutoff (crossoverFilters st'))
                   (stage_q (s_filterType s) (s_filterOrder s) j) type
                   (filterSampleRate (crossoverFilters st)))
        chain_specs"
    unfolding list_all_iff using P by blast
  with S cs v(1-3) show ?thesis by blast
qed

text \<open>After initialisation, the request for 5 Hz and 30000 Hz is stored and used as it is.\<close>

theorem C8_cutoffs_stored_as_requested_witness:
  "\<exists>st0 st'. Crossover_Init = Some st0 \<and> xo_wf (crossoverFilters st0)
     \<and> s_filterOrder out_of_range_settings = 4
     \<and> Crossover_SetSettings out_of_range_settings st0 = Some st'
     \<and> currentSettings st' = out_of_range_settings
     \<and> lowCutoff (crossoverFilters st') = 5
     \<and> highCutoff (crossoverFilters st') = 30000
     \<and> filters (subLowPass (crossoverFilters st')) ! 0
         = CalculateButterworthCoefficients
             (ResetFilter (filters (subLowPass (crossoverFilters st0)) ! 0)) 5 0.5412 0 48000"
proof -
  from init_spec obtain st0 where
    I: "Crossover_Init = Some st0" and wf: "xo_wf (crossoverFilters st0)"
    and fs0: "filterSampleRate (crossoverFilters st0) = 48000"
    by blast
  have o4: "s_filterOrder out_of_range_settings = 4" by (simp add: out_of_range_settings_def)
  then have ord: "s_filterOrder out_of_range_settings = 2 \<or> s_filterOrder out_of_range_settings = 4
      \<or> s_filterOrder out_of_range_settings = 8" by simp
  have c2: "computed_stages (s_filterType out_of_range_settings)
      (s_filterOrder out_of_range_settings) = 2"
    by (simp add: computed_stages_def out_of_range_settings_def)
  have q: "stage_q (s_filterType out_of_range_settings) (s_filterOrder out_of_range_settings) 0
      = 0.5412"
    by (simp add: stage_q_def butterworth_q_def out_of_range_settings_def)
  have m: "(subLowPass, lowCutoff, 0) \<in> set chain_specs" by (simp add: chain_specs_def)
  from C8_cutoffs_stored_as_requested [OF wf ord] obtain st' where
    S: "Crossover_SetSettings out_of_range_settings st0 = Some st'"
    and cs: "currentSettings st' = out_of_range_settings"
    and lo: "lowCutoff (crossoverFilters st') = s_lowCutoff out_of_range_settings"
    and hi: "highCutoff (crossoverFilters st') = s_highCutoff out_of_range_settings"
    and la: "list_all (\<lambda>(chain, cutoff, type).
          \<forall>j < 2.
             filters (chain (crossoverFilters st')) ! j
               = CalculateButterworthCoefficients
                   (ResetFilter (filters (chain (crossoverFilters st0)) ! j))
                   (cutoff (crossoverFilters st'))
                   (stage_q (s_filterType out_of_range_settings)
                      (s_filterOrder out_of_range_settings) j) type
                   (filterSampleRate (crossoverFilters st0)))
        chain_specs"
    unfolding c2 by blast
  from list_allD [OF la m]
  have a: "\<forall>j < 2.
             filters (subLowPass (crossoverFilters st')) ! j
               = CalculateButterworthCoefficients
                   (ResetFilter (filters (subLowPass (crossoverFilters st0)) ! j))
                   (lowCutoff (crossoverFilters st'))
                   (stage_q (s_filterType out_of_range_settings)
                      (s_filterOrder out_of_range_settings) j) 0
                   (filterSampleRate (crossoverFilters st0))"
    by simp
  have l5: "lowCutoff (crossoverFilters st') = 5" "highCutoff (crossoverFilters st') = 30000"
    using lo hi by (simp_all add: out_of_range_settings_def)
  from a [rule_format, of 0]
  have "filters (subLowPass (crossoverFilters st')) ! 0
         = CalculateButterworthCoefficients
             (ResetFilter (filters (subLowPass (crossoverFilters st0)) ! 0)) 5 0.5412 0 48000"
    by (simp add: l5 q fs0)
  with I wf o4 S cs l5 show ?thesis by blast
qed

subsection \<open>Claim C2: a muted band is silent\<close>

text \<open>
  Claim C2. In \<^verbatim>\<open>Crossover_Process\<close> of crossover.c, on a block of \<open>n\<close> samples inside the
  arrays, a band whose mute flag is set has 0 in every one of the \<open>n\<close> samples of its
  internal buffer and of its output argument (when one is given), whatever its gain, and
  every sample of the mix is the sum of the four band samples, of which the muted band's
  is 0. In \<^verbatim>\<open>AudioProcessing_Process\<close> without bypass, with the buffers of the sizes their
  declarations give and stages that keep the sizes of their buffers, a band whose mute flag
  is set has 0 in every sample of both its band buffers after the call, whatever the gain,
  compressor, limiter and delay settings; every sample of the two mix buffers is the sum of
  the four band buffers, of which the muted band's is 0, and the output block is the
  conversion of the mix buffers. Both calls return.
\<close>

theorem C2_muted_band_is_silent:
  "(n \<le> length input \<and> xo_wf (crossoverFilters xst) \<and> xo_counts (crossoverFilters xst)
      \<and> xo_sized n xst outs \<and> xo_mute (crossoverFilters xst) b \<noteq> 0
     \<longrightarrow> (\<exists>xst' outs'.
            Crossover_Process xst input outs n = Some (xst', outs')
            \<and> (\<forall>i<n. xo_buffer xst' b ! i = 0)
            \<and> (\<forall>buf. xo_out outs' b = Some buf \<longrightarrow> (\<forall>i<n. buf ! i = 0))
            \<and> (\<forall>buf. mixOut outs' = Some buf \<longrightarrow>
                  (\<forall>i<n. buf ! i = xo_buffer xst' BAND_SUB ! i + xo_buffer xst' BAND_LOW ! i + xo_buffer xst' BAND_MID ! i + xo_buffer xst' BAND_HIGH ! i))
            \<and> (\<forall>c. (xo_out outs' c = None) = (xo_out outs c = None))
            \<and> ((mixOut outs' = None) = (mixOut outs = None))))
   \<and> (stages_keep_lengths ext \<and> band_mute (crossover pSettings) b \<noteq> 0
      \<and> bypassEnabled (fst sx) = 0
      \<and> length (data pInputBuffer) = AUDIO_BUFFER_SIZE
      \<and> length (data pOutputBuffer) = AUDIO_BUFFER_SIZE
      \<and> AUDIO_BUFFER_SIZE div 2 \<le> length (tempBufferL (fst sx))
      \<and> AUDIO_BUFFER_SIZE div 2 \<le> length (tempBufferR (fst sx))
      \<and> band_sized (AUDIO_BUFFER_SIZE div 2) (fst sx)
     \<longrightarrow> (\<exists>out st' x'.
            AudioProcessing_Process ext sx pInputBuffer pOutputBuffer pSettings tickStart tickEnd
              = Some (out, st', x')
            \<and> (\<forall>i < AUDIO_BUFFER_SIZE div 2.
                  bandBufferL st' b ! i = 0 \<and> bandBufferR st' b ! i = 0
                  \<and> tempBufferL st' ! i
                      = bandBufferL st' BAND_SUB ! i + bandBufferL st' BAND_LOW ! i + bandBufferL st' BAND_MID ! i + bandBufferL st' BAND_HIGH ! i
                  \<and> tempBufferR st' ! i
                      = bandBufferR st' BAND_SUB ! i + bandBufferR st' BAND_LOW ! i + bandBufferR st' BAND_MID ! i + bandBufferR st' BAND_HIGH ! i
                  \<and> sint (data out ! (2 * i)) = spec_int16 (tempBufferL st' ! i)
                  \<and> sint (data out ! (2 * i + 1)) = spec_int16 (tempBufferR st' ! i))))"
proof (intro conjI impI)
  assume "n \<le> length input \<and> xo_wf (crossoverFilters xst) \<and> xo_counts (crossoverFilters xst)
      \<and> xo_sized n xst outs \<and> xo_mute (crossoverFilters xst) b \<noteq> 0"
  then have h: "n \<le> length input" "xo_wf (crossoverFilters xst)" "xo_counts (crossoverFilters xst)"
    "xo_sized n xst outs" "xo_mute (crossoverFilters xst) b \<noteq> 0" by simp_all
  show "\<exists>xst' outs'.
            Crossover_Process xst input outs n = Some (xst', outs')
            \<and> (\<forall>i<n. xo_buffer xst' b ! i = 0)
            \<and> (\<forall>buf. xo_out outs' b = Some buf \<longrightarrow> (\<forall>i<n. buf ! i = 0))
            \<and> (\<forall>buf. mixOut outs' = Some buf \<longrightarrow>
                  (\<forall>i<n. buf ! i = xo_buffer xst' BAND_SUB ! i + xo_buffer xst' BAND_LOW ! i + xo_buffer xst' BAND_MID ! i + xo_buffer xst' BAND_HIGH ! i))
            \<and> (\<forall>c. (xo_out outs' c = None) = (xo_out outs c = None))
            \<and> ((mixOut outs' = None) = (mixOut outs = None))"
    by (rule crossover_process_muted [OF h])
next
  assume "stages_keep_lengths ext \<and> band_mute (crossover pSettings) b \<noteq> 0
      \<and> bypassEnabled (fst sx) = 0
      \<and> length (data pInputBuffer) = AUDIO_BUFFER_SIZE
      \<and> length (data pOutputBuffer) = AUDIO_BUFFER_SIZE
      \<and> AUDIO_BUFFER_SIZE div 2 \<le> length (tempBufferL (fst sx))
      \<and> AUDIO_BUFFER_SIZE div 2 \<le> length (tempBufferR (fst sx))
      \<and> band_sized (AUDIO_BUFFER_SIZE div 2) (fst sx)"
  then have h: "stages_keep_lengths ext" "band_mute (crossover pSettings) b \<noteq> 0"
    "bypassEnabled (fst sx) = 0"
    "length (data pInputBuffer) = AUDIO_BUFFER_SIZE"
    "length (data pOutputBuffer) = AUDIO_BUFFER_SIZE"
    "AUDIO_BUFFER_SIZE div 2 \<le> length (tempBufferL (fst sx))"
    "AUDIO_BUFFER_SIZE div 2 \<le> length (tempBufferR (fst sx))"
    "band_sized (AUDIO_BUFFER_SIZE div 2) (fst sx)" by simp_all
  show "\<exists>out st' x'.
            AudioProcessing_Process ext sx pInputBuffer pOutputBuffer pSettings tickStart tickEnd
              = Some (out, st', x')
            \<and> (\<forall>i < AUDIO_BUFFER_SIZE div 2.
                  bandBufferL st' b ! i = 0 \<and> bandBufferR st' b ! i = 0
                  \<and> tempBufferL st' ! i
                      = bandBufferL st' BAND_SUB ! i + bandBufferL st' BAND_LOW ! i + bandBufferL st' BAND_MID ! i + bandBufferL st' BAND_HIGH ! i
                  \<and> tempBufferR st' ! i
                      = bandBufferR st' BAND_SUB ! i + bandBufferR st' BAND_LOW ! i + bandBufferR st' BAND_MID ! i + bandBufferR st' BAND_HIGH ! i
                  \<and> sint (data out ! (2 * i)) = spec_int16 (tempBufferL st' ! i)
                  \<and> sint (data out ! (2 * i + 1)) = spec_int16 (tempBufferR st' ! i))"
    by (rule audio_process_muted [OF h])
qed

text \<open>
  The crossover after initialisation and a settings update that mutes the low band, on two
  samples; and the pipeline after initialisation with the low band muted (at a gain of 6 dB,
  with its compressor and limiter enabled and 5 ms of delay) on a full-scale block, where
  the mix is the sum of the other three bands.
\<close>

theorem C2_muted_band_is_silent_witness:
  "(\<exists>st st' outs' buf.
       Crossover_Init \<bind> Crossover_SetSettings (crossover low_muted_settings) = Some st
       \<and> (2::nat) \<le> length [1 / 2, - 1 / 4 :: real]
       \<and> xo_wf (crossoverFilters st) \<and> xo_counts (crossoverFilters st)
       \<and> xo_sized 2 st low_monitor \<and> xo_mute (crossoverFilters st) BAND_LOW \<noteq> 0
       \<and> Crossover_Process st [1 / 2, - 1 / 4] low_monitor 2 = Some (st', outs')
       \<and> lowBuffer st' ! 0 = 0 \<and> lowBuffer st' ! 1 = 0
       \<and> lowOut outs' = Some buf \<and> buf ! 0 = 0 \<and> buf ! 1 = 0)
   \<and> stages_keep_lengths copy_stages
   \<and> band_mute (crossover low_muted_settings) BAND_LOW \<noteq> 0
   \<and> bypassEnabled (fst (AudioProcessing_Init, ())) = 0
   \<and> length (data full_scale_block) = AUDIO_BUFFER_SIZE
   \<and> length (data empty_block) = AUDIO_BUFFER_SIZE
   \<and> AUDIO_BUFFER_SIZE div 2 \<le> length (tempBufferL (fst (AudioProcessing_Init, ())))
   \<and> AUDIO_BUFFER_SIZE div 2 \<le> length (tempBufferR (fst (AudioProcessing_Init, ())))
   \<and> band_sized (AUDIO_BUFFER_SIZE div 2) (fst (AudioProcessing_Init, ()))
   \<and> (\<exists>out st'.
         AudioProcessing_Process copy_stages (AudioProcessing_Init, ()) full_scale_block empty_block
           low_muted_settings 10 11 = Some (out, st', ())
         \<and> (\<forall>i<128. bandBufferL st' BAND_LOW ! i = 0 \<and> bandBufferR st' BAND_LOW ! i = 0
               \<and> tempBufferL st' ! i
                   = bandBufferL st' BAND_SUB ! i + bandBufferL st' BAND_MID ! i
                     + bandBufferL st' BAND_HIGH ! i
               \<and> tempBufferR st' ! i
                   = bandBufferR st' BAND_SUB ! i + bandBufferR st' BAND_MID ! i
                     + bandBufferR st' BAND_HIGH ! i
               \<and> sint (data out ! (2 * i)) = spec_int16 (tempBufferL st' ! i)
               \<and> sint (data out ! (2 * i + 1)) = spec_int16 (tempBufferR st' ! i)))"
proof -
  let ?in = "[1 / 2, - 1 / 4 :: real]"
  let ?sx = "(AudioProcessing_Init, ())"
  from init_then_low_muted obtain st where
    S: "Crossover_Init \<bind> Crossover_SetSettings (crossover low_muted_settings) = Some st"
    and a: "(2::nat) \<le> length ?in" "xo_wf (crossoverFilters st)" "xo_counts (crossoverFilters st)"
      "xo_sized 2 st low_monitor" "xo_mute (crossoverFilters st) BAND_LOW \<noteq> 0"
    by auto
  have A: "2 \<le> length ?in \<and> xo_wf (crossoverFilters st) \<and> xo_counts (crossoverFilters st)
      \<and> xo_sized 2 st low_monitor \<and> xo_mute (crossoverFilters st) BAND_LOW \<noteq> 0"
    by (intro conjI) (rule a)+
  have b: "stages_keep_lengths copy_stages"
    "band_mute (crossover low_muted_settings) BAND_LOW \<noteq> 0"
    "bypassEnabled (fst ?sx) = 0"
    "length (data full_scale_block) = AUDIO_BUFFER_SIZE"
    "length (data empty_block) = AUDIO_BUFFER_SIZE"
    "AUDIO_BUFFER_SIZE div 2 \<le> length (tempBufferL (fst ?sx))"
    "AUDIO_BUFFER_SIZE div 2 \<le> length (tempBufferR (fst ?sx))"
    "band_sized (AUDIO_BUFFER_SIZE div 2) (fst ?sx)"
    by (simp_all add: copy_stages_keep low_muted_settings_def AudioProcessing_Init_def
        full_scale_block_def empty_block_def AUDIO_BUFFER_SIZE_def AUDIO_TEMP_BUFFER_SIZE_def
        band_sized_iff)
  have B: "stages_keep_lengths copy_stages
      \<and> band_mute (crossover low_muted_settings) BAND_LOW \<noteq> 0
      \<and> bypassEnabled (fst ?sx) = 0
      \<and> length (data full_scale_block) = AUDIO_BUFFER_SIZE
      \<and> length (data empty_block) = AUDIO_BUFFER_SIZE
      \<and> AUDIO_BUFFER_SIZE div 2 \<le> length (tempBufferL (fst ?sx))
      \<and> AUDIO_BUFFER_SIZE div 2 \<le> length (tempBufferR (fst ?sx))
      \<and> band_sized (AUDIO_BUFFER_SIZE div 2) (fst ?sx)"
    by (intro conjI) (rule b)+
  note T = C2_muted_band_is_silent [where n = 2 and input = ?in and xst = st and outs = low_monitor
      and b = BAND_LOW and ext = copy_stages and pSettings = low_muted_settings and sx = ?sx
      and pInputBuffer = full_scale_block and pOutputBuffer = empty_block
      and tickStart = 10 and tickEnd = 11]
  from T [THEN conjunct1, THEN mp, OF A] obtain st' outs' where
    p: "Crossover_Process st ?in low_monitor 2 = Some (st', outs')"
    and z: "\<forall>i<2. xo_buffer st' BAND_LOW ! i = 0"
    and o: "\<forall>buf. xo_out outs' BAND_LOW = Some buf \<longrightarrow> (\<forall>i<2. buf ! i = 0)"
    and k: "\<forall>c. (xo_out outs' c = None) = (xo_out low_monitor c = None)"
    by (elim exE conjE) (rule that; assumption)
  have lb: "lowBuffer st' ! 0 = 0" "lowBuffer st' ! 1 = 0"
    using z [rule_format, of 0] z [rule_format, of 1] by simp_all
  from k [rule_format, of BAND_LOW] obtain buf where bf: "lowOut outs' = Some buf"
    by (auto simp: low_monitor_def)
  have bz: "buf ! 0 = 0" "buf ! 1 = 0"
    using o [rule_format, of buf 0] o [rule_format, of buf 1] bf by simp_all
  have P1: "\<exists>st st' outs' buf.
       Crossover_Init \<bind> Crossover_SetSettings (crossover low_muted_settings) = Some st
       \<and> (2::nat) \<le> length [1 / 2, - 1 / 4 :: real]
       \<and> xo_wf (crossoverFilters st) \<and> xo_counts (crossoverFilters st)
       \<and> xo_sized 2 st low_monitor \<and> xo_mute (crossoverFilters st) BAND_LOW \<noteq> 0
       \<and> Crossover_Process st [1 / 2, - 1 / 4] low_monitor 2 = Some (st', outs')
       \<and> lowBuffer st' ! 0 = 0 \<and> lowBuffer st' ! 1 = 0
       \<and> lowOut outs' = Some buf \<and> buf ! 0 = 0 \<and> buf ! 1 = 0"
    by (intro exI conjI) (rule S a p lb bf bz)+
  from T [THEN conjunct2, THEN mp, OF B] obtain out st2 x2 where
    q: "AudioProcessing_Process copy_stages ?sx full_scale_block empty_block
           low_muted_settings 10 11 = Some (out, st2, x2)"
    and v: "\<forall>i < AUDIO_BUFFER_SIZE div 2.
                  bandBufferL st2 BAND_LOW ! i = 0 \<and> bandBufferR st2 BAND_LOW ! i = 0
                  \<and> tempBufferL st2 ! i
                      = bandBufferL st2 BAND_SUB ! i + bandBufferL st2 BAND_LOW ! i + bandBufferL st2 BAND_MID ! i + bandBufferL st2 BAND_HIGH ! i
                  \<and> tempBufferR st2 ! i
                      = bandBufferR st2 BAND_SUB ! i + bandBufferR st2 BAND_LOW ! i + bandBufferR st2 BAND_MID ! i + bandBufferR st2 BAND_HIGH ! i
                  \<and> sint (data out ! (2 * i)) = spec_int16 (tempBufferL st2 ! i)
                  \<and> sint (data out ! (2 * i + 1)) = spec_int16 (tempBufferR st2 ! i)"
    by (elim exE conjE) (rule that; assumption)
  have q': "AudioProcessing_Process copy_stages ?sx full_scale_block empty_block
           low_muted_settings 10 11 = Some (out, st2, ())"
    using q by simp
  have v': "\<forall>i<128. bandBufferL st2 BAND_LOW ! i = 0 \<and> bandBufferR st2 BAND_LOW ! i = 0
               \<and> tempBufferL st2 ! i
                   = bandBufferL st2 BAND_SUB ! i + bandBufferL st2 BAND_MID ! i
                     + bandBufferL st2 BAND_HIGH ! i
               \<and> tempBufferR st2 ! i
                   = bandBufferR st2 BAND_SUB ! i + bandBufferR st2 BAND_MID ! i
                     + bandBufferR st2 BAND_HIGH ! i
               \<and> sint (data out ! (2 * i)) = spec_int16 (tempBufferL st2 ! i)
               \<and> sint (data out ! (2 * i + 1)) = spec_int16 (tempBufferR st2 ! i)"
  proof (intro allI impI)
    fix i :: nat assume "i < 128"
    then have "i < AUDIO_BUFFER_SIZE div 2" by (simp add: AUDIO_BUFFER_SIZE_def)
    from v [rule_format, OF this] show "bandBufferL st2 BAND_LOW ! i = 0 \<and> bandBufferR st2 BAND_LOW ! i = 0
               \<and> tempBufferL st2 ! i
                   = bandBufferL st2 BAND_SUB ! i + bandBufferL st2 BAND_MID ! i
                     + bandBufferL st2 BAND_HIGH ! i
               \<and> tempBufferR st2 ! i
                   = bandBufferR st2 BAND_SUB ! i + bandBufferR st2 BAND_MID ! i
                     + bandBufferR st2 BAND_HIGH ! i
               \<and> sint (data out ! (2 * i)) = spec_int16 (tempBufferL st2 ! i)
               \<and> sint (data out ! (2 * i + 1)) = spec_int16 (tempBufferR st2 ! i)"
      by (simp add: all_bands_def)
  qed
  have P2: "\<exists>out st'.
         AudioProcessing_Process copy_stages (AudioProcessing_Init, ()) full_scale_block empty_block
           low_muted_settings 10 11 = Some (out, st', ())
         \<and> (\<forall>i<128. bandBufferL st' BAND_LOW ! i = 0 \<and> bandBufferR st' BAND_LOW ! i = 0
               \<and> tempBufferL st' ! i
                   = bandBufferL st' BAND_SUB ! i + bandBufferL st' BAND_MID ! i
                     + bandBufferL st' BAND_HIGH ! i
               \<and> tempBufferR st' ! i
                   = bandBufferR st' BAND_SUB ! i + bandBufferR st' BAND_MID ! i
                     + bandBufferR st' BAND_HIGH ! i
               \<and> sint (data out ! (2 * i)) = spec_int16 (tempBufferL st' ! i)
               \<and> sint (data out ! (2 * i + 1)) = spec_int16 (tempBufferR st' ! i))"
    by (intro exI conjI) (rule q' v')+
  show ?thesis by (intro conjI) (rule P1 b P2)+
qed

end
